theory Spec2Isabelle
  imports Complex_Main "HOL-Library.Signed_Division"
begin

section \<open>The probe driver (ZProbe)\<close>

text \<open>
  The driver of \<^verbatim>\<open>src/modules/tools/zprobe/ZProbe.cpp\<close>. The C++ \<^verbatim>\<open>float\<close> is
  modelled by \<^typ>\<open>real\<close> (no rounding, no NaN: a NaN argument of
  \<^verbatim>\<open>coordinated_move\<close> is \<^term>\<open>None\<close>), the step counters of the steppers
  (\<^verbatim>\<open>uint32_t\<close>) by \<^typ>\<open>nat\<close> and the \<^verbatim>\<open>int\<close> step counts by \<^typ>\<open>int\<close>; counters
  stay below \<open>2^31\<close>, so the conversions between them do not wrap.

  What the driver prints is kept as a list of messages, what it asks of the steppers,
  the planner and the robot as a list of commands, both in the order of the calls. The
  streams are not told apart, and the positions printed with \<^verbatim>\<open>[PRB:...]\<close> are
  left out.
\<close>

datatype axis = X_AXIS | Y_AXIS | Z_AXIS

datatype message = Msg string "real list"  \<comment> \<open>the format string of a \<^verbatim>\<open>printf\<close> and its arguments\<close>

datatype command =
    Stepper_move axis bool real      \<comment> \<open>\<^verbatim>\<open>STEPPER[a]->move(dir, steps, 0)\<close>\<close>
  | Stepper_stop axis                \<comment> \<open>\<^verbatim>\<open>STEPPER[a]->move(0, 0)\<close>\<close>
  | Set_speed axis nat               \<comment> \<open>\<^verbatim>\<open>STEPPER[a]->set_speed(rate)\<close>\<close>
  | Set_moved_last_block axis bool
  | Turn_enable_pins_on
  | Coordinated_move "real option" "real option" "real option" real bool
      \<comment> \<open>x, y, z, feedrate (mm/s), relative\<close>
  | Wait_for_empty_queue
  | Home
  | Set_last_probe_position bool
  | Reset_axis_position real axis
  | Reset_position_from_actuators
  | Set_compensation_transform bool  \<comment> \<open>\<^const>\<open>False\<close>: set to \<^verbatim>\<open>nullptr\<close>; \<^const>\<open>True\<close>: restored\<close>
  | Set_disable_segmentation bool
  | Set_inverting bool
  | Force_finish_moves               \<comment> \<open>\<^verbatim>\<open>force_finish_move()\<close> on every actuator\<close>
  | Set_add_nl                       \<comment> \<open>\<^verbatim>\<open>gcode->add_nl = true\<close>\<close>
  | Halt_event
  | Console_M665_Z real              \<comment> \<open>the console line \<^verbatim>\<open>M665 Z%1.5f\<close>\<close>
  | Idle_event                       \<comment> \<open>\<^verbatim>\<open>THEKERNEL->call_event(ON_IDLE)\<close> of a strategy\<close>

record zprobe =
  debounce_count :: nat
  decelerate_runout :: real
  decelerate_on_trigger :: bool
  is_delta :: bool
  is_rdelta :: bool
  reverse_z :: bool
  slow_feedrate :: real
  fast_feedrate :: real
  return_feedrate :: real
  max_z :: real
  probe_height :: real
  invert_override :: bool
  running :: bool
  accelerating :: bool
  current_feedrate :: real
  runout_steps :: nat
  steps_at_decel_end :: int
  has_exceeded_runout :: bool
  probing :: bool
  probe_detected :: bool
  steps_per_mm :: "axis \<Rightarrow> real"                \<comment> \<open>\<^verbatim>\<open>STEPS_PER_MM(a)\<close>\<close>
  planner_acceleration :: real                  \<comment> \<open>\<^verbatim>\<open>THEKERNEL->planner->get_acceleration()\<close>\<close>
  planner_z_acceleration :: real                \<comment> \<open>\<^verbatim>\<open>THEKERNEL->planner->get_z_acceleration()\<close>\<close>
  acceleration_ticks_per_second :: real         \<comment> \<open>\<^verbatim>\<open>THEKERNEL->acceleration_ticks_per_second\<close>\<close>
  out :: "message list"
  cmds :: "command list"

definition printf :: "message \<Rightarrow> zprobe \<Rightarrow> zprobe" where
  "printf m z = z\<lparr>out := out z @ [m]\<rparr>"

definition issue :: "command \<Rightarrow> zprobe \<Rightarrow> zprobe" where
  "issue c z = z\<lparr>cmds := cmds z @ [c]\<rparr>"

subsection \<open>Configuration\<close>

definition setDecelerateOnTrigger :: "bool \<Rightarrow> zprobe \<Rightarrow> zprobe" where
  "setDecelerateOnTrigger t z =
     (if decelerate_runout z = -1
      then (printf (Msg ''Can't enable on-trigger deceleration because decelerate_runout isn't set.'' []) z)\<lparr>decelerate_on_trigger := False\<rparr>
      else z\<lparr>decelerate_on_trigger := t\<rparr>)"

text \<open>
  The values \<^verbatim>\<open>on_config_reload\<close> reads, \<^term>\<open>None\<close> for a key the configuration does
  not set. The loading of the levelling strategies is left out.
\<close>

record config =
  cfg_debounce_count :: "nat option"
  cfg_decelerate_runout :: "real option"
  cfg_decelerate_on_trigger :: "bool option"
  cfg_delta_homing :: "bool option"
  cfg_rdelta_homing :: "bool option"
  cfg_probe_height :: "real option"
  cfg_slow_feedrate :: "real option"
  cfg_fast_feedrate :: "real option"
  cfg_return_feedrate :: "real option"
  cfg_reverse_z :: "bool option"
  cfg_gamma_max :: "real option"

definition by_default :: "'a \<Rightarrow> 'a option \<Rightarrow> 'a" where
  "by_default d v = (case v of None \<Rightarrow> d | Some x \<Rightarrow> x)"

definition on_config_reload :: "config \<Rightarrow> zprobe \<Rightarrow> zprobe" where
  "on_config_reload c z0 =
     (let z = z0\<lparr>debounce_count := by_default 0 (cfg_debounce_count c)\<rparr>;
          z = z\<lparr>decelerate_runout := by_default (-1) (cfg_decelerate_runout c)\<rparr>;
          z = setDecelerateOnTrigger (by_default False (cfg_decelerate_on_trigger c)) z;
          z = z\<lparr>is_delta := by_default False (cfg_delta_homing c)\<rparr>;
          z = z\<lparr>is_rdelta := by_default False (cfg_rdelta_homing c)\<rparr>;
          z = z\<lparr>probe_height := by_default 5 (cfg_probe_height c)\<rparr>;
          z = z\<lparr>slow_feedrate := by_default 5 (cfg_slow_feedrate c)\<rparr>;
          z = z\<lparr>fast_feedrate := by_default 100 (cfg_fast_feedrate c)\<rparr>;
          z = z\<lparr>return_feedrate := by_default 0 (cfg_return_feedrate c)\<rparr>;
          z = z\<lparr>reverse_z := by_default False (cfg_reverse_z c)\<rparr>;
          z = z\<lparr>max_z := by_default 500 (cfg_gamma_max c)\<rparr>
      in z)"

subsection \<open>Moves through the planner, and the return move\<close>

definition zsteps_to_mm :: "zprobe \<Rightarrow> real \<Rightarrow> real" where
  "zsteps_to_mm z steps = steps / steps_per_mm z Z_AXIS"

text \<open>
  \<^verbatim>\<open>coordinated_move\<close> writes a G-code line (\<^verbatim>\<open>G91 G0 ... G90\<close> when relative,
  \<^verbatim>\<open>G53 G0 ...\<close> otherwise) with the coordinates that are not NaN, sends it to the
  console and waits for the queue to empty. The line is kept as its arguments.
\<close>

definition coordinated_move ::
  "real option \<Rightarrow> real option \<Rightarrow> real option \<Rightarrow> real \<Rightarrow> bool \<Rightarrow> zprobe \<Rightarrow> zprobe" where
  "coordinated_move x y z' feedrate relative z =
     issue Wait_for_empty_queue (issue (Coordinated_move x y z' feedrate relative) z)"

definition home :: "zprobe \<Rightarrow> zprobe" where
  "home z = issue Home z"

definition return_probe :: "int \<Rightarrow> bool \<Rightarrow> zprobe \<Rightarrow> bool \<times> zprobe" where
  "return_probe steps reverse z0 =
     (let z = z0\<lparr>accelerating := True\<rparr>;
          fr = slow_feedrate z * 2;
          fr = (if fr > fast_feedrate z then fast_feedrate z else fr);
          z = coordinated_move None None (Some (zsteps_to_mm z (real_of_int steps))) fr True z;
          z = z\<lparr>running := False\<rparr>;
          z = issue (Stepper_stop X_AXIS) z;
          z = issue (Stepper_stop Y_AXIS) z;
          z = issue (Stepper_stop Z_AXIS) z
      in (True, z))"

subsection \<open>The acceleration tick handler\<close>

text \<open>
  What a stepper answers when it is asked: \<^verbatim>\<open>is_moving()\<close>, \<^verbatim>\<open>get_stepped()\<close>,
  \<^verbatim>\<open>get_steps_per_second()\<close>. The steppers belong to the step ticker, so every
  reading is an input of the model.
\<close>

record stepper =
  is_moving :: bool
  get_stepped :: nat
  get_steps_per_second :: nat

definition acc_of :: "axis \<Rightarrow> zprobe \<Rightarrow> real" where
  "acc_of c z = (if c = Z_AXIS then planner_z_acceleration z else planner_acceleration z)"

definition accelerate :: "axis \<Rightarrow> (axis \<Rightarrow> stepper) \<Rightarrow> zprobe \<Rightarrow> zprobe" where
  "accelerate c s z =
     (let current_rate = get_steps_per_second (s c);
          target_rate = nat \<lfloor>current_feedrate z\<rfloor>;
          acc = acc_of c z;
          current_rate =
            (if current_rate < target_rate
             then let rate_increase = nat \<lfloor>(acc / acceleration_ticks_per_second z) * steps_per_mm z c\<rfloor>
                  in min target_rate (current_rate + rate_increase)
             else current_rate);
          current_rate = (if current_rate > target_rate then target_rate else current_rate)
      in issue (Set_speed c current_rate) z)"

definition decelerate :: "axis \<Rightarrow> (axis \<Rightarrow> stepper) \<Rightarrow> zprobe \<Rightarrow> zprobe" where
  "decelerate c s z =
     (let stepped = get_stepped (s c) in
      if stepped \<ge> runout_steps z
      then (issue (Stepper_stop c) (issue (Set_speed c 0) z))
             \<lparr>steps_at_decel_end := int stepped, has_exceeded_runout := True\<rparr>
      else
        let current_rate = int (get_steps_per_second (s c));
            target_rate = 0;
            acc = acc_of c z;
            current_rate =
              (if current_rate > target_rate
               then let rate_decrease = \<lfloor>(acc / acceleration_ticks_per_second z) * steps_per_mm z c\<rfloor>;
                        current_rate = current_rate - rate_decrease
                    in if real_of_int current_rate \<le> 20.1 then target_rate else current_rate
               else current_rate)
        in if current_rate = 0
           then (issue (Stepper_stop c) (issue (Set_speed c 0) z))\<lparr>steps_at_decel_end := int stepped\<rparr>
           else issue (Set_speed c (nat current_rate)) z)"

definition tick_axis :: "axis \<Rightarrow> (axis \<Rightarrow> stepper) \<Rightarrow> zprobe \<Rightarrow> zprobe" where
  "tick_axis c s z =
     (if is_moving (s c)
      then (if accelerating z then accelerate c s z else decelerate c s z)
      else z)"

definition acceleration_tick :: "(axis \<Rightarrow> stepper) \<Rightarrow> zprobe \<Rightarrow> zprobe" where
  "acceleration_tick s z =
     (if \<not> running z then z
      else let z = tick_axis Z_AXIS s z
           in if is_delta z \<or> is_rdelta z
              then tick_axis Y_AXIS s (tick_axis X_AXIS s z)
              else z)"

subsection \<open>The polling loop\<close>

text \<open>
  \<^verbatim>\<open>wait_for_probe\<close> runs in the foreground and the tick handler interrupts it. A run
  is a list of events: \<^term>\<open>Tick s\<close> is one call of the tick handler, with the steppers
  as they are then, and \<^term>\<open>Fg r\<close> lets the foreground run its next block of
  statements with the readings \<open>r\<close> it takes there. The blocks end where the foreground
  and the handler share a variable, and the program counter says which block is next:
  \<^item> \<^term>\<open>At_poll debounce\<close>: one turn of the \<^verbatim>\<open>while(true)\<close> loop, up to and with
    \<^verbatim>\<open>accelerating = false\<close> when the probe has triggered;
  \<^item> \<^term>\<open>At_stop\<close>: the stop commands and the assignment of \<^verbatim>\<open>runout_steps\<close>;
  \<^item> \<^term>\<open>At_spin\<close>: one test of the loop that waits for the deceleration to end;
  \<^item> \<^term>\<open>At_exit\<close>: \<^verbatim>\<open>running = false; accelerating = true\<close>;
  \<^item> \<^term>\<open>At_check\<close>: the test of \<^verbatim>\<open>has_exceeded_runout\<close> and the return.
  A list of events that ends before the function returns leaves it running.
\<close>

record reading =
  is_halted :: bool
  steppers :: "axis \<Rightarrow> stepper"
  pin_get :: bool

datatype event = Tick "axis \<Rightarrow> stepper" | Fg reading

datatype pc = At_poll nat | At_stop | At_spin | At_exit | At_check | Returned bool

definition stop_if_moving :: "axis \<Rightarrow> (axis \<Rightarrow> stepper) \<Rightarrow> zprobe \<Rightarrow> zprobe" where
  "stop_if_moving c s z =
     (if is_moving (s c)
      then (if \<not> decelerate_on_trigger z then issue (Stepper_stop c) z else z)
      else z)"

fun fg_step :: "reading \<Rightarrow> pc \<times> int \<times> zprobe \<Rightarrow> pc \<times> int \<times> zprobe" where
  "fg_step r (At_poll debounce, steps, z) =
     (if is_halted r then (Returned False, steps, z)
      else
        let delta = (is_delta z \<or> is_rdelta z) in
        if \<not> is_moving (steppers r Z_AXIS) \<and>
           (\<not> delta \<or> (\<not> is_moving (steppers r Y_AXIS) \<and> \<not> is_moving (steppers r Z_AXIS)))
        then (Returned False, steps, z)
        else if pin_get r
        then (if debounce < debounce_count z
              then (At_poll (debounce + 1), steps, z)
              else (At_stop, int (get_stepped (steppers r Z_AXIS)),
                    if decelerate_on_trigger z then z\<lparr>accelerating := False\<rparr> else z))
        else (At_poll 0, steps, z))"
| "fg_step r (At_stop, steps, z) =
     (let delta = (is_delta z \<or> is_rdelta z);
          z = (if delta
               then stop_if_moving Z_AXIS (steppers r)
                      (stop_if_moving Y_AXIS (steppers r) (stop_if_moving X_AXIS (steppers r) z))
               else stop_if_moving Z_AXIS (steppers r) z)
      in if decelerate_on_trigger z
         then (At_spin, steps,
               z\<lparr>runout_steps :=
                    nat \<lfloor>real (nat steps) + decelerate_runout z * steps_per_mm z Z_AXIS\<rfloor>\<rparr>)
         else (At_check, steps, z))"
| "fg_step r (At_spin, steps, z) =
     (if is_moving (steppers r Z_AXIS) \<or>
         (is_delta z \<and> (is_moving (steppers r X_AXIS) \<or> is_moving (steppers r Y_AXIS)))
      then (At_spin, steps, z)
      else (At_exit, steps, z))"
| "fg_step r (At_exit, steps, z) = (At_check, steps, z\<lparr>running := False, accelerating := True\<rparr>)"
| "fg_step r (At_check, steps, z) =
     (if has_exceeded_runout z
      then (Returned False, steps, printf (Msg ''[!!] Check zprobe.decelerate_runout in config and/or try higher accel/lower speed.'' [])
              (printf (Msg ''[!!] Runout protection was triggered!'' []) z))
      else (Returned True, steps, z))"
| "fg_step r (Returned b, steps, z) = (Returned b, steps, z)"

fun step :: "event \<Rightarrow> pc \<times> int \<times> zprobe \<Rightarrow> pc \<times> int \<times> zprobe" where
  "step (Tick s) (p, steps, z) = (p, steps, acceleration_tick s z)"
| "step (Fg r) c = fg_step r c"

definition exec :: "event list \<Rightarrow> pc \<times> int \<times> zprobe \<Rightarrow> pc \<times> int \<times> zprobe" where
  "exec es c = foldl (\<lambda>c e. step e c) c es"

text \<open>
  \<^verbatim>\<open>bool wait_for_probe(int& steps)\<close>: the value returned, \<^verbatim>\<open>steps\<close> and the driver
  when the function returns within the events given, \<^term>\<open>None\<close> when it is still
  running at their end.
\<close>

definition wait_for_probe :: "event list \<Rightarrow> int \<Rightarrow> zprobe \<Rightarrow> (bool \<times> int \<times> zprobe) option" where
  "wait_for_probe es steps z =
     (case exec es (At_poll 0, steps, z) of
        (Returned b, steps', z') \<Rightarrow> Some (b, steps', z')
      | _ \<Rightarrow> None)"

definition run_probe ::
  "event list \<Rightarrow> int \<Rightarrow> real \<Rightarrow> real \<Rightarrow> bool \<Rightarrow> zprobe \<Rightarrow> (bool \<times> int \<times> zprobe) option" where
  "run_probe es steps feedrate max_dist reverse z0 =
     (let z = z0\<lparr>has_exceeded_runout := False\<rparr>;
          z = issue (Set_moved_last_block Z_AXIS False)
                (issue (Set_moved_last_block Y_AXIS False)
                  (issue (Set_moved_last_block X_AXIS False) z));
          z = z\<lparr>accelerating := True\<rparr>;
          z = issue Turn_enable_pins_on z;
          z = z\<lparr>current_feedrate := feedrate * steps_per_mm z Z_AXIS\<rparr>;
          maxz = (if max_dist < 0 then max_z z * 2 else max_dist);
          dir = ((\<not> reverse_z z) \<noteq> reverse);
          z = issue (Stepper_move Z_AXIS dir (maxz * steps_per_mm z Z_AXIS)) z;
          z = (if is_delta z \<or> is_rdelta z
               then issue (Stepper_move Y_AXIS dir (maxz * steps_per_mm z Y_AXIS))
                      (issue (Stepper_move X_AXIS dir (maxz * steps_per_mm z X_AXIS)) z)
               else z);
          z = z\<lparr>running := True\<rparr>
      in case wait_for_probe es steps z of
           None \<Rightarrow> None
         | Some (r, steps', z') \<Rightarrow> Some (r, steps', z'\<lparr>running := False\<rparr>))"

subsection \<open>G-code dispatch\<close>

record gcode =
  has_g :: bool
  g_num :: nat                       \<comment> \<open>\<^verbatim>\<open>gcode->g\<close>\<close>
  subcode :: nat
  has_m :: bool
  m_num :: nat                       \<comment> \<open>\<^verbatim>\<open>gcode->m\<close>\<close>
  letters :: "char \<rightharpoonup> real"

definition has_letter :: "gcode \<Rightarrow> char \<Rightarrow> bool" where
  "has_letter gc c = (letters gc c \<noteq> None)"

definition get_value :: "gcode \<Rightarrow> char \<Rightarrow> real" where
  "get_value gc c = (case letters gc c of None \<Rightarrow> 0 | Some v \<Rightarrow> v)"

text \<open>
  \<^verbatim>\<open>read_probe\<close> is called by the slow ticker, a thousand times a second, with the pin
  as it reads then.
\<close>

definition read_probe :: "bool \<Rightarrow> zprobe \<Rightarrow> zprobe" where
  "read_probe pin z =
     (if \<not> probing z \<or> probe_detected z then z
      else if pin then issue Force_finish_moves (z\<lparr>probe_detected := True\<rparr>)
      else z)"

text \<open>
  \<^verbatim>\<open>probe_XYZ\<close>: \<open>samples\<close> are the readings of the pin that the slow ticker takes
  while the planned move runs.
\<close>

definition probe_XYZ :: "bool list \<Rightarrow> gcode \<Rightarrow> axis \<Rightarrow> zprobe \<Rightarrow> zprobe" where
  "probe_XYZ samples gc a z0 =
     (let z = z0\<lparr>probing := True, probe_detected := False\<rparr>;
          z = issue (Set_disable_segmentation True) z;
          rate = (if has_letter gc CHR ''F'' then get_value gc CHR ''F'' * 60 else slow_feedrate z);
          z = (case a of
                 X_AXIS \<Rightarrow> issue (Coordinated_move (Some (get_value gc CHR ''X'')) (Some 0) (Some 0) rate True) z
               | Y_AXIS \<Rightarrow> issue (Coordinated_move (Some 0) (Some (get_value gc CHR ''Y'')) (Some 0) rate True) z
               | Z_AXIS \<Rightarrow> issue (Coordinated_move (Some 0) (Some 0) (Some (get_value gc CHR ''Z'')) rate True) z);
          z = foldl (\<lambda>z pin. read_probe pin z) z samples;
          z = issue Wait_for_empty_queue z;
          z = z\<lparr>probing := False\<rparr>;
          z = issue (Set_disable_segmentation False) z;
          probeok = probe_detected z;
          z = printf (Msg ''[PRB:%1.3f,%1.3f,%1.3f:%d]'' [of_bool probeok]) z;
          z = issue (Set_last_probe_position probeok) z
      in if \<not> probeok \<and> subcode gc = 2
         then issue Halt_event (printf (Msg ''ALARM:Probe fail'' []) z)
         else if probeok then issue Reset_position_from_actuators z
         else z)"

text \<open>
  The levelling strategies that are loaded, each by its \<^verbatim>\<open>handleGcode\<close>; the first
  that answers true ends the search.
\<close>

type_synonym handler = "gcode \<Rightarrow> zprobe \<Rightarrow> bool \<times> zprobe"

fun dispatch :: "handler list \<Rightarrow> gcode \<Rightarrow> zprobe \<Rightarrow> bool \<times> zprobe" where
  "dispatch [] gc z = (False, z)"
| "dispatch (s # ss) gc z =
     (case s gc z of (True, z') \<Rightarrow> (True, z') | (False, z') \<Rightarrow> dispatch ss gc z')"

text \<open>What \<^verbatim>\<open>on_gcode_received\<close> reads of its surroundings while it handles one line.\<close>

record surroundings =
  pin_connected :: bool              \<comment> \<open>\<^verbatim>\<open>this->pin.connected()\<close>\<close>
  pin_now :: bool                    \<comment> \<open>\<^verbatim>\<open>this->pin.get()\<close> when the line is taken up\<close>
  pin_is_inverting :: bool           \<comment> \<open>\<^verbatim>\<open>pin.is_inverting()\<close>\<close>
  strategies :: "handler list"
  probe_run :: "event list"          \<comment> \<open>the events of the probe that G30 runs\<close>
  move_samples :: "bool list"        \<comment> \<open>the pin while the move of G38 runs\<close>

definition on_gcode_received :: "surroundings \<Rightarrow> gcode \<Rightarrow> zprobe \<Rightarrow> zprobe option" where
  "on_gcode_received env gc z =
     (if has_g gc \<and> g_num gc \<ge> 29 \<and> g_num gc \<le> 32 then
        (if \<not> pin_connected env then Some (printf (Msg ''ZProbe not connected.'' []) z)
         else if pin_now env then Some (printf (Msg ''ZProbe triggered before move, aborting command.'' []) z)
         else if g_num gc = 30 then
           (let z = issue Wait_for_empty_queue z;
                reverse = (has_letter gc CHR ''R'' \<and> get_value gc CHR ''R'' \<noteq> 0);
                rate = (if has_letter gc CHR ''F'' then get_value gc CHR ''F'' / 60 else slow_feedrate z)
            in case run_probe (probe_run env) 0 rate (-1) reverse z of
                 None \<Rightarrow> None
               | Some (probe_result, steps, z) \<Rightarrow>
                   if probe_result then
                     (let z = printf (Msg ''Z:%1.4f C:%d'' [zsteps_to_mm z (real_of_int steps), real_of_int steps]) z;
                          z = issue (Set_last_probe_position True) z
                      in if has_letter gc CHR ''Z'' \<and> \<not> is_rdelta z
                         then Some (issue (Reset_axis_position (get_value gc CHR ''Z'') Z_AXIS) z)
                         else if decelerate_on_trigger z
                         then Some (snd (return_probe (steps_at_decel_end z) reverse z))
                         else Some (snd (return_probe steps reverse z)))
                   else Some (issue (Set_last_probe_position False) (printf (Msg ''ZProbe not triggered'' []) z)))
         else
           (case dispatch (strategies env) gc z of
              (True, z) \<Rightarrow> Some z
            | (False, z) \<Rightarrow> Some (printf (Msg ''No strategy found to handle G%d'' [real (g_num gc)]) z)))
      else if has_g gc \<and> g_num gc = 38 then
        (if subcode gc \<noteq> 2 \<and> subcode gc \<noteq> 3 then Some (printf (Msg ''error:Only G38.2 and G38.3 are supported'' []) z)
         else if \<not> pin_connected env then Some (printf (Msg ''error:ZProbe not connected.'' []) z)
         else if pin_now env then Some (printf (Msg ''error:ZProbe triggered before move, aborting command.'' []) z)
         else
           (let z = issue Wait_for_empty_queue z;
                z = issue (Set_compensation_transform False) z;
                z = (if has_letter gc CHR ''X'' then probe_XYZ (move_samples env) gc X_AXIS z
                     else if has_letter gc CHR ''Y'' then probe_XYZ (move_samples env) gc Y_AXIS z
                     else if has_letter gc CHR ''Z'' then probe_XYZ (move_samples env) gc Z_AXIS z
                     else printf (Msg ''error:at least one of X Y or Z must be specified'' []) z)
            in Some (issue (Set_compensation_transform True) z)))
      else if has_m gc then
        (if m_num gc = 119 then Some (issue Set_add_nl (printf (Msg '' Probe: %d'' [of_bool (pin_now env)]) z))
         else if m_num gc = 670 then
           (let z = (if has_letter gc CHR ''S'' then z\<lparr>slow_feedrate := get_value gc CHR ''S''\<rparr> else z);
                z = (if has_letter gc CHR ''K'' then z\<lparr>fast_feedrate := get_value gc CHR ''K''\<rparr> else z);
                z = (if has_letter gc CHR ''R'' then z\<lparr>return_feedrate := get_value gc CHR ''R''\<rparr> else z);
                z = (if has_letter gc CHR ''Z'' then z\<lparr>max_z := get_value gc CHR ''Z''\<rparr> else z);
                z = (if has_letter gc CHR ''H'' then z\<lparr>probe_height := get_value gc CHR ''H''\<rparr> else z);
                z = (if has_letter gc CHR ''I''
                     then let z = z\<lparr>invert_override := (get_value gc CHR ''I'' \<noteq> 0)\<rparr>
                          in issue (Set_inverting (pin_is_inverting env \<noteq> invert_override z)) z
                     else z)
            in Some z)
         else
           (let z = (if m_num gc = 500 \<or> m_num gc = 503
                     then printf (Msg ''M670 S%1.2f K%1.2f R%1.2f Z%1.2f H%1.2f''
                                [slow_feedrate z, fast_feedrate z, return_feedrate z, max_z z, probe_height z]) z
                     else z)
            in Some (snd (dispatch (strategies env) gc z))))
      else Some z)"

section \<open>The calibration strategy (ComprehensiveDeltaStrategy)\<close>

text \<open>
  The strategy works on its own fields, on the probe driver and on three things of the
  firmware that it reaches through the kernel: the trim of the endstops
  (\<^verbatim>\<open>PublicData\<close>, answered only when the endstops module is there), the options of
  the arm solution, and the probe itself. A run of the probe is the driver's
  \<^const>\<open>run_probe\<close> on the events that the machine produces meanwhile: \<open>probe_events w n\<close>
  are those of the \<open>n\<close>-th run since the start.

  A C++ call that dereferences a null pointer or divides an integer by zero has no
  defined result; it is the fault \<^term>\<open>Inl f\<close> here, and so is a probe whose events
  end before it returns. \<open>probed\<close> keeps, for every successful \<^verbatim>\<open>do_probe_at\<close>, the
  point and the steps it has measured.
\<close>

datatype fault = Null_dereference | Division_by_zero | Probe_unfinished

record strategy =
  zp :: zprobe
  geom_dirty :: bool
  probe_radius :: real
  probe_smoothing :: nat
  probe_acceleration :: real
  probe_from_height :: real
  probe_offset_x :: real
  probe_offset_y :: real
  probe_offset_z :: real
  mm_probe_height_to_trigger :: real
  bed_height :: real
  endstop_trim :: "(real \<times> real \<times> real) option"   \<comment> \<open>\<^term>\<open>None\<close>: no endstops module answers\<close>
  arm_options :: "(char \<rightharpoonup> real) option"              \<comment> \<open>\<^term>\<open>None\<close>: the arm solution has no options\<close>
  probe_events :: "nat \<Rightarrow> event list"
  probes_run :: nat
  indeterminate :: int                                \<comment> \<open>what an uninitialised \<^verbatim>\<open>int\<close> holds\<close>
  probed :: "(real \<times> real \<times> int) list"

definition on_zprobe :: "(zprobe \<Rightarrow> zprobe) \<Rightarrow> strategy \<Rightarrow> strategy" where
  "on_zprobe f w = w\<lparr>zp := f (zp w)\<rparr>"

definition kprintf :: "message \<Rightarrow> strategy \<Rightarrow> strategy" where
  \<comment> \<open>\<^verbatim>\<open>_printf\<close>, that is \<^verbatim>\<open>THEKERNEL->streams->printf\<close>\<close>
  "kprintf m w = on_zprobe (printf m) w"

text \<open>
  The values \<^verbatim>\<open>handleConfig\<close> reads. The test points and the depth maps, which no
  function below reads, are left out.
\<close>

record strategy_config =
  cfg_strategy_probe_radius :: "real option"
  cfg_zprobe_probe_radius :: "real option"
  cfg_probe_smoothing :: "int option"
  cfg_probe_acceleration :: "real option"
  cfg_probe_offset_x :: "real option"
  cfg_probe_offset_y :: "real option"
  cfg_probe_offset_z :: "real option"

definition handleConfig :: "strategy_config \<Rightarrow> strategy \<Rightarrow> bool \<times> strategy" where
  "handleConfig c w0 =
     (let w = w0\<lparr>probe_from_height := -1\<rparr>;
          w = w\<lparr>geom_dirty := True\<rparr>;
          r = by_default (-1) (cfg_strategy_probe_radius c);
          r = (if r = -1 then by_default 100 (cfg_zprobe_probe_radius c) else r);
          w = w\<lparr>probe_radius := r\<rparr>;
          ps = by_default 1 (cfg_probe_smoothing c);
          ps = (if ps < 1 then 1 else ps);
          ps = (if ps > 10 then 10 else ps);
          w = w\<lparr>probe_smoothing := nat ps\<rparr>;
          w = w\<lparr>probe_acceleration := by_default 200 (cfg_probe_acceleration c)\<rparr>;
          w = w\<lparr>probe_offset_x := by_default 0 (cfg_probe_offset_x c)\<rparr>;
          w = w\<lparr>probe_offset_y := by_default 0 (cfg_probe_offset_y c)\<rparr>;
          w = w\<lparr>probe_offset_z := by_default 0 (cfg_probe_offset_z c)\<rparr>
      in (True, w))"

subsection \<open>Probing a point\<close>

text \<open>
  Modelled from the spec: the inline overload \<^verbatim>\<open>run_probe(int& steps, bool fast = false)\<close>
  of \<^verbatim>\<open>ZProbe.h\<close>, which is not in the sources. It is the one that the comment in
  \<^verbatim>\<open>ZProbe.cpp\<close> shows (the fast or the slow feedrate), with the spec's default
  distance (a negative one, read as twice \<^verbatim>\<open>max_z\<close>) and no reverse.
\<close>

definition run_probe_inline :: "bool \<Rightarrow> int \<Rightarrow> strategy \<Rightarrow> fault + (bool \<times> int \<times> strategy)" where
  "run_probe_inline fast steps w =
     (let feedrate = (if fast then fast_feedrate (zp w) else slow_feedrate (zp w))
      in case run_probe (probe_events w (probes_run w)) steps feedrate (-1) False (zp w) of
           None \<Rightarrow> Inl Probe_unfinished
         | Some (r, steps', z') \<Rightarrow> Inr (r, steps', w\<lparr>zp := z', probes_run := probes_run w + 1\<rparr>))"

primrec probe_smoothing_loop ::
  "nat \<Rightarrow> real \<Rightarrow> real \<Rightarrow> int \<Rightarrow> int \<Rightarrow> strategy \<Rightarrow> fault + (bool \<times> int \<times> strategy)" where
  "probe_smoothing_loop 0 x y steps result w = Inr (True, steps, w)"
| "probe_smoothing_loop (Suc n) x y steps result w =
     (case run_probe_inline False result w of
        Inl f \<Rightarrow> Inl f
      | Inr (ok, result, w) \<Rightarrow>
          if \<not> ok
          then Inr (False, steps,
                 kprintf (Msg ''do_probe_at(steps, %1.3f, %1.3f) - run_probe() returned false, s=%d.''
                            [x + probe_offset_x w, y + probe_offset_y w, real_of_int steps]) w)
          else let w = on_zprobe (\<lambda>z. snd (return_probe result False z)) w
               in probe_smoothing_loop n x y (steps + result) result w)"

definition do_probe_at :: "real \<Rightarrow> real \<Rightarrow> strategy \<Rightarrow> fault + (bool \<times> int \<times> strategy)" where
  "do_probe_at x y w0 =
     (let w = on_zprobe (coordinated_move (Some (x + probe_offset_x w0)) (Some (y + probe_offset_y w0))
                           None (fast_feedrate (zp w0)) False) w0
      in case probe_smoothing_loop (probe_smoothing w) x y 0 (indeterminate w) w of
           Inl f \<Rightarrow> Inl f
         | Inr (ok, steps, w) \<Rightarrow>
             if \<not> ok then Inr (False, steps, w)
             else if probe_smoothing w = 0 then Inl Division_by_zero
             else
               let steps = steps sdiv int (probe_smoothing w)
               in if steps < 100
                  then Inr (False, steps,
                         kprintf (Msg ''do_probe_at(): steps=%d - this is much too small - is probe_height high enough?''
                                    [real_of_int steps]) w)
                  else Inr (True, steps, w\<lparr>probed := probed w @ [(x, y, steps)]\<rparr>))"

definition find_bed_center_height :: "strategy \<Rightarrow> fault + (bool \<times> strategy)" where
  "find_bed_center_height w0 =
     (let w = on_zprobe home w0
      in case (if probe_from_height w = -1
               then (let w = kprintf (Msg ''[BH] First time through, so I need to determine the probe-from height.'' []) w
                     in case run_probe_inline True (indeterminate w) w of
                          Inl f \<Rightarrow> Inl f
                        | Inr (r, steps, w) \<Rightarrow>
                            Inr (steps,
                                 on_zprobe home
                                   (w\<lparr>probe_from_height :=
                                        zsteps_to_mm (zp w) (real_of_int steps) - probe_height (zp w)\<rparr>)))
               else Inr (indeterminate w,
                         kprintf (Msg ''[BH] Not the first time through - probe_from_height = %1.3f''
                                    [probe_from_height w]) w)) of
           Inl f \<Rightarrow> Inl f
         | Inr (steps, w) \<Rightarrow>
             let w = on_zprobe (coordinated_move None None (Some (- probe_from_height w))
                                  (fast_feedrate (zp w)) True) w;
                 w = on_zprobe (coordinated_move (Some (probe_offset_x w)) (Some (probe_offset_y w)) None
                                  (fast_feedrate (zp w)) True) w
             in (case run_probe_inline False steps w of
                  Inl f \<Rightarrow> Inl f
                | Inr (r, steps, w) \<Rightarrow>
                    if \<not> r then Inr (False, w)
                    else
                      let w = w\<lparr>mm_probe_height_to_trigger := zsteps_to_mm (zp w) (real_of_int steps)\<rparr>;
                          w = kprintf (Msg ''[BH] probe_from_height (%1.3f) + mm_PHTT (%1.3f) + probe_offset_z (%1.3f)''
                                         [probe_from_height w, mm_probe_height_to_trigger w, probe_offset_z w]) w;
                          w = w\<lparr>bed_height := probe_from_height w + mm_probe_height_to_trigger w + probe_offset_z w\<rparr>;
                          w = kprintf (Msg ''[BH] Bed height set to %1.3f'' [bed_height w]) w;
                          w = kprintf (Msg ''[BH] Setting bed height: M665 Z%1.5f'' [bed_height w]) w;
                          w = on_zprobe (issue (Console_M665_Z (bed_height w))) w;
                          w = on_zprobe (issue Wait_for_empty_queue) w
                      in Inr (True, w)))"

definition prepare_to_probe :: "strategy \<Rightarrow> fault + strategy" where
  "prepare_to_probe w =
     (case (if probe_from_height w = -1
            then (case find_bed_center_height w of Inl f \<Rightarrow> Inl f | Inr (r, w) \<Rightarrow> Inr w)
            else Inr w) of
        Inl f \<Rightarrow> Inl f
      | Inr w \<Rightarrow>
          Inr (on_zprobe (coordinated_move None None (Some (- probe_from_height w))
                            (fast_feedrate (zp w)) True)
                 (on_zprobe home w)))"

subsection \<open>The trim of the endstops\<close>

definition set_trim :: "real \<Rightarrow> real \<Rightarrow> real \<Rightarrow> strategy \<Rightarrow> bool \<times> strategy" where
  "set_trim x y z w =
     (case endstop_trim w of
        Some t \<Rightarrow> (True, kprintf (Msg ''[ES] Set trim to: X=%f Y=%f Z=%f'' [x, y, z])
                           (w\<lparr>endstop_trim := Some (x, y, z)\<rparr>))
      | None \<Rightarrow> (False, kprintf (Msg ''[ES] Unable to set trim. Are endstops enabled?'' []) w))"

definition get_trim :: "strategy \<Rightarrow> (real \<times> real \<times> real) option" where
  "get_trim w = endstop_trim w"

subsection \<open>Levelling the endstops\<close>

type_synonym coordinates = "real \<times> real \<times> real \<times> real \<times> real \<times> real"

definition getCoordinates :: "real \<Rightarrow> coordinates" where
  "getCoordinates radius =
     (let px = 0.866 * radius; py = 0.5 * radius
      in (- px, - py, px, - py, 0, radius))"

definition minmax3 :: "real \<Rightarrow> real \<Rightarrow> real \<Rightarrow> real \<times> real" where
  \<comment> \<open>\<^verbatim>\<open>std::minmax({a, b, c})\<close>: the smallest first\<close>
  "minmax3 a b c = (min a (min b c), max a (max b c))"

text \<open>
  The three probes at the bases of the towers, which both calibrations make one after
  the other and leave at the first that fails: \<^term>\<open>None\<close> then, the three step counts
  otherwise.
\<close>

definition probe_towers :: "coordinates \<Rightarrow> strategy \<Rightarrow> fault + ((int \<times> int \<times> int) option \<times> strategy)" where
  "probe_towers co w =
     (case co of (t1x, t1y, t2x, t2y, t3x, t3y) \<Rightarrow>
        (case do_probe_at t1x t1y w of
           Inl f \<Rightarrow> Inl f
         | Inr (ok1, s1, w) \<Rightarrow>
             if \<not> ok1 then Inr (None, w)
             else (case do_probe_at t2x t2y w of
                     Inl f \<Rightarrow> Inl f
                   | Inr (ok2, s2, w) \<Rightarrow>
                       if \<not> ok2 then Inr (None, w)
                       else (case do_probe_at t3x t3y w of
                               Inl f \<Rightarrow> Inl f
                             | Inr (ok3, s3, w) \<Rightarrow>
                                 if \<not> ok3 then Inr (None, w)
                                 else Inr (Some (s1, s2, s3), w)))))"

text \<open>
  The main loop of \<^verbatim>\<open>calibrate_delta_endstops\<close> with \<open>n\<close> turns left, and the code
  that follows the loop when no turn is left.
\<close>

primrec endstops_loop ::
  "nat \<Rightarrow> gcode option \<Rightarrow> real \<Rightarrow> coordinates \<Rightarrow> real \<Rightarrow> real \<Rightarrow> real \<times> real \<Rightarrow>
   real \<times> real \<times> real \<Rightarrow> strategy \<Rightarrow> fault + (bool \<times> strategy)" where
  "endstops_loop 0 gcode target co trimscale last_deviation mm tr w =
     (if snd mm - fst mm > target
      then Inr (False,
             kprintf (Msg ''[ES] Trim did not resolve to within required parameters: delta %f''
                        [snd mm - fst mm]) w)
      else Inr (True, on_zprobe (issue Idle_event) w))"
| "endstops_loop (Suc n) gcode target co trimscale last_deviation mm tr w0 =
     (case tr of (trimx, trimy, trimz) \<Rightarrow>
      let w = on_zprobe (issue Idle_event) w0 in
      (case gcode of
         None \<Rightarrow> Inl Null_dereference
       | Some gc \<Rightarrow>
         (case set_trim trimx trimy trimz w of (ok, w) \<Rightarrow>
          if \<not> ok then Inr (False, w)
          else
          (case prepare_to_probe w of
             Inl f \<Rightarrow> Inl f
           | Inr w \<Rightarrow>
             (case probe_towers co w of
                Inl f \<Rightarrow> Inl f
              | Inr (None, w) \<Rightarrow> Inr (False, w)
              | Inr (Some (s1, s2, s3), w) \<Rightarrow>
                let t1z = zsteps_to_mm (zp w) (real_of_int s1);
                    t2z = zsteps_to_mm (zp w) (real_of_int s2);
                    t3z = zsteps_to_mm (zp w) (real_of_int s3);
                    mm = minmax3 t1z t2z t3z;
                    deviation = snd mm - fst mm
                in if deviation > target
                   then
                     let w = kprintf (Msg ''[ES] ~ Towers still out of spec by %1.3f''
                                        [(snd mm - fst mm) - target]) w;
                         reduce = (deviation \<ge> last_deviation \<and> trimscale * 0.95 \<ge> 0.9);
                         trimscale = (if reduce then trimscale * 0.9 else trimscale);
                         w = (if reduce
                              then kprintf (Msg ''[ES] ~ Deviation same or worse vs. last time - reducing trim scale to %1.3f''
                                              [trimscale]) w
                              else w);
                         last_deviation = deviation;
                         trimx = trimx + (fst mm - t1z) * trimscale;
                         trimy = trimy + (fst mm - t2z) * trimscale;
                         trimz = trimz + (fst mm - t3z) * trimscale
                     in endstops_loop n gcode target co trimscale last_deviation mm (trimx, trimy, trimz) w
                   else
                     let w = kprintf (Msg ''[ES] Trim set to within required paramters: want %1.3f, difference is %1.3f''
                                        [target, snd mm - fst mm]) w;
                         mm = minmax3 trimx trimy trimz;
                         w = kprintf (Msg ''[ES] Trim is {%1.3f, %1.3f, %1.3f} - normalizing... ''
                                        [trimx, trimy, trimz]) w;
                         trimx = trimx - snd mm;
                         trimy = trimy - snd mm;
                         trimz = trimz - snd mm
                     in (case set_trim trimx trimy trimz w of (ok, w) \<Rightarrow>
                         if \<not> ok
                         then Inr (False, kprintf (Msg ''[ES] ERROR: Couldn't normalize trim'' []) w)
                         else Inr (True, kprintf (Msg ''[ES] New values: {%1.3f, %1.3f, %1.3f}.''
                                                     [trimx, trimy, trimz]) w)))))))"

text \<open>
  \<^verbatim>\<open>calibrate_delta_endstops\<close> from \<^verbatim>\<open>prepare_to_probe()\<close> on: the first three probes,
  the test whether the trim is within the target already, and the loop.
\<close>

definition endstops_probe ::
  "gcode option \<Rightarrow> real \<Rightarrow> coordinates \<Rightarrow> real \<times> real \<times> real \<Rightarrow> strategy \<Rightarrow> fault + (bool \<times> strategy)" where
  "endstops_probe gcode target co tr w0 =
     (case tr of (trimx, trimy, trimz) \<Rightarrow>
      let trimscale = 1.3 in
      (case prepare_to_probe w0 of
         Inl f \<Rightarrow> Inl f
       | Inr w \<Rightarrow>
         (case probe_towers co w of
            Inl f \<Rightarrow> Inl f
          | Inr (None, w) \<Rightarrow> Inr (False, w)
          | Inr (Some (s1, s2, s3), w) \<Rightarrow>
            let t1z = zsteps_to_mm (zp w) (real_of_int s1);
                t2z = zsteps_to_mm (zp w) (real_of_int s2);
                t3z = zsteps_to_mm (zp w) (real_of_int s3);
                mm = minmax3 t1z t2z t3z
            in if snd mm - fst mm \<le> target
               then Inr (True,
                      kprintf (Msg ''[ES] Trim already set within required parameters: difference = %f''
                                 [snd mm - fst mm]) w)
               else
                 let w = kprintf (Msg ''[ES] Towers out of spec by %1.3f - will need to level the endstops''
                                    [(snd mm - fst mm) - target]) w;
                     last_deviation = snd mm - fst mm;
                     trimx = trimx + (fst mm - t1z) * trimscale;
                     trimy = trimy + (fst mm - t2z) * trimscale;
                     trimz = trimz + (fst mm - t3z) * trimscale
                 in endstops_loop 20 gcode target co trimscale last_deviation mm (trimx, trimy, trimz) w)))"

definition calibrate_delta_endstops :: "gcode option \<Rightarrow> strategy \<Rightarrow> fault + (bool \<times> strategy)" where
  "calibrate_delta_endstops gcode w0 =
     (let target = (case gcode of
                      None \<Rightarrow> 0.03
                    | Some gc \<Rightarrow> if has_letter gc CHR ''I'' then get_value gc CHR ''I'' else 0.03);
          w = (case gcode of
                 None \<Rightarrow> w0
               | Some gc \<Rightarrow> if has_letter gc CHR ''J''
                            then w0\<lparr>probe_radius := get_value gc CHR ''J''\<rparr> else w0);
          keep = (case gcode of None \<Rightarrow> False | Some gc \<Rightarrow> has_letter gc CHR ''K'');
          w = kprintf (Msg '' '' []) w;
          w = kprintf (Msg ''[ES] Calibrating endstops: target %fmm, radius %fmm'' [target, probe_radius w]) w;
          co = getCoordinates (probe_radius w)
      in if \<not> keep
         then (case gcode of
                 None \<Rightarrow> Inl Null_dereference
               | Some gc \<Rightarrow>
                   (case set_trim 0 0 0 w of (ok, w) \<Rightarrow>
                    if \<not> ok then Inr (False, w)
                    else endstops_probe gcode target co (0, 0, 0) w))
         else (case get_trim w of
                 Some (trimx, trimy, trimz) \<Rightarrow>
                   endstops_probe gcode target co (trimx, trimy, trimz)
                     (kprintf (Msg ''[ES] Current Trim: x=%1.3f, y=%1.3f, z=%1.3f'' [trimx, trimy, trimz]) w)
               | None \<Rightarrow>
                   Inr (False, kprintf (Msg ''[ES] Couldn't get current trim. Are endstops enabled?'' []) w)))"

subsection \<open>Calibrating the delta radius\<close>

definition abs_macro :: "real \<Rightarrow> real" where
  \<comment> \<open>\<^verbatim>\<open>#define abs(a) ((a<0) ? -a : a)\<close>\<close>
  "abs_macro a = (if a < 0 then - a else a)"

definition set_optional :: "(char \<rightharpoonup> real) \<Rightarrow> strategy \<Rightarrow> strategy" where
  "set_optional options w =
     (case arm_options w of
        None \<Rightarrow> w
      | Some current \<Rightarrow> w\<lparr>arm_options := Some (current ++ options)\<rparr>)"

text \<open>
  The loop of \<^verbatim>\<open>calibrate_delta_radius\<close> with \<open>n\<close> turns left, at turn \<open>i\<close>, and the
  \<^verbatim>\<open>return true\<close> that follows it.
\<close>

primrec radius_loop ::
  "nat \<Rightarrow> nat \<Rightarrow> real \<Rightarrow> coordinates \<Rightarrow> real \<Rightarrow> real \<Rightarrow> strategy \<Rightarrow> fault + (bool \<times> strategy)" where
  "radius_loop 0 i target co cmm delta_radius w = Inr (True, w)"
| "radius_loop (Suc n) i target co cmm delta_radius w0 =
     (case probe_towers co w0 of
        Inl f \<Rightarrow> Inl f
      | Inr (None, w) \<Rightarrow> Inr (False, w)
      | Inr (Some (dx, dy, dz), w) \<Rightarrow>
          let m = zsteps_to_mm (zp w) (real_of_int (dx + dy + dz) / 3);
              d = cmm - m;
              w = kprintf (Msg ''[DR] C-%d Z-ave:%1.4f delta: %1.3f'' [real i, m, d]) w
          in if abs_macro d \<le> target then Inr (True, w)
             else
               let delta_radius = delta_radius + d * 2.5;
                   w = set_optional [CHR ''R'' \<mapsto> delta_radius] w;
                   w = kprintf (Msg ''Setting delta radius to: %1.4f'' [delta_radius]) w
               in (case prepare_to_probe w of
                     Inl f \<Rightarrow> Inl f
                   | Inr w \<Rightarrow>
                       radius_loop n (i + 1) target co cmm delta_radius
                         (on_zprobe (issue Idle_event) w)))"

definition calibrate_delta_radius :: "gcode option \<Rightarrow> strategy \<Rightarrow> fault + (bool \<times> strategy)" where
  "calibrate_delta_radius gcode w0 =
     (case gcode of
        None \<Rightarrow> Inl Null_dereference
      | Some gc \<Rightarrow>
          let target = (if has_letter gc CHR ''I'' then get_value gc CHR ''I'' else 0.03);
              w = (if has_letter gc CHR ''J'' then w0\<lparr>probe_radius := get_value gc CHR ''J''\<rparr> else w0);
              w = kprintf (Msg ''[DR] Calibrating delta radius: target %f, radius %f''
                             [target, probe_radius w]) w;
              co = getCoordinates (probe_radius w)
          in (case prepare_to_probe w of
                Inl f \<Rightarrow> Inl f
              | Inr w \<Rightarrow>
                  (case do_probe_at 0 0 w of
                     Inl f \<Rightarrow> Inl f
                   | Inr (ok, dc, w) \<Rightarrow>
                       if \<not> ok then Inr (False, w)
                       else
                         let w = kprintf (Msg ''[DR] Center Z: %1.3fmm (%d steps)''
                                            [zsteps_to_mm (zp w) (real_of_int dc), real_of_int dc]) w;
                             cmm = zsteps_to_mm (zp w) (real_of_int dc);
                             delta_radius =
                               (case arm_options w of
                                  None \<Rightarrow> 0
                                | Some options \<Rightarrow> (case options CHR ''R'' of None \<Rightarrow> 0 | Some r \<Rightarrow> r))
                         in if delta_radius = 0
                            then Inr (False,
                                   kprintf (Msg ''[DR] ERROR: Delta radius not set in config! Is this a delta?'' []) w)
                            else radius_loop 10 1 target co cmm delta_radius w)))"

subsection \<open>Clean geometry, and G32\<close>

text \<open>
  Modelled from the spec: the default argument of \<^verbatim>\<open>calibrate_delta_endstops\<close> and of
  \<^verbatim>\<open>calibrate_delta_radius\<close>, declared in \<^verbatim>\<open>ComprehensiveDeltaStrategy.h\<close>, which is
  not in the sources. \<^verbatim>\<open>require_clean_geometry\<close> calls both without an argument, and
  \<^verbatim>\<open>calibrate_delta_endstops\<close> tests its argument against \<^verbatim>\<open>nullptr\<close>: no G-code
  object.
\<close>

definition default_gcode :: "gcode option" where
  "default_gcode = None"

definition require_clean_geometry :: "strategy \<Rightarrow> fault + (bool \<times> strategy)" where
  "require_clean_geometry w0 =
     (if geom_dirty w0
      then
        let w = kprintf (Msg ''[EC] Geometry has been changed since last endstop/delta radius calibration - redoing.'' []) w0
        in (case calibrate_delta_endstops default_gcode w of
              Inl f \<Rightarrow> Inl f
            | Inr (r1, w) \<Rightarrow>
                (case calibrate_delta_radius default_gcode w of
                   Inl f \<Rightarrow> Inl f
                 | Inr (r2, w) \<Rightarrow> Inr (True, w\<lparr>geom_dirty := False\<rparr>)))
      else Inr (True, w0))"

text \<open>
  \<^verbatim>\<open>handleGcode\<close> for G32 and for M665, the two branches that the calibration of the
  endstops and of the delta radius needs; G29 and G31 are not modelled.
\<close>

definition handleGcode_G32 :: "gcode \<Rightarrow> strategy \<Rightarrow> fault + (bool \<times> strategy)" where
  "handleGcode_G32 gc w0 =
     (let w = on_zprobe (issue Wait_for_empty_queue) w0
      in (case (if \<not> has_letter gc CHR ''R'' then calibrate_delta_endstops (Some gc) w else Inr (True, w)) of
            Inl f \<Rightarrow> Inl f
          | Inr (ok, w) \<Rightarrow>
              if \<not> ok
              then Inr (True, kprintf (Msg ''Calibration failed to complete, probe not triggered'' []) w)
              else
                (case (if \<not> has_letter gc CHR ''E'' then calibrate_delta_radius (Some gc) w else Inr (True, w)) of
                   Inl f \<Rightarrow> Inl f
                 | Inr (ok, w) \<Rightarrow>
                     if \<not> ok
                     then Inr (True, kprintf (Msg ''Calibration failed to complete, probe not triggered'' []) w)
                     else Inr (True, kprintf (Msg ''Basic calibration complete, save settings with M500'' []) w))))"

definition handleGcode_M665 :: "gcode \<Rightarrow> strategy \<Rightarrow> bool \<times> strategy" where
  "handleGcode_M665 gc w =
     (False, if \<exists>c \<in> set ''ABCDEFTUVLR''. has_letter gc c then w\<lparr>geom_dirty := True\<rparr> else w)"

section \<open>What a probe leaves as it is\<close>

text \<open>
  The driver without the fields that a probe writes (the state of the move, the step
  counts, the messages and the commands; the flags of the straight probe stay), and
  the strategy without the fields that probing a point writes: two drivers with the
  same \<open>settings\<close> differ in those fields only.
\<close>

definition settings :: "zprobe \<Rightarrow> zprobe" where
  "settings z =
     z\<lparr>running := False, accelerating := False, current_feedrate := 0, runout_steps := 0,
       steps_at_decel_end := 0, has_exceeded_runout := False, out := [], cmds := []\<rparr>"

definition kept :: "strategy \<Rightarrow> strategy" where
  "kept w =
     w\<lparr>zp := settings (zp w),
       probe_from_height := 0, mm_probe_height_to_trigger := 0, bed_height := 0,
       probes_run := 0, probed := []\<rparr>"

text \<open>
  The depths, in millimetres, that the last three successful probes have measured, and
  how far apart the values of a list are.
\<close>

definition last_depths :: "strategy \<Rightarrow> real list" where
  "last_depths w =
     map (\<lambda>(x, y, s). zsteps_to_mm (zp w) (real_of_int s)) (drop (length (probed w) - 3) (probed w))"

definition deviation :: "real list \<Rightarrow> real" where
  "deviation ds = (if ds = [] then 0 else Max (set ds) - Min (set ds))"

definition max_trim :: "strategy \<Rightarrow> real option" where
  "max_trim w = map_option (\<lambda>(x, y, z). max x (max y z)) (endstop_trim w)"

text \<open>The target of a calibration: the letter I of the G-code line, or 0.03 mm.\<close>

definition target_of :: "gcode \<Rightarrow> real" where
  "target_of gc = (if has_letter gc CHR ''I'' then get_value gc CHR ''I'' else 0.03)"

text \<open>
  A trim after its maximum has been subtracted, as the values that \<^verbatim>\<open>set_trim\<close> prints,
  and the way out of the levelling loop: the state holds the trim that the loop has
  reported as levelled, less its maximum, and the messages end with the report of the
  deviation, of the levelled trim, and of the trim that has been written.
\<close>

definition normalized :: "real \<Rightarrow> real \<Rightarrow> real \<Rightarrow> real list" where
  "normalized x y z = [x - max x (max y z), y - max x (max y z), z - max x (max y z)]"

definition levelled_exit :: "real \<Rightarrow> strategy \<Rightarrow> bool" where
  "levelled_exit target w' \<longleftrightarrow>
     (\<exists>tx ty tz pre.
        endstop_trim w' =
          Some (tx - max tx (max ty tz), ty - max tx (max ty tz), tz - max tx (max ty tz)) \<and>
        out (zp w') = pre @
          [Msg ''[ES] Trim set to within required paramters: want %1.3f, difference is %1.3f''
             [target, deviation (last_depths w')],
           Msg ''[ES] Trim is {%1.3f, %1.3f, %1.3f} - normalizing... '' [tx, ty, tz],
           Msg ''[ES] Set trim to: X=%f Y=%f Z=%f'' (normalized tx ty tz),
           Msg ''[ES] New values: {%1.3f, %1.3f, %1.3f}.'' (normalized tx ty tz)])"

section \<open>The runout after a trigger\<close>



text \<open>
  What the handler may have left in \<^verbatim>\<open>steps_at_decel_end\<close> since the probe has started
  from the driver \<open>z0\<close> and has triggered at \<open>steps\<close>: it has stopped an actuator beyond
  the limit, or it has recorded nothing, or it has recorded a count that is not below
  \<open>steps\<close> and is below the limit, the one of this probe or the one that the probe before
  it has left in \<^verbatim>\<open>runout_steps\<close>. The limit of this probe is the one that
  \<^verbatim>\<open>wait_for_probe\<close> computes (the conversion to \<^verbatim>\<open>uint32_t\<close> of a negative value is
  taken as 0).
\<close>

definition in_runout :: "zprobe \<Rightarrow> int \<Rightarrow> zprobe \<Rightarrow> bool" where
  "in_runout z0 steps z \<longleftrightarrow>
     has_exceeded_runout z \<or> steps_at_decel_end z = steps_at_decel_end z0 \<or>
     steps \<le> steps_at_decel_end z \<and>
     (steps_at_decel_end z < int (runout_steps z) \<or> steps_at_decel_end z < int (runout_steps z0))"

definition runout_limit :: "int \<Rightarrow> zprobe \<Rightarrow> nat" where
  "runout_limit steps z = nat \<lfloor>real (nat steps) + decelerate_runout z * steps_per_mm z Z_AXIS\<rfloor>"


section \<open>Sample machines\<close>

text \<open>
  A linear delta as \<^verbatim>\<open>on_config_reload\<close> leaves it when the configuration sets
  \<^verbatim>\<open>delta_homing\<close> and nothing of the probe, with a hundred steps to the millimetre
  on every tower.
\<close>

definition sample_probe :: zprobe where
  "sample_probe =
     \<lparr>debounce_count = 0, decelerate_runout = -1, decelerate_on_trigger = False,
      is_delta = True, is_rdelta = False, reverse_z = False,
      slow_feedrate = 5, fast_feedrate = 100, return_feedrate = 0, max_z = 500, probe_height = 5,
      invert_override = False, running = False, accelerating = False, current_feedrate = 0,
      runout_steps = 0, steps_at_decel_end = 0, has_exceeded_runout = False,
      probing = False, probe_detected = False,
      steps_per_mm = (\<lambda>a. 100), planner_acceleration = 500, planner_z_acceleration = 500,
      acceleration_ticks_per_second = 1000, out = [], cmds = []\<rparr>"

text \<open>Readings of the steppers and of the pin.\<close>

definition only_x_moving :: "axis \<Rightarrow> stepper" where
  "only_x_moving a = \<lparr>is_moving = (a = X_AXIS), get_stepped = 1000, get_steps_per_second = 400\<rparr>"

definition all_moving :: "nat \<Rightarrow> axis \<Rightarrow> stepper" where
  "all_moving n a = \<lparr>is_moving = True, get_stepped = n, get_steps_per_second = 400\<rparr>"

definition active_read :: "nat \<Rightarrow> reading" where
  "active_read n = \<lparr>is_halted = False, steppers = all_moving n, pin_get = True\<rparr>"







definition negative_runout :: config where
  "negative_runout =
     \<lparr>cfg_debounce_count = None, cfg_decelerate_runout = Some (-2), cfg_decelerate_on_trigger = Some True,
      cfg_delta_homing = Some True, cfg_rdelta_homing = None, cfg_probe_height = None,
      cfg_slow_feedrate = None, cfg_fast_feedrate = None, cfg_return_feedrate = None,
      cfg_reverse_z = None, cfg_gamma_max = None\<rparr>"

definition quarter_runout :: config where
  "quarter_runout = negative_runout\<lparr>cfg_decelerate_runout := Some 0.25\<rparr>"

definition G30 :: gcode where
  "G30 = \<lparr>has_g = True, g_num = 30, subcode = 0, has_m = False, m_num = 0, letters = Map.empty\<rparr>"

definition probe_pressed :: surroundings where
  "probe_pressed =
     \<lparr>pin_connected = True, pin_now = True, pin_is_inverting = False, strategies = [],
      probe_run = [], move_samples = []\<rparr>"

text \<open>
  The turn of the polling loop goes on to read the pin: the machine is not halted and
  the test of the steppers does not leave the loop.
\<close>

definition goes_on :: "zprobe \<Rightarrow> reading \<Rightarrow> bool" where
  "goes_on z r =
     (if is_halted r then False
      else if is_delta z \<or> is_rdelta z
           then is_moving (steppers r Z_AXIS) \<or> is_moving (steppers r Y_AXIS)
           else is_moving (steppers r Z_AXIS))"

text \<open>
  A probe that touches at \<open>n\<close> steps, for a driver that does not debounce and does not
  decelerate: the pin reads active with the steppers moving, at \<open>n\<close> steps on Z, in the
  turn of the loop that triggers and in the two blocks that follow.
\<close>

definition touch :: "nat \<Rightarrow> event list" where
  "touch n = [Fg (active_read n), Fg (active_read n), Fg (active_read n)]"

text \<open>
  The strategy as \<^verbatim>\<open>handleConfig\<close> leaves it with no key set, on the sample machine,
  with endstops and a linear delta arm solution, over a bed that every probe touches at
  1000 steps.
\<close>

definition sample_world :: strategy where
  "sample_world =
     \<lparr>zp = sample_probe, geom_dirty = True, probe_radius = 100, probe_smoothing = 1,
      probe_acceleration = 200, probe_from_height = -1,
      probe_offset_x = 0, probe_offset_y = 0, probe_offset_z = 0,
      mm_probe_height_to_trigger = 0, bed_height = 0,
      endstop_trim = Some (0, 0, 0),
      arm_options = Some [CHR ''L'' \<mapsto> 269, CHR ''R'' \<mapsto> 128.5],
      probe_events = (\<lambda>n. touch 1000), probes_run = 0, indeterminate = 0, probed = []\<rparr>"

definition G32 :: gcode where
  "G32 = \<lparr>has_g = True, g_num = 32, subcode = 0, has_m = False, m_num = 0, letters = Map.empty\<rparr>"

text \<open>
  Every probe of the strategy touches, at the steps that \<open>k\<close> gives for its number, on
  a driver that neither debounces nor decelerates, one probe to a point and a hundred
  steps to the millimetre.
\<close>

definition touches :: "(nat \<Rightarrow> nat) \<Rightarrow> strategy \<Rightarrow> bool" where
  "touches k w =
     (probe_events w = (\<lambda>n. touch (k n)) \<and> debounce_count (zp w) = 0 \<and>
      \<not> decelerate_on_trigger (zp w) \<and> probe_smoothing w = 1 \<and> steps_per_mm (zp w) Z_AXIS = 100)"

text \<open>
  The sample after the height of the bed has been found; the same over a bed that is
  10 mm deep at the centre and 20 mm at the towers, whatever the delta radius; and the
  same with a trim that has not been normalized.
\<close>

definition found_world :: strategy where
  "found_world = sample_world\<lparr>probe_from_height := 5, mm_probe_height_to_trigger := 10, bed_height := 15\<rparr>"

definition bowl_world :: strategy where
  "bowl_world = found_world\<lparr>probe_events := (\<lambda>n. touch (if n = 0 then 1000 else 2000))\<rparr>"

definition unnormalized_world :: strategy where
  "unnormalized_world = found_world\<lparr>endstop_trim := Some (-1, -2, -3)\<rparr>"

text \<open>
  The sample over a bed that measures 10, 11 and 12 mm at the bases of the towers in the
  first three probes and 10 mm in every probe after them, as it does once the trim has
  been adjusted; and the same with a trim that has not been normalized.
\<close>

definition tilted :: "nat \<Rightarrow> nat" where
  "tilted n = (if n = 0 then 1000 else if n = 1 then 1100 else if n = 2 then 1200 else 1000)"

definition tilted_world :: strategy where
  "tilted_world = found_world\<lparr>probe_events := (\<lambda>n. touch (tilted n))\<rparr>"

definition tilted_unnormalized_world :: strategy where
  "tilted_unnormalized_world = tilted_world\<lparr>endstop_trim := Some (-1, -2, -3)\<rparr>"

text \<open>G32 with the letter K (keep the trim).\<close>

definition G32_K :: gcode where
  "G32_K = G32\<lparr>letters := [CHR ''K'' \<mapsto> 0]\<rparr>"

section \<open>Properties of the probe driver\<close>

lemma decelerate_on_trigger_setDecelerateOnTrigger:
  "decelerate_on_trigger (setDecelerateOnTrigger t z) = (t \<and> decelerate_runout z \<noteq> -1)"
  by (simp add: setDecelerateOnTrigger_def printf_def)

lemma decelerate_runout_setDecelerateOnTrigger:
  "decelerate_runout (setDecelerateOnTrigger t z) = decelerate_runout z"
  by (simp add: setDecelerateOnTrigger_def printf_def)

lemma decelerate_on_trigger_on_config_reload:
  "decelerate_on_trigger (on_config_reload c z) =
     (by_default False (cfg_decelerate_on_trigger c) \<and> by_default (-1) (cfg_decelerate_runout c) \<noteq> -1)"
  by (simp add: on_config_reload_def Let_def decelerate_on_trigger_setDecelerateOnTrigger)

lemma decelerate_runout_on_config_reload:
  "decelerate_runout (on_config_reload c z) = by_default (-1) (cfg_decelerate_runout c)"
  by (simp add: on_config_reload_def Let_def decelerate_runout_setDecelerateOnTrigger)

text \<open>
  C6, as the code has it. \<^verbatim>\<open>setDecelerateOnTrigger\<close> refuses (the flag is false and the
  message is printed) exactly when \<^verbatim>\<open>decelerate_runout\<close> is the value -1 that stands for
  "not set"; otherwise the flag is what was asked for. So whenever
  \<^verbatim>\<open>decelerate_on_trigger\<close> ends up true, after \<^verbatim>\<open>setDecelerateOnTrigger\<close> or after
  \<^verbatim>\<open>on_config_reload\<close>, \<^verbatim>\<open>decelerate_runout\<close> is not -1.
\<close>

theorem decelerate_on_trigger_unless_unset:
  "decelerate_on_trigger (setDecelerateOnTrigger t z) = (t \<and> decelerate_runout z \<noteq> -1) \<and>
   (decelerate_runout z = -1 \<longrightarrow>
      setDecelerateOnTrigger t z =
        z\<lparr>decelerate_on_trigger := False,
          out := out z @ [Msg ''Can't enable on-trigger deceleration because decelerate_runout isn't set.'' []]\<rparr>) \<and>
   (decelerate_runout z \<noteq> -1 \<longrightarrow> setDecelerateOnTrigger t z = z\<lparr>decelerate_on_trigger := t\<rparr>) \<and>
   (decelerate_on_trigger (on_config_reload c z) \<longrightarrow> decelerate_runout (on_config_reload c z) \<noteq> -1)"
  by (simp add: decelerate_on_trigger_on_config_reload decelerate_runout_on_config_reload)
     (simp add: setDecelerateOnTrigger_def printf_def)

theorem decelerate_on_trigger_unless_unset_witness:
  "decelerate_on_trigger (on_config_reload quarter_runout sample_probe) \<and>
   decelerate_runout (on_config_reload quarter_runout sample_probe) = 0.25 \<and>
   decelerate_runout sample_probe = -1 \<and>
   setDecelerateOnTrigger True sample_probe =
     sample_probe\<lparr>decelerate_on_trigger := False,
       out := out sample_probe @ [Msg ''Can't enable on-trigger deceleration because decelerate_runout isn't set.'' []]\<rparr>"
  using decelerate_on_trigger_unless_unset [of True sample_probe quarter_runout]
  by (simp add: decelerate_on_trigger_on_config_reload decelerate_runout_on_config_reload
        quarter_runout_def negative_runout_def by_default_def sample_probe_def)

text \<open>
  C6 as it is stated fails: a configuration with \<^verbatim>\<open>decelerate_runout -2\<close> and
  \<^verbatim>\<open>decelerate_on_trigger true\<close> is accepted, and leaves the flag true with a negative
  runout.
\<close>

theorem decelerate_on_trigger_negative_runout:
  "decelerate_on_trigger (on_config_reload negative_runout sample_probe) \<and>
   decelerate_runout (on_config_reload negative_runout sample_probe) < 0"
  by (simp add: decelerate_on_trigger_on_config_reload decelerate_runout_on_config_reload
        negative_runout_def by_default_def)

text \<open>
  C10. \<^verbatim>\<open>return_probe\<close> does the same with \<^verbatim>\<open>reverse\<close> true and false, and whatever
  \<^verbatim>\<open>reverse_z\<close> is: one relative move in Z of \<^verbatim>\<open>zsteps_to_mm(steps)\<close> at the smaller of
  twice the slow feedrate and the fast feedrate (and the wait for the queue that
  \<^verbatim>\<open>coordinated_move\<close> ends with), then a move of no steps on each of the three
  actuators; it returns true.
\<close>

theorem return_probe_ignores_reverse:
  "return_probe steps True z = return_probe steps False z \<and>
   return_probe steps reverse z =
     (True, z\<lparr>accelerating := True, running := False,
              cmds := cmds z @
                [Coordinated_move None None (Some (zsteps_to_mm z (real_of_int steps)))
                   (min (2 * slow_feedrate z) (fast_feedrate z)) True,
                 Wait_for_empty_queue,
                 Stepper_stop X_AXIS, Stepper_stop Y_AXIS, Stepper_stop Z_AXIS]\<rparr>) \<and>
   return_probe steps reverse (z\<lparr>reverse_z := b\<rparr>) =
     (True, (snd (return_probe steps reverse z))\<lparr>reverse_z := b\<rparr>)"
  by (simp add: return_probe_def coordinated_move_def issue_def zsteps_to_mm_def Let_def min_def)

theorem return_probe_ignores_reverse_witness:
  "return_probe 1000 True sample_probe = return_probe 1000 False sample_probe \<and>
   fst (return_probe 1000 True sample_probe) \<and>
   cmds (snd (return_probe 1000 True sample_probe)) =
     [Coordinated_move None None (Some 10) 10 True, Wait_for_empty_queue,
      Stepper_stop X_AXIS, Stepper_stop Y_AXIS, Stepper_stop Z_AXIS]"
proof -
  have "return_probe 1000 True sample_probe = return_probe 1000 False sample_probe"
    using return_probe_ignores_reverse [of 1000 sample_probe True False] by blast
  then show ?thesis
    by (simp add: return_probe_def coordinated_move_def issue_def zsteps_to_mm_def Let_def sample_probe_def)
qed

text \<open>
  C1 fails on the code: the test that leaves the polling loop reads the Z stepper
  twice and the X stepper never. On a delta whose Y and Z steppers have stopped while X
  still moves, \<^verbatim>\<open>wait_for_probe\<close> returns false at once.
\<close>

theorem wait_for_probe_x_still_moving:
  "wait_for_probe [Fg \<lparr>is_halted = False, steppers = only_x_moving, pin_get = False\<rparr>] 0 sample_probe
   = Some (False, 0, sample_probe)"
  by (simp add: wait_for_probe_def exec_def sample_probe_def only_x_moving_def)

subsection \<open>Debounce\<close>

lemma fg_step_active:
  "goes_on z r \<Longrightarrow> pin_get r \<Longrightarrow> d < debounce_count z \<Longrightarrow>
   fg_step r (At_poll d, steps, z) = (At_poll (Suc d), steps, z)"
  by (auto simp: goes_on_def split: if_splits)

lemma fg_step_trigger:
  "goes_on z r \<Longrightarrow> pin_get r \<Longrightarrow> \<not> d < debounce_count z \<Longrightarrow>
   fg_step r (At_poll d, steps, z) =
     (At_stop, int (get_stepped (steppers r Z_AXIS)),
      if decelerate_on_trigger z then z\<lparr>accelerating := False\<rparr> else z)"
  by (auto simp: goes_on_def split: if_splits)

lemma fg_step_inactive:
  "goes_on z r \<Longrightarrow> \<not> pin_get r \<Longrightarrow> fg_step r (At_poll d, steps, z) = (At_poll 0, steps, z)"
  by (auto simp: goes_on_def split: if_splits)

lemma exec_append: "exec (es @ es') c = exec es' (exec es c)"
  by (simp add: exec_def)

lemma exec_active_reads:
  "\<forall>r \<in> set rs. goes_on z r \<and> pin_get r \<Longrightarrow> d + length rs \<le> debounce_count z \<Longrightarrow>
   exec (map Fg rs) (At_poll d, steps, z) = (At_poll (d + length rs), steps, z)"
proof (induction rs arbitrary: d)
  case Nil
  then show ?case by (simp add: exec_def)
next
  case (Cons r rs)
  then have "fg_step r (At_poll d, steps, z) = (At_poll (Suc d), steps, z)"
    by (intro fg_step_active) auto
  moreover have "exec (map Fg rs) (At_poll (Suc d), steps, z) = (At_poll (Suc d + length rs), steps, z)"
    using Cons.prems by (intro Cons.IH) auto
  ultimately show ?case by (simp add: exec_def)
qed

text \<open>
  C7, as the code has it. While the loop goes on: a turn that reads the pin inactive
  sets the counter to 0; a turn that reads it active with the counter below
  \<^verbatim>\<open>debounce_count\<close> adds one to the counter and does not trigger, so after
  \<^verbatim>\<open>debounce_count\<close> active reads in a row the counter is \<^verbatim>\<open>debounce_count\<close> and nothing
  has triggered; the next active read, the \<^verbatim>\<open>debounce_count + 1\<close>-th, triggers and takes
  \<^verbatim>\<open>steps\<close> from the Z stepper as it is at that read.
\<close>

theorem debounce_trigger:
  "(goes_on z r \<and> \<not> pin_get r \<longrightarrow> fg_step r (At_poll d, steps, z) = (At_poll 0, steps, z)) \<and>
   ((\<forall>r \<in> set rs. goes_on z r \<and> pin_get r) \<and> length rs \<le> debounce_count z \<longrightarrow>
      exec (map Fg rs) (At_poll 0, steps, z) = (At_poll (length rs), steps, z)) \<and>
   ((\<forall>r \<in> set rs. goes_on z r \<and> pin_get r) \<and> length rs = debounce_count z \<and> goes_on z r \<and> pin_get r \<longrightarrow>
      exec (map Fg (rs @ [r])) (At_poll 0, steps, z) =
        (At_stop, int (get_stepped (steppers r Z_AXIS)),
         if decelerate_on_trigger z then z\<lparr>accelerating := False\<rparr> else z))"
proof (intro conjI impI)
  assume "goes_on z r \<and> \<not> pin_get r"
  then have "goes_on z r" "\<not> pin_get r" by auto
  then show "fg_step r (At_poll d, steps, z) = (At_poll 0, steps, z)"
    by (rule fg_step_inactive)
next
  assume "(\<forall>r \<in> set rs. goes_on z r \<and> pin_get r) \<and> length rs \<le> debounce_count z"
  then show "exec (map Fg rs) (At_poll 0, steps, z) = (At_poll (length rs), steps, z)"
    using exec_active_reads [of rs z 0 steps] by simp
next
  assume a: "(\<forall>r \<in> set rs. goes_on z r \<and> pin_get r) \<and> length rs = debounce_count z \<and> goes_on z r \<and> pin_get r"
  then have "exec (map Fg rs) (At_poll 0, steps, z) = (At_poll (debounce_count z), steps, z)"
    using exec_active_reads [of rs z 0 steps] by simp
  moreover have "fg_step r (At_poll (debounce_count z), steps, z) =
        (At_stop, int (get_stepped (steppers r Z_AXIS)),
         if decelerate_on_trigger z then z\<lparr>accelerating := False\<rparr> else z)"
    using a by (intro fg_step_trigger) auto
  ultimately show "exec (map Fg (rs @ [r])) (At_poll 0, steps, z) =
        (At_stop, int (get_stepped (steppers r Z_AXIS)),
         if decelerate_on_trigger z then z\<lparr>accelerating := False\<rparr> else z)"
    by (simp add: exec_def del: fg_step.simps)
qed

text \<open>
  C7 as it is stated fails: with \<^verbatim>\<open>debounce_count = 2\<close> the second active read in a row
  does not trigger, the third does.
\<close>

theorem debounce_trigger_counterexample:
  "exec [Fg (active_read 1000), Fg (active_read 1001)] (At_poll 0, 0, sample_probe\<lparr>debounce_count := 2\<rparr>)
     = (At_poll 2, 0, sample_probe\<lparr>debounce_count := 2\<rparr>) \<and>
   exec [Fg (active_read 1000), Fg (active_read 1001), Fg (active_read 1002)]
        (At_poll 0, 0, sample_probe\<lparr>debounce_count := 2\<rparr>)
     = (At_stop, 1002, sample_probe\<lparr>debounce_count := 2\<rparr>)"
  by (simp add: exec_def sample_probe_def active_read_def all_moving_def)

theorem debounce_trigger_witness:
  "fg_step \<lparr>is_halted = False, steppers = all_moving 7, pin_get = False\<rparr>
      (At_poll 1, 0, sample_probe\<lparr>debounce_count := 2\<rparr>) = (At_poll 0, 0, sample_probe\<lparr>debounce_count := 2\<rparr>) \<and>
   exec (map Fg [active_read 1000, active_read 1001]) (At_poll 0, 0, sample_probe\<lparr>debounce_count := 2\<rparr>)
     = (At_poll 2, 0, sample_probe\<lparr>debounce_count := 2\<rparr>) \<and>
   exec (map Fg ([active_read 1000, active_read 1001] @ [active_read 1002]))
        (At_poll 0, 0, sample_probe\<lparr>debounce_count := 2\<rparr>)
     = (At_stop, 1002, sample_probe\<lparr>debounce_count := 2\<rparr>)"
proof -
  let ?z = "sample_probe\<lparr>debounce_count := 2\<rparr>"
  let ?r = "\<lparr>is_halted = False, steppers = all_moving 7, pin_get = False\<rparr>"
  have g: "goes_on ?z ?r" "goes_on ?z (active_read 1000)" "goes_on ?z (active_read 1001)"
      "goes_on ?z (active_read 1002)"
    by (simp_all add: goes_on_def sample_probe_def active_read_def all_moving_def)
  have p: "pin_get (active_read 1000)" "pin_get (active_read 1001)" "pin_get (active_read 1002)" "\<not> pin_get ?r"
    by (simp_all add: active_read_def)
  have d: "debounce_count ?z = 2" "\<not> decelerate_on_trigger ?z"
    by (simp_all add: sample_probe_def)
  have s: "int (get_stepped (steppers (active_read 1002) Z_AXIS)) = 1002"
    by (simp add: active_read_def all_moving_def)
  show ?thesis
    using debounce_trigger [of ?z ?r 1 0 "[active_read 1000, active_read 1001]"]
      debounce_trigger [of ?z "active_read 1002" 0 0 "[active_read 1000, active_read 1001]"]
      g p d s by simp
qed


subsection \<open>A probe that is triggered already\<close>

text \<open>
  C8. When the pin reads active as a probing command is taken up (G29 to G32, G38.2 and
  G38.3), \<^verbatim>\<open>on_gcode_received\<close> prints one message and returns: "not connected" when
  the pin is not connected, "triggered before move" otherwise, with \<^verbatim>\<open>error:\<close> in
  front for G38. Nothing but the output changes: no command goes to the steppers or the
  planner, no probe runs and no strategy is called.
\<close>

theorem triggered_probe_refuses_command:
  assumes "pin_now env" and "has_g gc"
    and "(29 \<le> g_num gc \<and> g_num gc \<le> 32) \<or> (g_num gc = 38 \<and> (subcode gc = 2 \<or> subcode gc = 3))"
  shows "on_gcode_received env gc z =
           Some (z\<lparr>out := out z @
                   [Msg ((if g_num gc = 38 then ''error:'' else '''') @
                         (if pin_connected env then ''ZProbe triggered before move, aborting command.''
                          else ''ZProbe not connected.'')) []]\<rparr>)"
proof (cases "g_num gc = 38")
  case True
  then have "subcode gc = 2 \<or> subcode gc = 3"
    using assms(3) by auto
  then show ?thesis
  proof
    assume "subcode gc = 2"
    then show ?thesis
      using True assms(1,2) by (simp add: on_gcode_received_def printf_def)
  next
    assume "subcode gc = 3"
    then show ?thesis
      using True assms(1,2) by (simp add: on_gcode_received_def printf_def)
  qed
next
  case False
  then have "29 \<le> g_num gc \<and> g_num gc \<le> 32"
    using assms(3) by auto
  then show ?thesis
    using False assms(1,2) by (simp add: on_gcode_received_def printf_def)
qed

theorem triggered_probe_refuses_command_witness:
  "on_gcode_received probe_pressed G30 sample_probe =
     Some (sample_probe\<lparr>out := [Msg ''ZProbe triggered before move, aborting command.'' []]\<rparr>)"
proof -
  have "pin_now probe_pressed" "has_g G30" "29 \<le> g_num G30 \<and> g_num G30 \<le> 32" "pin_connected probe_pressed"
    "g_num G30 \<noteq> 38" "out sample_probe = []"
    by (simp_all add: probe_pressed_def G30_def sample_probe_def)
  then show ?thesis
    using triggered_probe_refuses_command [of probe_pressed G30 sample_probe] by simp
qed

section \<open>Properties of the calibration strategy\<close>

subsection \<open>What a probe leaves as it is\<close>

lemma settings_update [simp]:
  "settings (z\<lparr>running := b\<rparr>) = settings z"
  "settings (z\<lparr>accelerating := b\<rparr>) = settings z"
  "settings (z\<lparr>current_feedrate := f\<rparr>) = settings z"
  "settings (z\<lparr>runout_steps := n\<rparr>) = settings z"
  "settings (z\<lparr>steps_at_decel_end := i\<rparr>) = settings z"
  "settings (z\<lparr>has_exceeded_runout := b\<rparr>) = settings z"
  "settings (z\<lparr>out := ms\<rparr>) = settings z"
  "settings (z\<lparr>cmds := cs\<rparr>) = settings z"
  by (simp_all add: settings_def)

lemma settings_issue [simp]: "settings (issue c z) = settings z"
  by (simp add: settings_def issue_def)

lemma settings_printf [simp]: "settings (printf m z) = settings z"
  by (simp add: settings_def printf_def)

lemma settings_accelerate: "settings (accelerate c s z) = settings z"
  by (simp add: accelerate_def Let_def settings_def issue_def)

lemma settings_decelerate: "settings (decelerate c s z) = settings z"
  by (simp add: decelerate_def Let_def settings_def issue_def)

lemma settings_tick_axis: "settings (tick_axis c s z) = settings z"
  by (simp add: tick_axis_def settings_accelerate settings_decelerate)

lemma settings_eqD:
  assumes "settings z' = settings z"
  shows "steps_per_mm z' = steps_per_mm z" and "debounce_count z' = debounce_count z"
    and "decelerate_on_trigger z' = decelerate_on_trigger z"
    and "decelerate_runout z' = decelerate_runout z"
    and "is_delta z' = is_delta z" and "is_rdelta z' = is_rdelta z"
    and "slow_feedrate z' = slow_feedrate z" and "fast_feedrate z' = fast_feedrate z"
    and "probe_height z' = probe_height z" and "max_z z' = max_z z" and "reverse_z z' = reverse_z z"
  using arg_cong [OF assms, of steps_per_mm] arg_cong [OF assms, of debounce_count]
    arg_cong [OF assms, of decelerate_on_trigger] arg_cong [OF assms, of decelerate_runout]
    arg_cong [OF assms, of is_delta] arg_cong [OF assms, of is_rdelta]
    arg_cong [OF assms, of slow_feedrate] arg_cong [OF assms, of fast_feedrate]
    arg_cong [OF assms, of probe_height] arg_cong [OF assms, of max_z] arg_cong [OF assms, of reverse_z]
  by (simp_all add: settings_def)

lemma settings_acceleration_tick: "settings (acceleration_tick s z) = settings z"
  by (simp add: acceleration_tick_def Let_def settings_tick_axis)

lemma settings_stop_if_moving: "settings (stop_if_moving c s z) = settings z"
  by (simp add: stop_if_moving_def settings_def issue_def)

lemma settings_fg_step: "settings (snd (snd (fg_step r (p, steps, z)))) = settings z"
proof (cases p)
  case (At_poll d)
  then show ?thesis by (simp add: Let_def settings_def)
next
  case At_stop
  then show ?thesis by (simp add: Let_def settings_def stop_if_moving_def issue_def)
next
  case At_spin
  then show ?thesis by simp
next
  case At_exit
  then show ?thesis by (simp add: settings_def)
next
  case At_check
  then show ?thesis by (simp add: settings_def printf_def)
next
  case (Returned b)
  then show ?thesis by simp
qed

lemma settings_step: "settings (snd (snd (step e c))) = settings (snd (snd c))"
proof (cases c)
  case (fields p steps z)
  then show ?thesis
    using settings_fg_step [of _ p steps z]
    by (cases e) (simp_all add: settings_acceleration_tick)
qed

lemma settings_exec: "settings (snd (snd (exec es c))) = settings (snd (snd c))"
proof (induction es arbitrary: c)
  case Nil
  then show ?case by (simp add: exec_def)
next
  case (Cons e es)
  have "exec (e # es) c = exec es (step e c)"
    by (simp add: exec_def)
  then show ?case
    using Cons.IH [of "step e c"] settings_step [of e c] by simp
qed

lemma settings_wait_for_probe:
  "wait_for_probe es steps z = Some (r, steps', z') \<Longrightarrow> settings z' = settings z"
  using settings_exec [of es "(At_poll 0, steps, z)"]
  by (auto simp: wait_for_probe_def split: prod.splits pc.splits)

lemma settings_run_probe:
  assumes "run_probe es steps feedrate max_dist reverse z = Some (r, steps', z')"
  shows "settings z' = settings z"
proof -
  from assms obtain z1 b where
    w: "wait_for_probe es steps z1 = Some (r, steps', b)" and z': "z' = b\<lparr>running := False\<rparr>"
    and z1: "settings z1 = settings z"
    by (auto simp: run_probe_def Let_def settings_def issue_def split: option.splits if_splits)
  from w have "settings b = settings z1"
    by (rule settings_wait_for_probe)
  then show ?thesis
    using z' z1 by (simp add: settings_def)
qed

lemma zsteps_to_mm_settings: "settings z' = settings z \<Longrightarrow> zsteps_to_mm z' s = zsteps_to_mm z s"
  using settings_eqD(1) [of z' z] by (simp add: zsteps_to_mm_def)

lemma settings_coordinated_move [simp]: "settings (coordinated_move x y z' f rel z) = settings z"
  by (simp add: coordinated_move_def)

lemma settings_home [simp]: "settings (home z) = settings z"
  by (simp add: home_def)

lemma settings_return_probe [simp]: "settings (snd (return_probe steps reverse z)) = settings z"
  by (simp add: return_probe_def Let_def)

lemma kept_on_zprobe: "settings (f (zp w)) = settings (zp w) \<Longrightarrow> kept (on_zprobe f w) = kept w"
  by (simp add: kept_def on_zprobe_def)

lemma kept_update [simp]:
  "kept (w\<lparr>probed := ps\<rparr>) = kept w"
  "kept (w\<lparr>probes_run := n\<rparr>) = kept w"
  "kept (w\<lparr>probe_from_height := h\<rparr>) = kept w"
  "kept (w\<lparr>mm_probe_height_to_trigger := h\<rparr>) = kept w"
  "kept (w\<lparr>bed_height := h\<rparr>) = kept w"
  by (simp_all add: kept_def)

lemma kept_zp: "settings z' = settings (zp w) \<Longrightarrow> kept (w\<lparr>zp := z'\<rparr>) = kept w"
  by (simp add: kept_def)

lemma kept_kprintf [simp]: "kept (kprintf m w) = kept w"
  by (simp add: kprintf_def kept_on_zprobe)

lemma probed_on_zprobe [simp]: "probed (on_zprobe f w) = probed w"
  by (simp add: on_zprobe_def)

lemma probed_kprintf [simp]: "probed (kprintf m w) = probed w"
  by (simp add: kprintf_def)

lemma probes_run_on_zprobe [simp]: "probes_run (on_zprobe f w) = probes_run w"
  by (simp add: on_zprobe_def)

lemma probes_run_kprintf [simp]: "probes_run (kprintf m w) = probes_run w"
  by (simp add: kprintf_def)

lemma kept_eqD:
  assumes "kept w' = kept w"
  shows "settings (zp w') = settings (zp w)" and "geom_dirty w' = geom_dirty w"
    and "endstop_trim w' = endstop_trim w" and "arm_options w' = arm_options w"
    and "probe_events w' = probe_events w" and "probe_smoothing w' = probe_smoothing w"
    and "probe_radius w' = probe_radius w" and "indeterminate w' = indeterminate w"
    and "probe_offset_x w' = probe_offset_x w" and "probe_offset_y w' = probe_offset_y w"
    and "probe_offset_z w' = probe_offset_z w"
  using arg_cong [OF assms, of zp] arg_cong [OF assms, of geom_dirty]
    arg_cong [OF assms, of endstop_trim] arg_cong [OF assms, of arm_options]
    arg_cong [OF assms, of probe_events] arg_cong [OF assms, of probe_smoothing]
    arg_cong [OF assms, of probe_radius] arg_cong [OF assms, of indeterminate]
    arg_cong [OF assms, of probe_offset_x] arg_cong [OF assms, of probe_offset_y]
    arg_cong [OF assms, of probe_offset_z]
  by (simp_all add: kept_def)

lemma run_probe_inline_kept:
  assumes "run_probe_inline fast steps w = Inr (r, steps', w')"
  shows "kept w' = kept w \<and> probed w' = probed w \<and> probes_run w' = Suc (probes_run w)"
proof -
  from assms obtain z' where
    "run_probe (probe_events w (probes_run w)) steps
       (if fast then fast_feedrate (zp w) else slow_feedrate (zp w)) (-1) False (zp w) = Some (r, steps', z')"
    and w': "w' = w\<lparr>zp := z', probes_run := probes_run w + 1\<rparr>"
    by (auto simp: run_probe_inline_def Let_def split: option.splits)
  then have "settings z' = settings (zp w)"
    by (auto dest: settings_run_probe)
  then show ?thesis
    using w' by (simp add: kept_zp)
qed

lemma probe_smoothing_loop_kept:
  "probe_smoothing_loop n x y steps result w = Inr (ok, steps', w') \<Longrightarrow>
   kept w' = kept w \<and> probed w' = probed w"
proof (induction n arbitrary: steps result w)
  case 0
  then show ?case by simp
next
  case (Suc n)
  from Suc.prems obtain r res w1 where
    rp: "run_probe_inline False result w = Inr (r, res, w1)"
    by (auto split: sum.splits)
  then have k1: "kept w1 = kept w" "probed w1 = probed w"
    using run_probe_inline_kept by blast+
  show ?case
  proof (cases r)
    case False
    then show ?thesis
      using Suc.prems rp k1 by auto
  next
    case True
    let ?w2 = "on_zprobe (\<lambda>z. snd (return_probe res False z)) w1"
    have "probe_smoothing_loop n x y (steps + res) res ?w2 = Inr (ok, steps', w')"
      using Suc.prems rp True by (simp add: Let_def)
    then have "kept w' = kept ?w2 \<and> probed w' = probed ?w2"
      by (rule Suc.IH)
    then show ?thesis
      using k1 by (simp add: kept_on_zprobe)
  qed
qed

lemma do_probe_at_kept:
  assumes "do_probe_at x y w = Inr (ok, steps, w')"
  shows "kept w' = kept w \<and> probed w' = (if ok then probed w @ [(x, y, steps)] else probed w)"
proof -
  let ?w1 = "on_zprobe (coordinated_move (Some (x + probe_offset_x w)) (Some (y + probe_offset_y w))
                           None (fast_feedrate (zp w)) False) w"
  have k1: "kept ?w1 = kept w" "probed ?w1 = probed w"
    by (simp_all add: kept_on_zprobe)
  from assms obtain ok2 s2 w2 where
    l: "probe_smoothing_loop (probe_smoothing ?w1) x y 0 (indeterminate ?w1) ?w1 = Inr (ok2, s2, w2)"
    by (auto simp: do_probe_at_def Let_def split: sum.splits)
  then have k2: "kept w2 = kept w" "probed w2 = probed w"
    using probe_smoothing_loop_kept [OF l] k1 by simp_all
  show ?thesis
  proof (cases ok2)
    case False
    then show ?thesis
      using assms l k2 by (simp add: do_probe_at_def Let_def)
  next
    case True
    then show ?thesis
      using assms l k2 by (auto simp: do_probe_at_def Let_def split: if_splits)
  qed
qed

lemma find_bed_center_height_kept:
  assumes "find_bed_center_height w = Inr (r, w')"
  shows "kept w' = kept w \<and> probed w' = probed w"
  using assms
  by (auto simp: find_bed_center_height_def Let_def kept_on_zprobe
           split: sum.splits if_splits dest!: run_probe_inline_kept)

lemma prepare_to_probe_kept:
  assumes "prepare_to_probe w = Inr w'"
  shows "kept w' = kept w \<and> probed w' = probed w"
  using assms
  by (auto simp: prepare_to_probe_def kept_on_zprobe split: sum.splits if_splits
           dest!: find_bed_center_height_kept)

lemma probe_towers_kept:
  assumes "probe_towers co w = Inr (res, w')"
  shows "kept w' = kept w"
  using assms
  by (auto simp: probe_towers_def split: prod.splits sum.splits if_splits dest!: do_probe_at_kept)

lemma probe_towers_probed:
  assumes "probe_towers (t1x, t1y, t2x, t2y, t3x, t3y) w = Inr (Some (s1, s2, s3), w')"
  shows "probed w' = probed w @ [(t1x, t1y, s1), (t2x, t2y, s2), (t3x, t3y, s3)]"
  using assms
  by (auto simp: probe_towers_def split: prod.splits sum.splits if_splits dest!: do_probe_at_kept)

subsection \<open>Levelling the endstops\<close>

lemma fields_on_zprobe [simp]:
  "zp (on_zprobe f w) = f (zp w)"
  "geom_dirty (on_zprobe f w) = geom_dirty w"
  "endstop_trim (on_zprobe f w) = endstop_trim w"
  "arm_options (on_zprobe f w) = arm_options w"
  "probe_from_height (on_zprobe f w) = probe_from_height w"
  "probe_events (on_zprobe f w) = probe_events w"
  "probe_smoothing (on_zprobe f w) = probe_smoothing w"
  "probe_radius (on_zprobe f w) = probe_radius w"
  by (simp_all add: on_zprobe_def)

lemma fields_kprintf [simp]:
  "zp (kprintf m w) = printf m (zp w)"
  "geom_dirty (kprintf m w) = geom_dirty w"
  "endstop_trim (kprintf m w) = endstop_trim w"
  "arm_options (kprintf m w) = arm_options w"
  "probe_from_height (kprintf m w) = probe_from_height w"
  "probe_events (kprintf m w) = probe_events w"
  "probe_smoothing (kprintf m w) = probe_smoothing w"
  "probe_radius (kprintf m w) = probe_radius w"
  by (simp_all add: kprintf_def)

lemma set_trim_fields:
  assumes "set_trim x y z w = (ok, w')"
  shows "geom_dirty w' = geom_dirty w" and "probed w' = probed w"
    and "settings (zp w') = settings (zp w)"
    and "ok \<Longrightarrow> endstop_trim w' = Some (x, y, z)"
  using assms by (auto simp: set_trim_def split: option.splits)

lemma deviation3: "deviation [a, b, c] = snd (minmax3 a b c) - fst (minmax3 a b c)"
  by (simp add: deviation_def minmax3_def)

lemma last_depths_appended:
  assumes "probed w = pre @ [(x1, y1, s1), (x2, y2, s2), (x3, y3, s3)]"
  shows "last_depths w =
           [zsteps_to_mm (zp w) (real_of_int s1), zsteps_to_mm (zp w) (real_of_int s2),
            zsteps_to_mm (zp w) (real_of_int s3)]"
  using assms by (simp add: last_depths_def)

lemma last_depths_cong:
  assumes "probed w' = probed w" and "settings (zp w') = settings (zp w)"
  shows "last_depths w' = last_depths w"
  using assms(1) zsteps_to_mm_settings [OF assms(2)] by (simp add: last_depths_def)

lemma max_normalized:
  "max (x - snd (minmax3 x y z)) (max (y - snd (minmax3 x y z)) (z - snd (minmax3 x y z))) = 0"
  by (simp add: minmax3_def max_def)

text \<open>
  C9. Called without a G-code object, \<^verbatim>\<open>calibrate_delta_endstops\<close> reaches
  \<^verbatim>\<open>gcode->stream\<close> (it does not keep the trim, so it sets the trim to zero first) and
  \<^verbatim>\<open>calibrate_delta_radius\<close> reaches \<^verbatim>\<open>gcode->has_letter\<close> in its first statement:
  both dereference the null pointer. \<^verbatim>\<open>require_clean_geometry\<close> calls them so whenever
  the geometry is dirty.
\<close>

theorem null_gcode_is_dereferenced:
  "calibrate_delta_endstops default_gcode w = Inl Null_dereference \<and>
   calibrate_delta_radius default_gcode w = Inl Null_dereference \<and>
   (geom_dirty w \<longrightarrow> require_clean_geometry w = Inl Null_dereference)"
  by (simp add: calibrate_delta_endstops_def calibrate_delta_radius_def require_clean_geometry_def
        default_gcode_def Let_def)

subsection \<open>Probes that touch\<close>

lemma touches_kept: "kept w' = kept w \<Longrightarrow> touches k w' = touches k w"
  using kept_eqD(1) [of w' w] kept_eqD(5,6) [of w' w]
    settings_eqD(1,2,3) [of "zp w'" "zp w"]
  by (simp add: touches_def)

lemma run_probe_touch:
  assumes "debounce_count z = 0" and "\<not> decelerate_on_trigger z"
  shows "\<exists>z'. run_probe (touch k) steps f d reverse z = Some (True, int k, z') \<and> out z' = out z"
  using assms
  by (simp add: run_probe_def wait_for_probe_def exec_def touch_def active_read_def all_moving_def
        Let_def stop_if_moving_def issue_def)

lemma sdiv_one: "int k sdiv 1 = int k"
  by (cases "k = 0") (simp_all add: signed_divide_int_def)

lemma do_probe_at_touches:
  assumes "touches k w" and "100 \<le> k (probes_run w)"
  obtains w' where "do_probe_at x y w = Inr (True, int (k (probes_run w)), w')"
    and "kept w' = kept w" and "probes_run w' = Suc (probes_run w)"
    and "out (zp w') = out (zp w)" and "probed w' = probed w @ [(x, y, int (k (probes_run w)))]"
    and "probe_from_height w' = probe_from_height w"
proof -
  let ?w1 = "on_zprobe (coordinated_move (Some (x + probe_offset_x w)) (Some (y + probe_offset_y w))
                           None (fast_feedrate (zp w)) False) w"
  have z1: "debounce_count (zp ?w1) = 0" "\<not> decelerate_on_trigger (zp ?w1)"
    using assms(1) by (simp_all add: touches_def coordinated_move_def issue_def)
  obtain z' where
    rp: "run_probe (touch (k (probes_run w))) (indeterminate w) (slow_feedrate (zp ?w1)) (-1) False (zp ?w1)
           = Some (True, int (k (probes_run w)), z')" and oz: "out z' = out (zp ?w1)"
    using run_probe_touch [OF z1] by blast
  have sz: "settings z' = settings (zp w)"
    using settings_run_probe [OF rp] by simp
  define w' where
    "w' = (on_zprobe (\<lambda>z. snd (return_probe (int (k (probes_run w))) False z))
             (?w1\<lparr>zp := z', probes_run := probes_run w + 1\<rparr>))
            \<lparr>probed := probed w @ [(x, y, int (k (probes_run w)))]\<rparr>"
  have ri: "run_probe_inline False (indeterminate w) ?w1
              = Inr (True, int (k (probes_run w)), ?w1\<lparr>zp := z', probes_run := probes_run w + 1\<rparr>)"
    using rp assms(1) by (simp add: run_probe_inline_def touches_def on_zprobe_def)
  have ps: "probe_smoothing ?w1 = Suc 0" "indeterminate ?w1 = indeterminate w"
    using assms(1) by (simp_all add: touches_def on_zprobe_def)
  have "do_probe_at x y w = Inr (True, int (k (probes_run w)), w')"
    using ri ps assms(2) by (simp add: do_probe_at_def Let_def w'_def sdiv_one on_zprobe_def)
  moreover have "kept w' = kept w"
    using sz by (simp add: w'_def kept_def on_zprobe_def)
  moreover have "probes_run w' = Suc (probes_run w)"
    by (simp add: w'_def on_zprobe_def)
  moreover have "out (zp w') = out (zp w)"
    using oz by (simp add: w'_def on_zprobe_def return_probe_def coordinated_move_def issue_def Let_def)
  moreover have "probed w' = probed w @ [(x, y, int (k (probes_run w)))]"
    by (simp add: w'_def)
  moreover have "probe_from_height w' = probe_from_height w"
    by (simp add: w'_def on_zprobe_def)
  ultimately show ?thesis
    by (rule that)
qed

subsection \<open>The calibrations and the dirty flag\<close>

lemma set_trim_frame:
  assumes "set_trim x y z w = (ok, w')"
  shows "geom_dirty w' = geom_dirty w \<and> arm_options w' = arm_options w"
  using assms by (auto simp: set_trim_def split: option.splits)

lemma prepare_to_probe_frame:
  assumes "prepare_to_probe w = Inr w'"
  shows "geom_dirty w' = geom_dirty w \<and> arm_options w' = arm_options w \<and> endstop_trim w' = endstop_trim w"
  using prepare_to_probe_kept [OF assms] kept_eqD(2,3,4) [of w' w] by simp

lemma probe_towers_frame:
  assumes "probe_towers co w = Inr (res, w')"
  shows "geom_dirty w' = geom_dirty w \<and> arm_options w' = arm_options w \<and> endstop_trim w' = endstop_trim w"
  using probe_towers_kept [OF assms] kept_eqD(2,3,4) [of w' w] by simp

lemma do_probe_at_frame:
  assumes "do_probe_at x y w = Inr (ok, s, w')"
  shows "geom_dirty w' = geom_dirty w \<and> arm_options w' = arm_options w \<and> endstop_trim w' = endstop_trim w"
  using do_probe_at_kept [OF assms] kept_eqD(2,3,4) [of w' w] by simp

lemma endstops_loop_frame:
  "endstops_loop n gcode target co trimscale last_deviation mm tr w = Inr (r, w') \<Longrightarrow>
   geom_dirty w' = geom_dirty w \<and> arm_options w' = arm_options w"
proof (induction n arbitrary: trimscale last_deviation mm tr w)
  case 0
  then show ?case by (auto split: if_splits)
next
  case (Suc n)
  obtain trimx trimy trimz where tr: "tr = (trimx, trimy, trimz)"
    by (cases tr) auto
  from Suc.prems obtain gc where gc: "gcode = Some gc"
    by (cases gcode) (auto simp: tr Let_def)
  let ?w0 = "on_zprobe (issue Idle_event) w"
  obtain ok1 w1 where st: "set_trim trimx trimy trimz ?w0 = (ok1, w1)"
    by (cases "set_trim trimx trimy trimz ?w0") auto
  have f1: "geom_dirty w1 = geom_dirty w \<and> arm_options w1 = arm_options w"
    using set_trim_frame [OF st] by simp
  show ?case
  proof (cases ok1)
    case False
    then show ?thesis
      using Suc.prems tr gc st f1 by (simp add: Let_def)
  next
    case True
    from Suc.prems tr gc st True obtain w2 where pp: "prepare_to_probe w1 = Inr w2"
      by (auto simp: Let_def split: sum.splits)
    have f2: "geom_dirty w2 = geom_dirty w \<and> arm_options w2 = arm_options w"
      using prepare_to_probe_frame [OF pp] f1 by simp
    from Suc.prems tr gc st True pp obtain res w3 where pt: "probe_towers co w2 = Inr (res, w3)"
      by (auto simp: Let_def split: sum.splits)
    have f3: "geom_dirty w3 = geom_dirty w \<and> arm_options w3 = arm_options w"
      using probe_towers_frame [OF pt] f2 by simp
    show ?thesis
    proof (cases res)
      case None
      then show ?thesis
        using Suc.prems tr gc st True pp pt f3 by (simp add: Let_def)
    next
      case (Some sss)
      obtain s1 s2 s3 where sss: "sss = (s1, s2, s3)"
        by (cases sss) auto
      define t1z where "t1z = zsteps_to_mm (zp w3) (real_of_int s1)"
      define t2z where "t2z = zsteps_to_mm (zp w3) (real_of_int s2)"
      define t3z where "t3z = zsteps_to_mm (zp w3) (real_of_int s3)"
      define mm' where "mm' = minmax3 t1z t2z t3z"
      show ?thesis
      proof (cases "snd mm' - fst mm' > target")
        case True
        then obtain ts' ld' tr' w4 where
          "endstops_loop n gcode target co ts' ld' mm' tr' w4 = Inr (r, w')"
          and "geom_dirty w4 = geom_dirty w3 \<and> arm_options w4 = arm_options w3"
          using Suc.prems tr gc st \<open>ok1\<close> pp pt Some sss
          by (simp add: Let_def mm'_def t1z_def t2z_def t3z_def)
        then show ?thesis
          using Suc.IH f3 by metis
      next
        case False
        define nx where "nx = trimx - snd (minmax3 trimx trimy trimz)"
        define ny where "ny = trimy - snd (minmax3 trimx trimy trimz)"
        define nz where "nz = trimz - snd (minmax3 trimx trimy trimz)"
        from False obtain w5 ok6 w6 m where
          st2: "set_trim nx ny nz w5 = (ok6, w6)"
          and w5: "geom_dirty w5 = geom_dirty w3 \<and> arm_options w5 = arm_options w3"
          and w': "w' = kprintf m w6"
          using Suc.prems tr gc st \<open>ok1\<close> pp pt Some sss
          by (auto simp: Let_def mm'_def t1z_def t2z_def t3z_def nx_def ny_def nz_def
                   split: prod.splits if_splits)
        then show ?thesis
          using set_trim_frame [OF st2] f3 by simp
      qed
    qed
  qed
qed

lemma endstops_probe_frame:
  assumes "endstops_probe gcode target co tr w = Inr (r, w')"
  shows "geom_dirty w' = geom_dirty w \<and> arm_options w' = arm_options w"
proof -
  obtain trimx trimy trimz where tr: "tr = (trimx, trimy, trimz)"
    by (cases tr) auto
  from assms tr obtain w2 where pp: "prepare_to_probe w = Inr w2"
    by (auto simp: endstops_probe_def Let_def split: sum.splits)
  have f2: "geom_dirty w2 = geom_dirty w \<and> arm_options w2 = arm_options w"
    using prepare_to_probe_frame [OF pp] by simp
  from assms tr pp obtain res w3 where pt: "probe_towers co w2 = Inr (res, w3)"
    by (auto simp: endstops_probe_def Let_def split: sum.splits)
  have f3: "geom_dirty w3 = geom_dirty w \<and> arm_options w3 = arm_options w"
    using probe_towers_frame [OF pt] f2 by simp
  show ?thesis
  proof (cases res)
    case None
    then show ?thesis
      using assms tr pp pt f3 by (simp add: endstops_probe_def Let_def)
  next
    case (Some sss)
    obtain s1 s2 s3 where sss: "sss = (s1, s2, s3)"
      by (cases sss) auto
    define mm where "mm = minmax3 (zsteps_to_mm (zp w3) (real_of_int s1))
                            (zsteps_to_mm (zp w3) (real_of_int s2)) (zsteps_to_mm (zp w3) (real_of_int s3))"
    show ?thesis
    proof (cases "snd mm - fst mm \<le> target")
      case True
      then show ?thesis
        using assms tr pp pt Some sss f3 by (auto simp: endstops_probe_def Let_def mm_def)
    next
      case False
      then obtain ts ld tr' w4 where
        "endstops_loop 20 gcode target co ts ld mm tr' w4 = Inr (r, w')"
        and "geom_dirty w4 = geom_dirty w3 \<and> arm_options w4 = arm_options w3"
        using assms tr pp pt Some sss by (simp add: endstops_probe_def Let_def mm_def)
      then show ?thesis
        using endstops_loop_frame f3 by metis
    qed
  qed
qed

lemma calibrate_delta_endstops_frame:
  assumes "calibrate_delta_endstops gcode w = Inr (r, w')"
  shows "geom_dirty w' = geom_dirty w \<and> arm_options w' = arm_options w"
proof (cases gcode)
  case None
  then show ?thesis
    using assms by (simp add: calibrate_delta_endstops_def Let_def)
next
  case (Some gc)
  define w1 where "w1 = (if has_letter gc CHR ''J'' then w\<lparr>probe_radius := get_value gc CHR ''J''\<rparr> else w)"
  define w2 where
    "w2 = kprintf (Msg ''[ES] Calibrating endstops: target %fmm, radius %fmm'' [target_of gc, probe_radius w1])
            (kprintf (Msg '' '' []) w1)"
  have w2: "geom_dirty w2 = geom_dirty w \<and> arm_options w2 = arm_options w"
    by (simp add: w2_def w1_def)
  show ?thesis
  proof (cases "has_letter gc CHR ''K''")
    case True
    show ?thesis
    proof (cases "endstop_trim w2")
      case None
      then show ?thesis
        using assms Some True w2
        by (auto simp: calibrate_delta_endstops_def Let_def target_of_def get_trim_def w1_def w2_def)
    next
      case (Some t)
      obtain tx ty tz where t: "t = (tx, ty, tz)"
        by (cases t) auto
      have "endstops_probe gcode (target_of gc) (getCoordinates (probe_radius w2)) (tx, ty, tz)
             (kprintf (Msg ''[ES] Current Trim: x=%1.3f, y=%1.3f, z=%1.3f'' [tx, ty, tz]) w2) = Inr (r, w')"
        using assms \<open>gcode = Some gc\<close> True Some t
        by (simp add: calibrate_delta_endstops_def Let_def target_of_def get_trim_def w1_def w2_def)
      then show ?thesis
        using endstops_probe_frame w2 by fastforce
    qed
  next
    case False
    obtain ok w3 where st: "set_trim 0 0 0 w2 = (ok, w3)"
      by (cases "set_trim 0 0 0 w2") auto
    have w3: "geom_dirty w3 = geom_dirty w \<and> arm_options w3 = arm_options w"
      using set_trim_frame [OF st] w2 by simp
    show ?thesis
    proof (cases ok)
      case False
      then show ?thesis
        using assms Some \<open>\<not> has_letter gc CHR ''K''\<close> st w3
        by (simp add: calibrate_delta_endstops_def Let_def target_of_def w1_def w2_def)
    next
      case True
      then have "endstops_probe gcode (target_of gc) (getCoordinates (probe_radius w2)) (0, 0, 0) w3 = Inr (r, w')"
        using assms Some \<open>\<not> has_letter gc CHR ''K''\<close> st
        by (simp add: calibrate_delta_endstops_def Let_def target_of_def w1_def w2_def)
      then show ?thesis
        using endstops_probe_frame w3 by fastforce
    qed
  qed
qed

lemma set_optional_frame [simp]:
  "geom_dirty (set_optional opts w) = geom_dirty w"
  "endstop_trim (set_optional opts w) = endstop_trim w"
  by (simp_all add: set_optional_def split: option.splits)

lemma radius_loop_frame:
  "radius_loop n i target co cmm delta_radius w = Inr (r, w') \<Longrightarrow>
   geom_dirty w' = geom_dirty w \<and> endstop_trim w' = endstop_trim w"
proof (induction n arbitrary: i delta_radius w)
  case 0
  then show ?case by simp
next
  case (Suc n)
  from Suc.prems obtain res w1 where pt: "probe_towers co w = Inr (res, w1)"
    by (auto split: sum.splits)
  have f1: "geom_dirty w1 = geom_dirty w \<and> endstop_trim w1 = endstop_trim w"
    using probe_towers_frame [OF pt] by simp
  show ?case
  proof (cases res)
    case None
    then show ?thesis
      using Suc.prems pt f1 by simp
  next
    case (Some ddd)
    obtain dx dy dz where ddd: "ddd = (dx, dy, dz)"
      by (cases ddd) auto
    define m where "m = zsteps_to_mm (zp w1) (real_of_int (dx + dy + dz) / 3)"
    define w2 where "w2 = kprintf (Msg ''[DR] C-%d Z-ave:%1.4f delta: %1.3f'' [real i, m, cmm - m]) w1"
    show ?thesis
    proof (cases "abs_macro (cmm - m) \<le> target")
      case True
      then show ?thesis
        using Suc.prems pt Some ddd f1 by (auto simp: Let_def m_def)
    next
      case False
      define dr where "dr = delta_radius + (cmm - m) * 2.5"
      define w3 where "w3 = kprintf (Msg ''Setting delta radius to: %1.4f'' [dr])
                               (set_optional [CHR ''R'' \<mapsto> dr] w2)"
      have f3: "geom_dirty w3 = geom_dirty w \<and> endstop_trim w3 = endstop_trim w"
        using f1 by (simp add: w3_def w2_def)
      from False obtain w4 where pp: "prepare_to_probe w3 = Inr w4"
        using Suc.prems pt Some ddd
        by (auto simp: Let_def m_def w2_def w3_def dr_def split: sum.splits)
      have f4: "geom_dirty w4 = geom_dirty w \<and> endstop_trim w4 = endstop_trim w"
        using prepare_to_probe_frame [OF pp] f3 by simp
      have "radius_loop n (i + 1) target co cmm dr (on_zprobe (issue Idle_event) w4) = Inr (r, w')"
        using Suc.prems pt Some ddd False pp
        by (simp add: Let_def m_def w2_def w3_def dr_def)
      then have "geom_dirty w' = geom_dirty (on_zprobe (issue Idle_event) w4) \<and>
                 endstop_trim w' = endstop_trim (on_zprobe (issue Idle_event) w4)"
        by (rule Suc.IH)
      then show ?thesis
        using f4 by simp
    qed
  qed
qed

lemma calibrate_delta_radius_frame:
  assumes "calibrate_delta_radius gcode w = Inr (r, w')"
  shows "geom_dirty w' = geom_dirty w \<and> endstop_trim w' = endstop_trim w"
proof (cases gcode)
  case None
  then show ?thesis
    using assms by (simp add: calibrate_delta_radius_def)
next
  case (Some gc)
  define w1 where "w1 = (if has_letter gc CHR ''J'' then w\<lparr>probe_radius := get_value gc CHR ''J''\<rparr> else w)"
  define w2 where
    "w2 = kprintf (Msg ''[DR] Calibrating delta radius: target %f, radius %f'' [target_of gc, probe_radius w1]) w1"
  have w2: "geom_dirty w2 = geom_dirty w \<and> endstop_trim w2 = endstop_trim w"
    by (simp add: w2_def w1_def)
  from assms Some obtain w3 where pp: "prepare_to_probe w2 = Inr w3"
    by (auto simp: calibrate_delta_radius_def Let_def target_of_def w1_def w2_def split: sum.splits)
  have f3: "geom_dirty w3 = geom_dirty w \<and> endstop_trim w3 = endstop_trim w"
    using prepare_to_probe_frame [OF pp] w2 by simp
  from assms Some pp obtain ok dc w4 where dp: "do_probe_at 0 0 w3 = Inr (ok, dc, w4)"
    by (auto simp: calibrate_delta_radius_def Let_def target_of_def w1_def w2_def split: sum.splits)
  have f4: "geom_dirty w4 = geom_dirty w \<and> endstop_trim w4 = endstop_trim w"
    using do_probe_at_frame [OF dp] f3 by simp
  show ?thesis
  proof (cases ok)
    case False
    then show ?thesis
      using assms Some pp dp f4
      by (simp add: calibrate_delta_radius_def Let_def target_of_def w1_def w2_def)
  next
    case True
    define w5 where "w5 = kprintf (Msg ''[DR] Center Z: %1.3fmm (%d steps)''
                                     [zsteps_to_mm (zp w4) (real_of_int dc), real_of_int dc]) w4"
    have f5: "geom_dirty w5 = geom_dirty w \<and> endstop_trim w5 = endstop_trim w"
      using f4 by (simp add: w5_def)
    define delta_radius where
      "delta_radius = (case arm_options w5 of None \<Rightarrow> 0
                       | Some options \<Rightarrow> (case options CHR ''R'' of None \<Rightarrow> 0 | Some r \<Rightarrow> r))"
    show ?thesis
    proof (cases "delta_radius = 0")
      case True
      then show ?thesis
        using assms Some pp dp \<open>ok\<close> f5
        by (auto simp: calibrate_delta_radius_def Let_def target_of_def w1_def w2_def w5_def delta_radius_def)
    next
      case False
      then have "radius_loop 10 1 (target_of gc) (getCoordinates (probe_radius w2))
                   (zsteps_to_mm (zp w5) (real_of_int dc)) delta_radius w5 = Inr (r, w')"
        using assms Some pp dp \<open>ok\<close>
        by (simp add: calibrate_delta_radius_def Let_def target_of_def w1_def w2_def w5_def delta_radius_def)
      then show ?thesis
        using radius_loop_frame f5 by fastforce
    qed
  qed
qed

text \<open>
  The G32 branch of \<^verbatim>\<open>handleGcode\<close> has no assignment to the dirty flag and no call
  of \<^verbatim>\<open>require_clean_geometry\<close>: whatever the line and the machine, the flag is after
  it what it was before. With R the trim of the endstops is left as it was, with E the
  options of the arm solution.
\<close>

lemma handleGcode_G32_frame:
  assumes "handleGcode_G32 gc w = Inr (r, w')"
  shows "r \<and> geom_dirty w' = geom_dirty w \<and>
         (has_letter gc CHR ''R'' \<longrightarrow> endstop_trim w' = endstop_trim w) \<and>
         (has_letter gc CHR ''E'' \<longrightarrow> arm_options w' = arm_options w)"
proof -
  let ?w0 = "on_zprobe (issue Wait_for_empty_queue) w"
  have f0: "geom_dirty ?w0 = geom_dirty w" "endstop_trim ?w0 = endstop_trim w" "arm_options ?w0 = arm_options w"
    by simp_all
  let ?e = "if \<not> has_letter gc CHR ''R'' then calibrate_delta_endstops (Some gc) ?w0 else Inr (True, ?w0)"
  from assms have "\<exists>ok1 w1. ?e = Inr (ok1, w1)"
    by (cases ?e) (auto simp: handleGcode_G32_def Let_def)
  then obtain ok1 w1 where e: "?e = Inr (ok1, w1)"
    by blast
  have f1: "geom_dirty w1 = geom_dirty w" "arm_options w1 = arm_options w"
    "has_letter gc CHR ''R'' \<longrightarrow> endstop_trim w1 = endstop_trim w"
    using e f0 calibrate_delta_endstops_frame [of "Some gc" ?w0 ok1 w1]
    by (auto split: if_splits)
  show ?thesis
  proof (cases ok1)
    case False
    then show ?thesis
      using assms e f1 by (auto simp: handleGcode_G32_def Let_def)
  next
    case True
    let ?d = "if \<not> has_letter gc CHR ''E'' then calibrate_delta_radius (Some gc) w1 else Inr (True, w1)"
    from assms e True have "\<exists>ok2 w2. ?d = Inr (ok2, w2)"
      by (cases ?d) (auto simp: handleGcode_G32_def Let_def)
    then obtain ok2 w2 where d: "?d = Inr (ok2, w2)"
      by blast
    have f2: "geom_dirty w2 = geom_dirty w" "endstop_trim w2 = endstop_trim w1"
      "has_letter gc CHR ''E'' \<longrightarrow> arm_options w2 = arm_options w"
      using d f1 calibrate_delta_radius_frame [of "Some gc" w1 ok2 w2]
      by (auto split: if_splits)
    have "w' = kprintf (Msg (if \<not> ok2 then ''Calibration failed to complete, probe not triggered''
                             else ''Basic calibration complete, save settings with M500'') []) w2 \<and> r"
      using assms e True d by (auto simp: handleGcode_G32_def Let_def split: if_splits)
    then show ?thesis
      using f1 f2 by auto
  qed
qed

text \<open>With both letters, G32 waits for the queue, runs no strategy and reports.\<close>

lemma handleGcode_G32_skips:
  assumes "has_letter gc CHR ''R''" and "has_letter gc CHR ''E''"
  shows "handleGcode_G32 gc w =
           Inr (True, kprintf (Msg ''Basic calibration complete, save settings with M500'' [])
                        (on_zprobe (issue Wait_for_empty_queue) w))"
  using assms by (simp add: handleGcode_G32_def Let_def)

text \<open>
  Without the letters, G32 waits for the queue and runs the endstop strategy on the line;
  when that has failed it reports and runs nothing more, and when it has succeeded it
  runs the delta radius strategy on what the endstop strategy has left, and reports.
\<close>

lemma handleGcode_G32_endstops_failed:
  assumes "\<not> has_letter gc CHR ''R''"
    and "calibrate_delta_endstops (Some gc) (on_zprobe (issue Wait_for_empty_queue) w) = Inr (False, w1)"
  shows "handleGcode_G32 gc w =
           Inr (True, kprintf (Msg ''Calibration failed to complete, probe not triggered'' []) w1)"
  using assms by (simp add: handleGcode_G32_def Let_def)

lemma handleGcode_G32_runs_both:
  assumes "\<not> has_letter gc CHR ''R''" and "\<not> has_letter gc CHR ''E''"
    and "calibrate_delta_endstops (Some gc) (on_zprobe (issue Wait_for_empty_queue) w) = Inr (True, w1)"
    and "calibrate_delta_radius (Some gc) w1 = Inr (ok, w2)"
  shows "handleGcode_G32 gc w =
           Inr (True, kprintf (Msg (if ok then ''Basic calibration complete, save settings with M500''
                                    else ''Calibration failed to complete, probe not triggered'') []) w2)"
  using assms by (simp add: handleGcode_G32_def Let_def)

subsection \<open>Runs over the sample beds\<close>

lemma touches_update [simp]:
  "touches k (kprintf m w) = touches k w"
  "touches k (on_zprobe (issue c) w) = touches k w"
  "touches k (set_optional opts w) = touches k w"
  "touches k (snd (set_trim x y z w)) = touches k w"
  by (simp_all add: touches_def kprintf_def on_zprobe_def set_optional_def set_trim_def issue_def printf_def
        split: option.splits)

lemma prepare_to_probe_known:
  assumes "probe_from_height w \<noteq> -1"
  obtains w' where "prepare_to_probe w = Inr w'" and "kept w' = kept w" and "probes_run w' = probes_run w"
    and "out (zp w') = out (zp w)" and "probe_from_height w' = probe_from_height w"
proof -
  let ?w' = "on_zprobe (coordinated_move None None (Some (- probe_from_height w)) (fast_feedrate (zp w)) True)
               (on_zprobe home w)"
  have p: "prepare_to_probe w = Inr ?w'"
    using assms by (simp add: prepare_to_probe_def on_zprobe_def home_def issue_def)
  have k: "kept ?w' = kept w"
    using prepare_to_probe_kept [OF p] by simp
  have r: "probes_run ?w' = probes_run w" and h: "probe_from_height ?w' = probe_from_height w"
    by simp_all
  have o: "out (zp ?w') = out (zp w)"
    by (simp add: coordinated_move_def home_def issue_def)
  show ?thesis
    by (rule that [OF p k r o h])
qed

lemma probe_towers_touches:
  assumes "touches k w" and "100 \<le> k (probes_run w)" and "100 \<le> k (Suc (probes_run w))"
    and "100 \<le> k (Suc (Suc (probes_run w)))"
  obtains w' where
    "probe_towers co w =
       Inr (Some (int (k (probes_run w)), int (k (Suc (probes_run w))), int (k (Suc (Suc (probes_run w))))), w')"
    and "kept w' = kept w" and "probes_run w' = probes_run w + 3"
    and "out (zp w') = out (zp w)" and "probe_from_height w' = probe_from_height w"
proof -
  obtain t1x t1y t2x t2y t3x t3y where co: "co = (t1x, t1y, t2x, t2y, t3x, t3y)"
    by (cases co) auto
  obtain w1 where
    1: "do_probe_at t1x t1y w = Inr (True, int (k (probes_run w)), w1)" "kept w1 = kept w"
      "probes_run w1 = Suc (probes_run w)" "out (zp w1) = out (zp w)"
      "probe_from_height w1 = probe_from_height w"
    using do_probe_at_touches [OF assms(1,2)] by metis
  have t1: "touches k w1"
    using touches_kept [OF 1(2)] assms(1) by simp
  obtain w2 where
    2: "do_probe_at t2x t2y w1 = Inr (True, int (k (probes_run w1)), w2)" "kept w2 = kept w1"
      "probes_run w2 = Suc (probes_run w1)" "out (zp w2) = out (zp w1)"
      "probe_from_height w2 = probe_from_height w1"
    using do_probe_at_touches [OF t1] assms(3) 1(3) by metis
  have t2: "touches k w2"
    using touches_kept [OF 2(2)] t1 by simp
  obtain w3 where
    3: "do_probe_at t3x t3y w2 = Inr (True, int (k (probes_run w2)), w3)" "kept w3 = kept w2"
      "probes_run w3 = Suc (probes_run w2)" "out (zp w3) = out (zp w2)"
      "probe_from_height w3 = probe_from_height w2"
    using do_probe_at_touches [OF t2] assms(4) 1(3) 2(3) by metis
  have p: "probe_towers co w =
       Inr (Some (int (k (probes_run w)), int (k (Suc (probes_run w))), int (k (Suc (Suc (probes_run w))))), w3)"
    using 1 2 3 by (simp add: probe_towers_def co)
  have f: "kept w3 = kept w" "probes_run w3 = probes_run w + 3" "out (zp w3) = out (zp w)"
    "probe_from_height w3 = probe_from_height w"
    using 1 2 3 by simp_all
  show ?thesis
    by (rule that [OF p f])
qed

lemma endstops_probe_level:
  assumes "touches (\<lambda>n. k) w" and "100 \<le> k" and "probe_from_height w \<noteq> -1" and "0 \<le> target"
  obtains w' where "endstops_probe (Some gc) target co tr w = Inr (True, w')"
    and "kept w' = kept w" and "probe_from_height w' = probe_from_height w"
proof -
  obtain w2 where 2: "prepare_to_probe w = Inr w2" "kept w2 = kept w" "probes_run w2 = probes_run w"
      "out (zp w2) = out (zp w)" "probe_from_height w2 = probe_from_height w"
    using prepare_to_probe_known [OF assms(3)] by metis
  have t2: "touches (\<lambda>n. k) w2"
    using touches_kept [OF 2(2)] assms(1) by simp
  obtain w3 where 3: "probe_towers co w2 = Inr (Some (int k, int k, int k), w3)" "kept w3 = kept w2"
      "probes_run w3 = probes_run w2 + 3" "out (zp w3) = out (zp w2)"
      "probe_from_height w3 = probe_from_height w2"
    using probe_towers_touches [OF t2, of co] assms(2) by metis
  let ?w' = "kprintf (Msg ''[ES] Trim already set within required parameters: difference = %f'' [0]) w3"
  have "endstops_probe (Some gc) target co tr w = Inr (True, ?w')"
    using 2(1) 3(1) assms(4) by (cases tr) (simp add: endstops_probe_def Let_def minmax3_def)
  moreover have "kept ?w' = kept w" "probe_from_height ?w' = probe_from_height w"
    using 2 3 by simp_all
  ultimately show ?thesis
    using that by blast
qed

lemma calibrate_delta_endstops_level:
  assumes "touches (\<lambda>n. k) w" and "100 \<le> k" and "probe_from_height w \<noteq> -1"
    and "endstop_trim w = Some t" and "letters gc CHR ''I'' = None" and "letters gc CHR ''J'' = None"
  obtains w' where "calibrate_delta_endstops (Some gc) w = Inr (True, w')"
    and "touches (\<lambda>n. k) w'" and "probe_from_height w' \<noteq> -1"
    and "endstop_trim w' = (if has_letter gc CHR ''K'' then Some t else Some (0, 0, 0))"
proof -
  define w2 where
    "w2 = kprintf (Msg ''[ES] Calibrating endstops: target %fmm, radius %fmm'' [0.03, probe_radius w])
            (kprintf (Msg '' '' []) w)"
  have w2: "touches (\<lambda>n. k) w2" "probe_from_height w2 \<noteq> -1" "endstop_trim w2 = Some t"
    using assms by (simp_all add: w2_def)
  have tg: "0 \<le> (0.03::real)"
    by simp
  show ?thesis
  proof (cases "has_letter gc CHR ''K''")
    case True
    obtain tx ty tz where t: "t = (tx, ty, tz)"
      by (cases t) auto
    let ?w3 = "kprintf (Msg ''[ES] Current Trim: x=%1.3f, y=%1.3f, z=%1.3f'' [tx, ty, tz]) w2"
    have w3: "touches (\<lambda>n. k) ?w3" "probe_from_height ?w3 \<noteq> -1" "endstop_trim ?w3 = Some t"
      using w2 by simp_all
    obtain w' where e: "endstops_probe (Some gc) 0.03 (getCoordinates (probe_radius w2)) (tx, ty, tz) ?w3 = Inr (True, w')"
      and k: "kept w' = kept ?w3" and h: "probe_from_height w' = probe_from_height ?w3"
      using endstops_probe_level [OF w3(1) assms(2) w3(2) tg, of gc "getCoordinates (probe_radius w2)" "(tx, ty, tz)"]
      by blast
    have "calibrate_delta_endstops (Some gc) w = Inr (True, w')"
      using e True assms(5,6) w2(3) t
      by (simp add: calibrate_delta_endstops_def Let_def has_letter_def get_trim_def w2_def)
    moreover have "touches (\<lambda>n. k) w'" "probe_from_height w' \<noteq> -1" "endstop_trim w' = Some t"
      using touches_kept [OF k] kept_eqD(3) [OF k] h w3 by simp_all
    ultimately show ?thesis
      using that True by simp
  next
    case False
    obtain ok w3 where st: "set_trim 0 0 0 w2 = (ok, w3)"
      by (cases "set_trim 0 0 0 w2") auto
    have ok: ok and w3: "touches (\<lambda>n. k) w3" "probe_from_height w3 \<noteq> -1" "endstop_trim w3 = Some (0, 0, 0)"
      using st w2 touches_update(4) [of "\<lambda>n. k" 0 0 0 w2]
      by (auto simp: set_trim_def split: option.splits)
    obtain w' where e: "endstops_probe (Some gc) 0.03 (getCoordinates (probe_radius w2)) (0, 0, 0) w3 = Inr (True, w')"
      and k: "kept w' = kept w3" and h: "probe_from_height w' = probe_from_height w3"
      using endstops_probe_level [OF w3(1) assms(2) w3(2) tg, of gc "getCoordinates (probe_radius w2)" "(0, 0, 0)"]
      by blast
    have "calibrate_delta_endstops (Some gc) w = Inr (True, w')"
      using e False assms(5,6) st ok
      by (simp add: calibrate_delta_endstops_def Let_def has_letter_def w2_def)
    moreover have "touches (\<lambda>n. k) w'" "probe_from_height w' \<noteq> -1" "endstop_trim w' = Some (0, 0, 0)"
      using touches_kept [OF k] kept_eqD(3) [OF k] h w3 by simp_all
    ultimately show ?thesis
      using that False by simp
  qed
qed

lemma zsteps_to_mm_touches: "touches k w \<Longrightarrow> zsteps_to_mm (zp w) s = s / 100"
  by (simp add: touches_def zsteps_to_mm_def)

lemma zsteps_to_mm_printf [simp]: "zsteps_to_mm (printf m z) s = zsteps_to_mm z s"
  by (simp add: zsteps_to_mm_def printf_def)

text \<open>The delta radius over a flat bed: the first turn of the loop is within the target.\<close>

lemma calibrate_delta_radius_level:
  assumes "touches (\<lambda>n. k) w" and "100 \<le> k" and "probe_from_height w \<noteq> -1"
    and "arm_options w = Some opts" and "opts CHR ''R'' = Some r" and "r \<noteq> 0"
    and "letters gc CHR ''I'' = None" and "letters gc CHR ''J'' = None"
  obtains w' where "calibrate_delta_radius (Some gc) w = Inr (True, w')"
proof -
  let ?w1 = "kprintf (Msg ''[DR] Calibrating delta radius: target %f, radius %f'' [0.03, probe_radius w]) w"
  have w1: "touches (\<lambda>n. k) ?w1" "probe_from_height ?w1 \<noteq> -1" "arm_options ?w1 = Some opts"
    using assms by simp_all
  obtain w2 where 2: "prepare_to_probe ?w1 = Inr w2" "kept w2 = kept ?w1"
    using prepare_to_probe_known [OF w1(2)] by metis
  have t2: "touches (\<lambda>n. k) w2" "arm_options w2 = Some opts"
    using touches_kept [OF 2(2)] kept_eqD(4) [OF 2(2)] w1 by simp_all
  obtain w3 where 3: "do_probe_at 0 0 w2 = Inr (True, int k, w3)" "kept w3 = kept w2"
    using do_probe_at_touches [OF t2(1), of 0 0] assms(2) by metis
  have t3: "touches (\<lambda>n. k) w3" "arm_options w3 = Some opts"
    using touches_kept [OF 3(2)] kept_eqD(4) [OF 3(2)] t2 by simp_all
  let ?w4 = "kprintf (Msg ''[DR] Center Z: %1.3fmm (%d steps)'' [real k / 100, real k]) w3"
  have t4: "touches (\<lambda>n. k) ?w4" "arm_options ?w4 = Some opts"
    using t3 by simp_all
  obtain w5 where 5: "probe_towers (getCoordinates (probe_radius ?w1)) ?w4 = Inr (Some (int k, int k, int k), w5)"
      "kept w5 = kept ?w4"
    using probe_towers_touches [OF t4(1), of "getCoordinates (probe_radius ?w1)"] assms(2) by metis
  have t5: "touches (\<lambda>n. k) w5"
    using touches_kept [OF 5(2)] t4 by simp
  have "radius_loop 10 1 0.03 (getCoordinates (probe_radius ?w1)) (real k / 100) r ?w4
          = Inr (True, kprintf (Msg ''[DR] C-%d Z-ave:%1.4f delta: %1.3f'' [1, real k / 100, 0]) w5)"
    using 5(1) t5 radius_loop.simps(2) [of 9]
    by (simp add: Let_def zsteps_to_mm_touches abs_macro_def)
  then have "calibrate_delta_radius (Some gc) w
               = Inr (True, kprintf (Msg ''[DR] C-%d Z-ave:%1.4f delta: %1.3f'' [1, real k / 100, 0]) w5)"
    using 2(1) 3(1) assms(5-8) t3 t4(2)
    by (simp add: calibrate_delta_radius_def Let_def has_letter_def zsteps_to_mm_touches)
  then show ?thesis
    by (rule that)
qed

lemma set_optional_fields [simp]:
  "zp (set_optional opts w) = zp w"
  "probes_run (set_optional opts w) = probes_run w"
  "probe_from_height (set_optional opts w) = probe_from_height w"
  by (simp_all add: set_optional_def split: option.splits)

lemma out_printf [simp]: "out (printf m z) = out z @ [m]"
  by (simp add: printf_def)

lemma out_issue [simp]: "out (issue c z) = out z"
  by (simp add: issue_def)

text \<open>
  The delta radius over a bed whose towers measure 2000 steps against 10 mm at the
  centre, whatever the radius: no turn is within the target, and the loop ends with
  \<^verbatim>\<open>return true\<close>.
\<close>

lemma radius_loop_bowl:
  assumes "touches k w" and "\<forall>n \<ge> probes_run w. k n = 2000" and "probe_from_height w \<noteq> -1"
  shows "\<exists>w'. radius_loop n i (3 / 100) co 10 dr w = Inr (True, w') \<and>
           (0 < n \<longrightarrow> Msg ''[DR] C-%d Z-ave:%1.4f delta: %1.3f'' [real (i + n - 1), 20, -10] \<in> set (out (zp w'))) \<and>
           set (out (zp w)) \<subseteq> set (out (zp w'))"
  using assms
proof (induction n arbitrary: i dr w)
  case 0
  then show ?case by simp
next
  case (Suc n)
  have k: "k (probes_run w) = 2000" "k (Suc (probes_run w)) = 2000" "k (Suc (Suc (probes_run w))) = 2000"
    using Suc.prems(2) by simp_all
  have k100: "100 \<le> k (probes_run w)" "100 \<le> k (Suc (probes_run w))" "100 \<le> k (Suc (Suc (probes_run w)))"
    using k by simp_all
  obtain w1 where
    "probe_towers co w =
       Inr (Some (int (k (probes_run w)), int (k (Suc (probes_run w))), int (k (Suc (Suc (probes_run w))))), w1)"
    and 1: "kept w1 = kept w" "probes_run w1 = probes_run w + 3" "out (zp w1) = out (zp w)"
      "probe_from_height w1 = probe_from_height w"
    using probe_towers_touches [OF Suc.prems(1) k100, of co] by blast
  then have pt: "probe_towers co w = Inr (Some (2000, 2000, 2000), w1)"
    using k by simp
  have t1: "touches k w1"
    using touches_kept [OF 1(1)] Suc.prems(1) by simp
  let ?w2 = "kprintf (Msg ''[DR] C-%d Z-ave:%1.4f delta: %1.3f'' [real i, 20, -10]) w1"
  let ?dr = "dr + (-10) * 2.5"
  let ?w3 = "kprintf (Msg ''Setting delta radius to: %1.4f'' [?dr]) (set_optional [CHR ''R'' \<mapsto> ?dr] ?w2)"
  have t3: "touches k ?w3" "probe_from_height ?w3 \<noteq> -1" "probes_run ?w3 = probes_run w + 3"
    using t1 1 Suc.prems(3) by simp_all
  obtain w4 where 4: "prepare_to_probe ?w3 = Inr w4" "kept w4 = kept ?w3" "probes_run w4 = probes_run ?w3"
      "out (zp w4) = out (zp ?w3)" "probe_from_height w4 = probe_from_height ?w3"
    using prepare_to_probe_known [OF t3(2)] by metis
  let ?w5 = "on_zprobe (issue Idle_event) w4"
  have t5: "touches k ?w5" "\<forall>n \<ge> probes_run ?w5. k n = 2000" "probe_from_height ?w5 \<noteq> -1"
    using touches_kept [OF 4(2)] t3 4 Suc.prems(2) by simp_all
  obtain w' where w': "radius_loop n (i + 1) (3 / 100) co 10 ?dr ?w5 = Inr (True, w')"
    "0 < n \<longrightarrow> Msg ''[DR] C-%d Z-ave:%1.4f delta: %1.3f'' [real (i + 1 + n - 1), 20, -10] \<in> set (out (zp w'))"
    "set (out (zp ?w5)) \<subseteq> set (out (zp w'))"
    using Suc.IH [OF t5, of "i + 1" ?dr] by blast
  have o5: "out (zp ?w5) = out (zp w) @ [Msg ''[DR] C-%d Z-ave:%1.4f delta: %1.3f'' [real i, 20, -10],
                                          Msg ''Setting delta radius to: %1.4f'' [?dr]]"
    using 4(4) 1(3) by simp
  have "radius_loop (Suc n) i (3 / 100) co 10 dr w = Inr (True, w')"
    using pt t1 4(1) w'(1)
    by (simp add: Let_def zsteps_to_mm_touches abs_macro_def)
  moreover have "Msg ''[DR] C-%d Z-ave:%1.4f delta: %1.3f'' [real (i + Suc n - 1), 20, -10] \<in> set (out (zp w'))"
  proof (cases "n = 0")
    case True
    then show ?thesis
      using w'(3) o5 by auto
  next
    case False
    then show ?thesis
      using w'(2) by simp
  qed
  moreover have "set (out (zp w)) \<subseteq> set (out (zp w'))"
    using w'(3) o5 by auto
  ultimately show ?case
    by blast
qed

lemma sample_worlds:
  "touches (\<lambda>n. 1000) found_world" "probe_from_height found_world \<noteq> -1"
  "endstop_trim found_world = Some (0, 0, 0)" "geom_dirty found_world"
  "arm_options found_world = Some [CHR ''L'' \<mapsto> 269, CHR ''R'' \<mapsto> 128.5]"
  "touches (\<lambda>n. 1000) unnormalized_world" "probe_from_height unnormalized_world \<noteq> -1"
  "endstop_trim unnormalized_world = Some (-1, -2, -3)"
  "touches (\<lambda>n. if n = 0 then 1000 else 2000) bowl_world" "probe_from_height bowl_world \<noteq> -1"
  "arm_options bowl_world = Some [CHR ''L'' \<mapsto> 269, CHR ''R'' \<mapsto> 128.5]" "probes_run bowl_world = 0"
  by (simp_all add: touches_def found_world_def unnormalized_world_def bowl_world_def sample_world_def
        sample_probe_def)

lemma sample_gcodes:
  "letters G32 c = None" "\<not> has_letter G32 c"
  "letters G32_K CHR ''I'' = None" "letters G32_K CHR ''J'' = None" "has_letter G32_K CHR ''K''"
  by (simp_all add: G32_def G32_K_def has_letter_def)

text \<open>
  C3 fails on the code. Over the bowl-shaped bed the centre measures 10 mm and the
  towers 20 mm in each of the ten turns of the loop, so the difference is never within
  the target of 0.03 mm; \<^verbatim>\<open>calibrate_delta_radius\<close> reports the tenth turn with a
  difference of -10 mm and returns true.
\<close>

theorem radius_returns_true_without_converging:
  "(case calibrate_delta_radius (Some G32) bowl_world of
      Inl f \<Rightarrow> False
    | Inr (r, w') \<Rightarrow> r \<and> Msg ''[DR] C-%d Z-ave:%1.4f delta: %1.3f'' [10, 20, -10] \<in> set (out (zp w')))"
proof -
  let ?k = "\<lambda>n::nat. if n = 0 then 1000 else (2000::nat)"
  let ?w1 = "kprintf (Msg ''[DR] Calibrating delta radius: target %f, radius %f'' [0.03, probe_radius bowl_world])
               bowl_world"
  have w1: "touches ?k ?w1" "probe_from_height ?w1 \<noteq> -1" "probes_run ?w1 = 0"
    using sample_worlds(9,10,12) by simp_all
  obtain w2 where 2: "prepare_to_probe ?w1 = Inr w2" "kept w2 = kept ?w1" "probes_run w2 = probes_run ?w1"
      "probe_from_height w2 = probe_from_height ?w1"
    using prepare_to_probe_known [OF w1(2)] by metis
  have t2: "touches ?k w2" "100 \<le> ?k (probes_run w2)"
    using touches_kept [OF 2(2)] w1 2(3) by simp_all
  obtain w3 where "do_probe_at 0 0 w2 = Inr (True, int (?k (probes_run w2)), w3)"
    and 3: "kept w3 = kept w2" "probes_run w3 = Suc (probes_run w2)" "probe_from_height w3 = probe_from_height w2"
    using do_probe_at_touches [OF t2, of 0 0] by metis
  then have dp: "do_probe_at 0 0 w2 = Inr (True, 1000, w3)"
    using 2(3) w1(3) by simp
  have t3: "touches ?k w3" "probes_run w3 = 1" "probe_from_height w3 \<noteq> -1"
    "arm_options w3 = Some [CHR ''L'' \<mapsto> 269, CHR ''R'' \<mapsto> 128.5]"
    using touches_kept [OF 3(1)] t2(1) 3 2 w1 kept_eqD(4) [OF 3(1)] kept_eqD(4) [OF 2(2)] sample_worlds(11)
    by simp_all
  let ?w4 = "kprintf (Msg ''[DR] Center Z: %1.3fmm (%d steps)'' [10, 1000]) w3"
  have t4: "touches ?k ?w4" "\<forall>n \<ge> probes_run ?w4. ?k n = 2000" "probe_from_height ?w4 \<noteq> -1"
    using t3 by simp_all
  obtain w' where l: "radius_loop 10 1 (3 / 100) (getCoordinates (probe_radius ?w1)) 10 128.5 ?w4 = Inr (True, w')"
    and m: "Msg ''[DR] C-%d Z-ave:%1.4f delta: %1.3f'' [real (1 + 10 - 1), 20, -10] \<in> set (out (zp w'))"
    using radius_loop_bowl [OF t4, of 10 1 "getCoordinates (probe_radius ?w1)" "128.5"] by auto
  have "calibrate_delta_radius (Some G32) bowl_world = Inr (True, w')"
    using 2(1) dp l t3(1,4) sample_gcodes(2)
    by (simp add: calibrate_delta_radius_def Let_def zsteps_to_mm_touches)
  then show ?thesis
    using m by simp
qed

subsection \<open>Levelling over a tilted bed\<close>

lemma out_on_zprobe_issue [simp]: "out (zp (on_zprobe (issue c) w)) = out (zp w)"
  by (simp add: on_zprobe_def issue_def)

lemma set_trim_enabled:
  assumes "endstop_trim w = Some t"
  obtains w' where "set_trim x y z w = (True, w')" and "endstop_trim w' = Some (x, y, z)"
    and "out (zp w') = out (zp w) @ [Msg ''[ES] Set trim to: X=%f Y=%f Z=%f'' [x, y, z]]"
    and "\<forall>k. touches k w' = touches k w" and "probe_from_height w' = probe_from_height w"
    and "probes_run w' = probes_run w" and "probe_radius w' = probe_radius w"
proof -
  let ?w' = "kprintf (Msg ''[ES] Set trim to: X=%f Y=%f Z=%f'' [x, y, z]) (w\<lparr>endstop_trim := Some (x, y, z)\<rparr>)"
  have "set_trim x y z w = (True, ?w')"
    using assms by (simp add: set_trim_def)
  moreover have "endstop_trim ?w' = Some (x, y, z)"
    by simp
  moreover have "out (zp ?w') = out (zp w) @ [Msg ''[ES] Set trim to: X=%f Y=%f Z=%f'' [x, y, z]]"
    by simp
  moreover have "\<forall>k. touches k ?w' = touches k w"
    by (simp add: touches_def printf_def)
  moreover have "probe_from_height ?w' = probe_from_height w" "probes_run ?w' = probes_run w"
    "probe_radius ?w' = probe_radius w"
    by simp_all
  ultimately show ?thesis
    by (rule that)
qed

text \<open>A turn of the levelling loop whose three probes measure the same.\<close>

lemma endstops_loop_level_turn:
  assumes "touches k w" and "k (probes_run w) = d" and "k (Suc (probes_run w)) = d"
    and "k (Suc (Suc (probes_run w))) = d" and "100 \<le> d"
    and "probe_from_height w \<noteq> -1" and "endstop_trim w = Some t" and "0 \<le> target"
  obtains w' where
    "endstops_loop (Suc n) (Some gc) target co ts ld mm (tx, ty, tz) w = Inr (True, w')"
    and "endstop_trim w' =
           Some (tx - snd (minmax3 tx ty tz), ty - snd (minmax3 tx ty tz), tz - snd (minmax3 tx ty tz))"
    and "out (zp w') = out (zp w) @
           [Msg ''[ES] Set trim to: X=%f Y=%f Z=%f'' [tx, ty, tz],
            Msg ''[ES] Trim set to within required paramters: want %1.3f, difference is %1.3f'' [target, 0],
            Msg ''[ES] Trim is {%1.3f, %1.3f, %1.3f} - normalizing... '' [tx, ty, tz],
            Msg ''[ES] Set trim to: X=%f Y=%f Z=%f''
              [tx - snd (minmax3 tx ty tz), ty - snd (minmax3 tx ty tz), tz - snd (minmax3 tx ty tz)],
            Msg ''[ES] New values: {%1.3f, %1.3f, %1.3f}.''
              [tx - snd (minmax3 tx ty tz), ty - snd (minmax3 tx ty tz), tz - snd (minmax3 tx ty tz)]]"
    and "touches k w'" and "probes_run w' = probes_run w + 3" and "probe_from_height w' = probe_from_height w"
    and "probe_radius w' = probe_radius w"
proof -
  let ?m = "snd (minmax3 tx ty tz)"
  let ?w0 = "on_zprobe (issue Idle_event) w"
  have e0: "endstop_trim ?w0 = Some t"
    using assms(7) by simp
  obtain w1 where s1: "set_trim tx ty tz ?w0 = (True, w1)"
    and e1: "endstop_trim w1 = Some (tx, ty, tz)"
    and o1': "out (zp w1) = out (zp ?w0) @ [Msg ''[ES] Set trim to: X=%f Y=%f Z=%f'' [tx, ty, tz]]"
    and k1: "\<forall>k. touches k w1 = touches k ?w0" and h1: "probe_from_height w1 = probe_from_height ?w0"
    and p1: "probes_run w1 = probes_run ?w0" and r1: "probe_radius w1 = probe_radius ?w0"
    using set_trim_enabled [OF e0, of tx ty tz] by blast
  have o1: "out (zp w1) = out (zp w) @ [Msg ''[ES] Set trim to: X=%f Y=%f Z=%f'' [tx, ty, tz]]"
    using o1' by simp
  have t1: "touches k w1" "probe_from_height w1 \<noteq> -1" "probes_run w1 = probes_run w"
    using assms(1,6) k1 h1 p1 by simp_all
  obtain w2 where 2: "prepare_to_probe w1 = Inr w2" "kept w2 = kept w1" "probes_run w2 = probes_run w1"
      "out (zp w2) = out (zp w1)" "probe_from_height w2 = probe_from_height w1"
    using prepare_to_probe_known [OF t1(2)] by metis
  have t2: "touches k w2" "100 \<le> k (probes_run w2)" "100 \<le> k (Suc (probes_run w2))"
    "100 \<le> k (Suc (Suc (probes_run w2)))"
    using touches_kept [OF 2(2)] t1 2(3) assms(2-5) by simp_all
  obtain w3 where
    "probe_towers co w2 =
       Inr (Some (int (k (probes_run w2)), int (k (Suc (probes_run w2))), int (k (Suc (Suc (probes_run w2))))), w3)"
    and 3: "kept w3 = kept w2" "probes_run w3 = probes_run w2 + 3" "out (zp w3) = out (zp w2)"
      "probe_from_height w3 = probe_from_height w2"
    using probe_towers_touches [OF t2, of co] by blast
  then have pt: "probe_towers co w2 = Inr (Some (int d, int d, int d), w3)"
    using 2(3) t1(3) assms(2-4) by simp
  have t3: "touches k w3" "endstop_trim w3 = Some (tx, ty, tz)"
    using touches_kept [OF 3(1)] t2(1) kept_eqD(3) [OF 3(1)] kept_eqD(3) [OF 2(2)] e1 by simp_all
  let ?w4 = "kprintf (Msg ''[ES] Trim is {%1.3f, %1.3f, %1.3f} - normalizing... '' [tx, ty, tz])
               (kprintf (Msg ''[ES] Trim set to within required paramters: want %1.3f, difference is %1.3f''
                           [target, 0]) w3)"
  have e4: "endstop_trim ?w4 = Some (tx, ty, tz)"
    using t3(2) by simp
  obtain w5 where s5: "set_trim (tx - ?m) (ty - ?m) (tz - ?m) ?w4 = (True, w5)"
    and e5: "endstop_trim w5 = Some (tx - ?m, ty - ?m, tz - ?m)"
    and o5: "out (zp w5) = out (zp ?w4) @ [Msg ''[ES] Set trim to: X=%f Y=%f Z=%f'' [tx - ?m, ty - ?m, tz - ?m]]"
    and k5: "\<forall>k. touches k w5 = touches k ?w4" and h5: "probe_from_height w5 = probe_from_height ?w4"
    and p5: "probes_run w5 = probes_run ?w4" and r5: "probe_radius w5 = probe_radius ?w4"
    using set_trim_enabled [OF e4, of "tx - ?m" "ty - ?m" "tz - ?m"] by blast
  let ?w' = "kprintf (Msg ''[ES] New values: {%1.3f, %1.3f, %1.3f}.'' [tx - ?m, ty - ?m, tz - ?m]) w5"
  have r: "endstops_loop (Suc n) (Some gc) target co ts ld mm (tx, ty, tz) w = Inr (True, ?w')"
    using s1 2(1) pt t3(1) s5 assms(8)
    by (simp add: Let_def zsteps_to_mm_touches minmax3_def)
  have e: "endstop_trim ?w' = Some (tx - ?m, ty - ?m, tz - ?m)"
    using e5 by simp
  have o: "out (zp ?w') = out (zp w) @
           [Msg ''[ES] Set trim to: X=%f Y=%f Z=%f'' [tx, ty, tz],
            Msg ''[ES] Trim set to within required paramters: want %1.3f, difference is %1.3f'' [target, 0],
            Msg ''[ES] Trim is {%1.3f, %1.3f, %1.3f} - normalizing... '' [tx, ty, tz],
            Msg ''[ES] Set trim to: X=%f Y=%f Z=%f'' [tx - ?m, ty - ?m, tz - ?m],
            Msg ''[ES] New values: {%1.3f, %1.3f, %1.3f}.'' [tx - ?m, ty - ?m, tz - ?m]]"
    using o5 3(3) 2(4) o1 by simp
  have t: "touches k ?w'"
    using t3(1) k5 by simp
  have p: "probes_run ?w' = probes_run w + 3"
    using 3(2) 2(3) t1(3) p5 by simp
  have h: "probe_from_height ?w' = probe_from_height w"
    using 3(4) 2(5) h5 h1 by simp
  have pr: "probe_radius ?w' = probe_radius w"
    using r5 kept_eqD(7) [OF 3(1)] kept_eqD(7) [OF 2(2)] r1 by simp
  show ?thesis
    by (rule that [OF r e o t p h pr])
qed

text \<open>
  The bed that measures 10, 11 and 12 mm at the towers and is level after the first
  adjustment of the trim: the loop succeeds in its first turn.
\<close>

lemma tilted_steps:
  "tilted 0 = 1000" "tilted (Suc 0) = 1100" "tilted (Suc (Suc 0)) = 1200"
  "tilted (Suc (Suc (Suc n))) = 1000"
  by (simp_all add: tilted_def)

lemma endstops_probe_tilted:
  assumes "touches tilted w" and "probes_run w = 0" and "probe_from_height w \<noteq> -1"
    and "endstop_trim w = Some t"
  obtains w' where
    "endstops_probe (Some gc) (3 / 100) co (tx, ty, tz) w = Inr (True, w')"
    and "endstop_trim w' =
           Some (tx - snd (minmax3 tx (ty - 13 / 10) (tz - 26 / 10)),
                 ty - 13 / 10 - snd (minmax3 tx (ty - 13 / 10) (tz - 26 / 10)),
                 tz - 26 / 10 - snd (minmax3 tx (ty - 13 / 10) (tz - 26 / 10)))"
    and "out (zp w') = out (zp w) @
           [Msg ''[ES] Towers out of spec by %1.3f - will need to level the endstops'' [197 / 100],
            Msg ''[ES] Set trim to: X=%f Y=%f Z=%f'' [tx, ty - 13 / 10, tz - 26 / 10],
            Msg ''[ES] Trim set to within required paramters: want %1.3f, difference is %1.3f'' [3 / 100, 0],
            Msg ''[ES] Trim is {%1.3f, %1.3f, %1.3f} - normalizing... '' [tx, ty - 13 / 10, tz - 26 / 10],
            Msg ''[ES] Set trim to: X=%f Y=%f Z=%f''
              [tx - snd (minmax3 tx (ty - 13 / 10) (tz - 26 / 10)),
               ty - 13 / 10 - snd (minmax3 tx (ty - 13 / 10) (tz - 26 / 10)),
               tz - 26 / 10 - snd (minmax3 tx (ty - 13 / 10) (tz - 26 / 10))],
            Msg ''[ES] New values: {%1.3f, %1.3f, %1.3f}.''
              [tx - snd (minmax3 tx (ty - 13 / 10) (tz - 26 / 10)),
               ty - 13 / 10 - snd (minmax3 tx (ty - 13 / 10) (tz - 26 / 10)),
               tz - 26 / 10 - snd (minmax3 tx (ty - 13 / 10) (tz - 26 / 10))]]"
    and "touches tilted w'" and "probes_run w' = 6" and "probe_from_height w' = probe_from_height w"
    and "probe_radius w' = probe_radius w"
proof -
  obtain w2 where 2: "prepare_to_probe w = Inr w2" "kept w2 = kept w" "probes_run w2 = probes_run w"
      "out (zp w2) = out (zp w)" "probe_from_height w2 = probe_from_height w"
    using prepare_to_probe_known [OF assms(3)] by metis
  have t2: "touches tilted w2" "100 \<le> tilted (probes_run w2)" "100 \<le> tilted (Suc (probes_run w2))"
    "100 \<le> tilted (Suc (Suc (probes_run w2)))"
    using touches_kept [OF 2(2)] assms(1,2) 2(3) by (simp_all add: tilted_steps)
  obtain w3 where
    "probe_towers co w2 =
       Inr (Some (int (tilted (probes_run w2)), int (tilted (Suc (probes_run w2))),
                  int (tilted (Suc (Suc (probes_run w2))))), w3)"
    and 3: "kept w3 = kept w2" "probes_run w3 = probes_run w2 + 3" "out (zp w3) = out (zp w2)"
      "probe_from_height w3 = probe_from_height w2"
    using probe_towers_touches [OF t2, of co] by blast
  then have pt: "probe_towers co w2 = Inr (Some (1000, 1100, 1200), w3)"
    using 2(3) assms(2) by (simp add: tilted_steps)
  have t3: "touches tilted w3" "endstop_trim w3 = Some t"
    using touches_kept [OF 3(1)] t2(1) kept_eqD(3) [OF 3(1)] kept_eqD(3) [OF 2(2)] assms(4) by simp_all
  let ?w4 = "kprintf (Msg ''[ES] Towers out of spec by %1.3f - will need to level the endstops'' [197 / 100]) w3"
  have t4: "touches tilted ?w4" "tilted (probes_run ?w4) = 1000" "tilted (Suc (probes_run ?w4)) = 1000"
    "tilted (Suc (Suc (probes_run ?w4))) = 1000" "100 \<le> (1000::nat)" "probe_from_height ?w4 \<noteq> -1"
    "endstop_trim ?w4 = Some t" "0 \<le> (3 / 100 :: real)"
    using t3 3(2,4) 2(3,5) assms(2,3) by (simp_all add: tilted_def)
  obtain w' where
    l: "endstops_loop (Suc 19) (Some gc) (3 / 100) co (13 / 10) 2 (10, 12) (tx, ty - 13 / 10, tz - 26 / 10) ?w4
          = Inr (True, w')"
    and e: "endstop_trim w' =
           Some (tx - snd (minmax3 tx (ty - 13 / 10) (tz - 26 / 10)),
                 ty - 13 / 10 - snd (minmax3 tx (ty - 13 / 10) (tz - 26 / 10)),
                 tz - 26 / 10 - snd (minmax3 tx (ty - 13 / 10) (tz - 26 / 10)))"
    and o: "out (zp w') = out (zp ?w4) @
           [Msg ''[ES] Set trim to: X=%f Y=%f Z=%f'' [tx, ty - 13 / 10, tz - 26 / 10],
            Msg ''[ES] Trim set to within required paramters: want %1.3f, difference is %1.3f'' [3 / 100, 0],
            Msg ''[ES] Trim is {%1.3f, %1.3f, %1.3f} - normalizing... '' [tx, ty - 13 / 10, tz - 26 / 10],
            Msg ''[ES] Set trim to: X=%f Y=%f Z=%f''
              [tx - snd (minmax3 tx (ty - 13 / 10) (tz - 26 / 10)),
               ty - 13 / 10 - snd (minmax3 tx (ty - 13 / 10) (tz - 26 / 10)),
               tz - 26 / 10 - snd (minmax3 tx (ty - 13 / 10) (tz - 26 / 10))],
            Msg ''[ES] New values: {%1.3f, %1.3f, %1.3f}.''
              [tx - snd (minmax3 tx (ty - 13 / 10) (tz - 26 / 10)),
               ty - 13 / 10 - snd (minmax3 tx (ty - 13 / 10) (tz - 26 / 10)),
               tz - 26 / 10 - snd (minmax3 tx (ty - 13 / 10) (tz - 26 / 10))]]"
    and k: "touches tilted w'" and p: "probes_run w' = probes_run ?w4 + 3"
    and h: "probe_from_height w' = probe_from_height ?w4" and pr: "probe_radius w' = probe_radius ?w4"
    using endstops_loop_level_turn [OF t4, of 19 gc co "13 / 10" 2 "(10, 12)" tx "ty - 13 / 10" "tz - 26 / 10"]
    by blast
  have l20: "endstops_loop 20 (Some gc) (3 / 100) co (13 / 10) 2 (10, 12) (tx, ty - 13 / 10, tz - 26 / 10) ?w4
          = Inr (True, w')"
    using l by (simp del: endstops_loop.simps)
  have r: "endstops_probe (Some gc) (3 / 100) co (tx, ty, tz) w = Inr (True, w')"
    using 2(1) pt t3(1) l20
    by (simp add: endstops_probe_def Let_def zsteps_to_mm_touches minmax3_def del: endstops_loop.simps)
  have o': "out (zp w') = out (zp w) @
           [Msg ''[ES] Towers out of spec by %1.3f - will need to level the endstops'' [197 / 100],
            Msg ''[ES] Set trim to: X=%f Y=%f Z=%f'' [tx, ty - 13 / 10, tz - 26 / 10],
            Msg ''[ES] Trim set to within required paramters: want %1.3f, difference is %1.3f'' [3 / 100, 0],
            Msg ''[ES] Trim is {%1.3f, %1.3f, %1.3f} - normalizing... '' [tx, ty - 13 / 10, tz - 26 / 10],
            Msg ''[ES] Set trim to: X=%f Y=%f Z=%f''
              [tx - snd (minmax3 tx (ty - 13 / 10) (tz - 26 / 10)),
               ty - 13 / 10 - snd (minmax3 tx (ty - 13 / 10) (tz - 26 / 10)),
               tz - 26 / 10 - snd (minmax3 tx (ty - 13 / 10) (tz - 26 / 10))],
            Msg ''[ES] New values: {%1.3f, %1.3f, %1.3f}.''
              [tx - snd (minmax3 tx (ty - 13 / 10) (tz - 26 / 10)),
               ty - 13 / 10 - snd (minmax3 tx (ty - 13 / 10) (tz - 26 / 10)),
               tz - 26 / 10 - snd (minmax3 tx (ty - 13 / 10) (tz - 26 / 10))]]"
    using o 3(3) 2(4) by simp
  have p': "probes_run w' = 6"
    using p 3(2) 2(3) assms(2) by simp
  have h': "probe_from_height w' = probe_from_height w"
    using h 3(4) 2(5) by simp
  have pr': "probe_radius w' = probe_radius w"
    using pr kept_eqD(7) [OF 3(1)] kept_eqD(7) [OF 2(2)] by simp
  show ?thesis
    by (rule that [OF r e o' k p' h' pr'])
qed

lemma calibrate_delta_endstops_tilted:
  assumes "touches tilted w" and "probes_run w = 0" and "probe_from_height w \<noteq> -1"
    and "endstop_trim w = Some (sx, sy, sz)"
    and "letters gc CHR ''I'' = None" and "letters gc CHR ''J'' = None"
    and "(tx, ty, tz) = (if has_letter gc CHR ''K'' then (sx, sy, sz) else (0, 0, 0))"
  obtains w' where "calibrate_delta_endstops (Some gc) w = Inr (True, w')"
    and "endstop_trim w' =
           Some (tx - snd (minmax3 tx (ty - 13 / 10) (tz - 26 / 10)),
                 ty - 13 / 10 - snd (minmax3 tx (ty - 13 / 10) (tz - 26 / 10)),
                 tz - 26 / 10 - snd (minmax3 tx (ty - 13 / 10) (tz - 26 / 10)))"
    and "out (zp w') = out (zp w) @
           [Msg '' '' [],
            Msg ''[ES] Calibrating endstops: target %fmm, radius %fmm'' [3 / 100, probe_radius w],
            (if has_letter gc CHR ''K''
             then Msg ''[ES] Current Trim: x=%1.3f, y=%1.3f, z=%1.3f'' [sx, sy, sz]
             else Msg ''[ES] Set trim to: X=%f Y=%f Z=%f'' [0, 0, 0]),
            Msg ''[ES] Towers out of spec by %1.3f - will need to level the endstops'' [197 / 100],
            Msg ''[ES] Set trim to: X=%f Y=%f Z=%f'' [tx, ty - 13 / 10, tz - 26 / 10],
            Msg ''[ES] Trim set to within required paramters: want %1.3f, difference is %1.3f'' [3 / 100, 0],
            Msg ''[ES] Trim is {%1.3f, %1.3f, %1.3f} - normalizing... '' [tx, ty - 13 / 10, tz - 26 / 10],
            Msg ''[ES] Set trim to: X=%f Y=%f Z=%f''
              [tx - snd (minmax3 tx (ty - 13 / 10) (tz - 26 / 10)),
               ty - 13 / 10 - snd (minmax3 tx (ty - 13 / 10) (tz - 26 / 10)),
               tz - 26 / 10 - snd (minmax3 tx (ty - 13 / 10) (tz - 26 / 10))],
            Msg ''[ES] New values: {%1.3f, %1.3f, %1.3f}.''
              [tx - snd (minmax3 tx (ty - 13 / 10) (tz - 26 / 10)),
               ty - 13 / 10 - snd (minmax3 tx (ty - 13 / 10) (tz - 26 / 10)),
               tz - 26 / 10 - snd (minmax3 tx (ty - 13 / 10) (tz - 26 / 10))]]"
    and "touches tilted w'" and "probes_run w' = 6" and "probe_from_height w' \<noteq> -1"
    and "probe_radius w' = probe_radius w"
proof -
  define w2 where
    "w2 = kprintf (Msg ''[ES] Calibrating endstops: target %fmm, radius %fmm'' [3 / 100, probe_radius w])
            (kprintf (Msg '' '' []) w)"
  have w2: "touches tilted w2" "probes_run w2 = 0" "probe_from_height w2 \<noteq> -1"
    "endstop_trim w2 = Some (sx, sy, sz)"
    "out (zp w2) = out (zp w) @
       [Msg '' '' [], Msg ''[ES] Calibrating endstops: target %fmm, radius %fmm'' [3 / 100, probe_radius w]]"
    using assms(1-4) by (simp_all add: w2_def)
  have r2: "probe_radius w2 = probe_radius w"
    by (simp add: w2_def)
  obtain w3 where
    w3: "touches tilted w3" "probes_run w3 = 0" "probe_from_height w3 \<noteq> -1" "endstop_trim w3 \<noteq> None"
      "out (zp w3) = out (zp w2) @
         [if has_letter gc CHR ''K''
          then Msg ''[ES] Current Trim: x=%1.3f, y=%1.3f, z=%1.3f'' [sx, sy, sz]
          else Msg ''[ES] Set trim to: X=%f Y=%f Z=%f'' [0, 0, 0]]"
      "probe_radius w3 = probe_radius w2"
    and c: "calibrate_delta_endstops (Some gc) w =
              endstops_probe (Some gc) (3 / 100) (getCoordinates (probe_radius w2)) (tx, ty, tz) w3"
  proof (cases "has_letter gc CHR ''K''")
    case True
    let ?w3 = "kprintf (Msg ''[ES] Current Trim: x=%1.3f, y=%1.3f, z=%1.3f'' [sx, sy, sz]) w2"
    have "calibrate_delta_endstops (Some gc) w =
            endstops_probe (Some gc) (3 / 100) (getCoordinates (probe_radius w2)) (tx, ty, tz) ?w3"
      using True assms(5-7) w2(4)
      by (simp add: calibrate_delta_endstops_def Let_def has_letter_def get_trim_def w2_def)
    moreover have "touches tilted ?w3" "probes_run ?w3 = 0" "probe_from_height ?w3 \<noteq> -1"
      "endstop_trim ?w3 \<noteq> None"
      "out (zp ?w3) = out (zp w2) @
         [if has_letter gc CHR ''K''
          then Msg ''[ES] Current Trim: x=%1.3f, y=%1.3f, z=%1.3f'' [sx, sy, sz]
          else Msg ''[ES] Set trim to: X=%f Y=%f Z=%f'' [0, 0, 0]]"
      "probe_radius ?w3 = probe_radius w2"
      using w2 True by simp_all
    ultimately show ?thesis
      using that by blast
  next
    case False
    obtain w3 where s: "set_trim 0 0 0 w2 = (True, w3)"
      and 3: "endstop_trim w3 = Some (0, 0, 0)"
        "out (zp w3) = out (zp w2) @ [Msg ''[ES] Set trim to: X=%f Y=%f Z=%f'' [0, 0, 0]]"
        "\<forall>k. touches k w3 = touches k w2" "probe_from_height w3 = probe_from_height w2"
        "probes_run w3 = probes_run w2" "probe_radius w3 = probe_radius w2"
      using set_trim_enabled [OF w2(4), of 0 0 0] by blast
    have "calibrate_delta_endstops (Some gc) w =
            endstops_probe (Some gc) (3 / 100) (getCoordinates (probe_radius w2)) (tx, ty, tz) w3"
      using False assms(5-7) s
      by (simp add: calibrate_delta_endstops_def Let_def has_letter_def w2_def)
    moreover have "touches tilted w3" "probes_run w3 = 0" "probe_from_height w3 \<noteq> -1"
      "endstop_trim w3 \<noteq> None"
      "out (zp w3) = out (zp w2) @
         [if has_letter gc CHR ''K''
          then Msg ''[ES] Current Trim: x=%1.3f, y=%1.3f, z=%1.3f'' [sx, sy, sz]
          else Msg ''[ES] Set trim to: X=%f Y=%f Z=%f'' [0, 0, 0]]"
      "probe_radius w3 = probe_radius w2"
      using w2 3 False by simp_all
    ultimately show ?thesis
      using that by blast
  qed
  obtain t where t: "endstop_trim w3 = Some t"
    using w3(4) by auto
  obtain w' where
    e: "endstops_probe (Some gc) (3 / 100) (getCoordinates (probe_radius w2)) (tx, ty, tz) w3 = Inr (True, w')"
    and tr: "endstop_trim w' =
           Some (tx - snd (minmax3 tx (ty - 13 / 10) (tz - 26 / 10)),
                 ty - 13 / 10 - snd (minmax3 tx (ty - 13 / 10) (tz - 26 / 10)),
                 tz - 26 / 10 - snd (minmax3 tx (ty - 13 / 10) (tz - 26 / 10)))"
    and o: "out (zp w') = out (zp w3) @
           [Msg ''[ES] Towers out of spec by %1.3f - will need to level the endstops'' [197 / 100],
            Msg ''[ES] Set trim to: X=%f Y=%f Z=%f'' [tx, ty - 13 / 10, tz - 26 / 10],
            Msg ''[ES] Trim set to within required paramters: want %1.3f, difference is %1.3f'' [3 / 100, 0],
            Msg ''[ES] Trim is {%1.3f, %1.3f, %1.3f} - normalizing... '' [tx, ty - 13 / 10, tz - 26 / 10],
            Msg ''[ES] Set trim to: X=%f Y=%f Z=%f''
              [tx - snd (minmax3 tx (ty - 13 / 10) (tz - 26 / 10)),
               ty - 13 / 10 - snd (minmax3 tx (ty - 13 / 10) (tz - 26 / 10)),
               tz - 26 / 10 - snd (minmax3 tx (ty - 13 / 10) (tz - 26 / 10))],
            Msg ''[ES] New values: {%1.3f, %1.3f, %1.3f}.''
              [tx - snd (minmax3 tx (ty - 13 / 10) (tz - 26 / 10)),
               ty - 13 / 10 - snd (minmax3 tx (ty - 13 / 10) (tz - 26 / 10)),
               tz - 26 / 10 - snd (minmax3 tx (ty - 13 / 10) (tz - 26 / 10))]]"
    and k: "touches tilted w'" and p: "probes_run w' = 6" and h: "probe_from_height w' = probe_from_height w3"
    and pr: "probe_radius w' = probe_radius w3"
    using endstops_probe_tilted [OF w3(1-3) t, of gc "getCoordinates (probe_radius w2)" tx ty tz] by blast
  have r: "calibrate_delta_endstops (Some gc) w = Inr (True, w')"
    using c e by simp
  have o': "out (zp w') = out (zp w) @
           [Msg '' '' [],
            Msg ''[ES] Calibrating endstops: target %fmm, radius %fmm'' [3 / 100, probe_radius w],
            (if has_letter gc CHR ''K''
             then Msg ''[ES] Current Trim: x=%1.3f, y=%1.3f, z=%1.3f'' [sx, sy, sz]
             else Msg ''[ES] Set trim to: X=%f Y=%f Z=%f'' [0, 0, 0]),
            Msg ''[ES] Towers out of spec by %1.3f - will need to level the endstops'' [197 / 100],
            Msg ''[ES] Set trim to: X=%f Y=%f Z=%f'' [tx, ty - 13 / 10, tz - 26 / 10],
            Msg ''[ES] Trim set to within required paramters: want %1.3f, difference is %1.3f'' [3 / 100, 0],
            Msg ''[ES] Trim is {%1.3f, %1.3f, %1.3f} - normalizing... '' [tx, ty - 13 / 10, tz - 26 / 10],
            Msg ''[ES] Set trim to: X=%f Y=%f Z=%f''
              [tx - snd (minmax3 tx (ty - 13 / 10) (tz - 26 / 10)),
               ty - 13 / 10 - snd (minmax3 tx (ty - 13 / 10) (tz - 26 / 10)),
               tz - 26 / 10 - snd (minmax3 tx (ty - 13 / 10) (tz - 26 / 10))],
            Msg ''[ES] New values: {%1.3f, %1.3f, %1.3f}.''
              [tx - snd (minmax3 tx (ty - 13 / 10) (tz - 26 / 10)),
               ty - 13 / 10 - snd (minmax3 tx (ty - 13 / 10) (tz - 26 / 10)),
               tz - 26 / 10 - snd (minmax3 tx (ty - 13 / 10) (tz - 26 / 10))]]"
    using o w3(5) w2(5) by simp
  have h': "probe_from_height w' \<noteq> -1"
    using h w3(3) by simp
  have pr': "probe_radius w' = probe_radius w"
    using pr w3(6) r2 by simp
  show ?thesis
    by (rule that [OF r tr o' k p h' pr'])
qed

lemma tilted_worlds:
  "touches tilted tilted_world" "probes_run tilted_world = 0" "probe_from_height tilted_world \<noteq> -1"
  "endstop_trim tilted_world = Some (0, 0, 0)" "geom_dirty tilted_world"
  "arm_options tilted_world = Some [CHR ''L'' \<mapsto> 269, CHR ''R'' \<mapsto> 128.5]"
  "out (zp tilted_world) = []" "probe_radius tilted_world = 100" "probed tilted_world = []"
  "touches tilted tilted_unnormalized_world" "probes_run tilted_unnormalized_world = 0"
  "probe_from_height tilted_unnormalized_world \<noteq> -1"
  "endstop_trim tilted_unnormalized_world = Some (-1, -2, -3)"
  by (simp_all add: touches_def tilted_world_def tilted_unnormalized_world_def found_world_def
        sample_world_def sample_probe_def)

text \<open>The delta radius where the centre and the towers measure the same: the first turn is within the target.\<close>

lemma calibrate_delta_radius_flat:
  assumes "touches k w" and "k (probes_run w) = d" and "k (Suc (probes_run w)) = d"
    and "k (Suc (Suc (probes_run w))) = d" and "k (Suc (Suc (Suc (probes_run w)))) = d" and "100 \<le> d"
    and "probe_from_height w \<noteq> -1"
    and "arm_options w = Some opts" and "opts CHR ''R'' = Some r" and "r \<noteq> 0"
    and "letters gc CHR ''I'' = None" and "letters gc CHR ''J'' = None"
  obtains w' where "calibrate_delta_radius (Some gc) w = Inr (True, w')"
    and "out (zp w') = out (zp w) @
           [Msg ''[DR] Calibrating delta radius: target %f, radius %f'' [3 / 100, probe_radius w],
            Msg ''[DR] Center Z: %1.3fmm (%d steps)'' [real d / 100, real d],
            Msg ''[DR] C-%d Z-ave:%1.4f delta: %1.3f'' [1, real d / 100, 0]]"
    and "probes_run w' = probes_run w + 4"
proof -
  let ?w1 = "kprintf (Msg ''[DR] Calibrating delta radius: target %f, radius %f'' [3 / 100, probe_radius w]) w"
  have w1: "touches k ?w1" "probe_from_height ?w1 \<noteq> -1" "arm_options ?w1 = Some opts"
    "probes_run ?w1 = probes_run w"
    using assms by simp_all
  obtain w2 where 2: "prepare_to_probe ?w1 = Inr w2" "kept w2 = kept ?w1" "probes_run w2 = probes_run ?w1"
      "out (zp w2) = out (zp ?w1)" "probe_from_height w2 = probe_from_height ?w1"
    using prepare_to_probe_known [OF w1(2)] by metis
  have t2: "touches k w2" "100 \<le> k (probes_run w2)" "arm_options w2 = Some opts"
    using touches_kept [OF 2(2)] kept_eqD(4) [OF 2(2)] w1 2(3) assms(2,6) by simp_all
  obtain w3 where "do_probe_at 0 0 w2 = Inr (True, int (k (probes_run w2)), w3)"
    and 3: "kept w3 = kept w2" "probes_run w3 = Suc (probes_run w2)" "out (zp w3) = out (zp w2)"
      "probe_from_height w3 = probe_from_height w2"
    using do_probe_at_touches [OF t2(1,2), of 0 0] by metis
  then have dp: "do_probe_at 0 0 w2 = Inr (True, int d, w3)"
    using 2(3) assms(2) by simp
  have t3: "touches k w3" "arm_options w3 = Some opts"
    using touches_kept [OF 3(1)] kept_eqD(4) [OF 3(1)] t2 by simp_all
  let ?w4 = "kprintf (Msg ''[DR] Center Z: %1.3fmm (%d steps)'' [real d / 100, real d]) w3"
  have t4: "touches k ?w4" "100 \<le> k (probes_run ?w4)" "100 \<le> k (Suc (probes_run ?w4))"
    "100 \<le> k (Suc (Suc (probes_run ?w4)))" "arm_options ?w4 = Some opts"
    using t3 3(2) 2(3) assms(3-6) by simp_all
  obtain w5 where
    "probe_towers (getCoordinates (probe_radius ?w1)) ?w4 =
       Inr (Some (int (k (probes_run ?w4)), int (k (Suc (probes_run ?w4))),
                  int (k (Suc (Suc (probes_run ?w4))))), w5)"
    and 5: "kept w5 = kept ?w4" "probes_run w5 = probes_run ?w4 + 3" "out (zp w5) = out (zp ?w4)"
    using probe_towers_touches [OF t4(1-4), of "getCoordinates (probe_radius ?w1)"] by blast
  then have pt: "probe_towers (getCoordinates (probe_radius ?w1)) ?w4 = Inr (Some (int d, int d, int d), w5)"
    using 3(2) 2(3) assms(3-5) by simp
  have t5: "touches k w5"
    using touches_kept [OF 5(1)] t4 by simp
  let ?w' = "kprintf (Msg ''[DR] C-%d Z-ave:%1.4f delta: %1.3f'' [1, real d / 100, 0]) w5"
  have "radius_loop 10 1 (3 / 100) (getCoordinates (probe_radius ?w1)) (real d / 100) r ?w4 = Inr (True, ?w')"
    using pt t5 radius_loop.simps(2) [of 9]
    by (simp add: Let_def zsteps_to_mm_touches abs_macro_def)
  then have c: "calibrate_delta_radius (Some gc) w = Inr (True, ?w')"
    using 2(1) dp assms(9-12) t3 t4(5)
    by (simp add: calibrate_delta_radius_def Let_def has_letter_def zsteps_to_mm_touches)
  have o: "out (zp ?w') = out (zp w) @
           [Msg ''[DR] Calibrating delta radius: target %f, radius %f'' [3 / 100, probe_radius w],
            Msg ''[DR] Center Z: %1.3fmm (%d steps)'' [real d / 100, real d],
            Msg ''[DR] C-%d Z-ave:%1.4f delta: %1.3f'' [1, real d / 100, 0]]"
    using 5(3) 3(3) 2(4) by simp
  have p: "probes_run ?w' = probes_run w + 4"
    using 5(2) 3(2) 2(3) by simp
  show ?thesis
    by (rule that [OF c o p])
qed


subsection \<open>What a successful levelling leaves\<close>

lemma set_trim_out:
  assumes "set_trim x y z w = (True, w')"
  shows "out (zp w') = out (zp w) @ [Msg ''[ES] Set trim to: X=%f Y=%f Z=%f'' [x, y, z]]"
  using assms by (auto simp: set_trim_def split: option.splits)

lemma endstops_loop_exit:
  assumes "endstops_loop n (Some gc) target (t1x, t1y, t2x, t2y, t3x, t3y) trimscale last_deviation mm tr w
             = Inr (True, w')"
    and "snd mm - fst mm > target"
  shows "deviation (last_depths w') \<le> target \<and> max_trim w' = Some 0 \<and> levelled_exit target w'"
  using assms
proof (induction n arbitrary: trimscale last_deviation mm tr w)
  case 0
  then show ?case by simp
next
  case (Suc n)
  obtain trimx trimy trimz where tr: "tr = (trimx, trimy, trimz)"
    by (cases tr) auto
  let ?w0 = "on_zprobe (issue Idle_event) w"
  obtain ok1 w1 where st: "set_trim trimx trimy trimz ?w0 = (ok1, w1)"
    by (cases "set_trim trimx trimy trimz ?w0") auto
  from Suc.prems(1) tr st have ok1: ok1
    by (auto simp: Let_def split: if_splits)
  from Suc.prems(1) tr st ok1 obtain w2 where pp: "prepare_to_probe w1 = Inr w2"
    by (auto simp: Let_def split: sum.splits)
  from Suc.prems(1) tr st ok1 pp obtain s1 s2 s3 w3 where
    pt: "probe_towers (t1x, t1y, t2x, t2y, t3x, t3y) w2 = Inr (Some (s1, s2, s3), w3)"
    by (auto simp: Let_def split: sum.splits option.splits)
  define t1z where "t1z = zsteps_to_mm (zp w3) (real_of_int s1)"
  define t2z where "t2z = zsteps_to_mm (zp w3) (real_of_int s2)"
  define t3z where "t3z = zsteps_to_mm (zp w3) (real_of_int s3)"
  define mm' where "mm' = minmax3 t1z t2z t3z"
  have p3: "probed w3 = probed w2 @ [(t1x, t1y, s1), (t2x, t2y, s2), (t3x, t3y, s3)]"
    using pt by (rule probe_towers_probed)
  show ?case
  proof (cases "snd mm' - fst mm' > target")
    case True
    then obtain ts' ld' tr' w4 where
      "endstops_loop n (Some gc) target (t1x, t1y, t2x, t2y, t3x, t3y) ts' ld' mm' tr' w4 = Inr (True, w')"
      using Suc.prems(1) tr st ok1 pp pt
      by (simp add: Let_def mm'_def t1z_def t2z_def t3z_def)
    then show ?thesis
      using True by (rule Suc.IH)
  next
    case False
    define m where "m = snd (minmax3 trimx trimy trimz)"
    have m: "m = max trimx (max trimy trimz)"
      by (simp add: m_def minmax3_def)
    let ?w5 = "kprintf (Msg ''[ES] Trim is {%1.3f, %1.3f, %1.3f} - normalizing... '' [trimx, trimy, trimz])
                 (kprintf (Msg ''[ES] Trim set to within required paramters: want %1.3f, difference is %1.3f''
                             [target, snd mm' - fst mm']) w3)"
    obtain ok6 w6 where st2: "set_trim (trimx - m) (trimy - m) (trimz - m) ?w5 = (ok6, w6)"
      by (cases "set_trim (trimx - m) (trimy - m) (trimz - m) ?w5") auto
    have ok6: ok6 and w': "w' = kprintf (Msg ''[ES] New values: {%1.3f, %1.3f, %1.3f}.''
                                          [trimx - m, trimy - m, trimz - m]) w6"
      using False Suc.prems(1) tr st ok1 pp pt st2
      by (auto simp: Let_def mm'_def t1z_def t2z_def t3z_def m_def split: if_splits)
    have w6: "probed w6 = probed w3" "settings (zp w6) = settings (zp w3)"
      "endstop_trim w6 = Some (trimx - m, trimy - m, trimz - m)"
      using set_trim_fields [OF st2] ok6 by simp_all
    have o6: "out (zp w6) = out (zp ?w5) @
                [Msg ''[ES] Set trim to: X=%f Y=%f Z=%f'' [trimx - m, trimy - m, trimz - m]]"
      using st2 ok6 by (intro set_trim_out) simp
    have "last_depths w' = last_depths w3"
      using w' w6 by (intro last_depths_cong) simp_all
    also have "\<dots> = [t1z, t2z, t3z]"
      using p3 by (simp add: last_depths_appended t1z_def t2z_def t3z_def)
    finally have d: "deviation (last_depths w') = snd mm' - fst mm'"
      by (simp add: deviation3 mm'_def)
    have mt: "max_trim w' = Some 0"
      using w' w6 max_normalized [of trimx trimy trimz] by (simp add: max_trim_def m_def)
    have e': "endstop_trim w' =
                Some (trimx - max trimx (max trimy trimz), trimy - max trimx (max trimy trimz),
                      trimz - max trimx (max trimy trimz))"
      using w' w6 m by simp
    have o': "out (zp w') = out (zp w3) @
          [Msg ''[ES] Trim set to within required paramters: want %1.3f, difference is %1.3f''
             [target, deviation (last_depths w')],
           Msg ''[ES] Trim is {%1.3f, %1.3f, %1.3f} - normalizing... '' [trimx, trimy, trimz],
           Msg ''[ES] Set trim to: X=%f Y=%f Z=%f'' (normalized trimx trimy trimz),
           Msg ''[ES] New values: {%1.3f, %1.3f, %1.3f}.'' (normalized trimx trimy trimz)]"
      unfolding d using w' o6 m by (simp add: normalized_def)
    have "levelled_exit target w'"
      unfolding levelled_exit_def using e' o' by blast
    then show ?thesis
      using False d mt by simp
  qed
qed

lemma endstops_probe_exit:
  assumes "endstops_probe (Some gc) target (t1x, t1y, t2x, t2y, t3x, t3y) tr w = Inr (True, w')"
  shows "deviation (last_depths w') \<le> target \<and>
         (max_trim w' = Some 0 \<and> levelled_exit target w' \<or>
          endstop_trim w' = endstop_trim w \<and> length (probed w') = length (probed w) + 3 \<and>
          last (out (zp w')) =
            Msg ''[ES] Trim already set within required parameters: difference = %f''
              [deviation (last_depths w')])"
proof -
  obtain trimx trimy trimz where tr: "tr = (trimx, trimy, trimz)"
    by (cases tr) auto
  from assms tr obtain w2 where pp: "prepare_to_probe w = Inr w2"
    by (auto simp: endstops_probe_def Let_def split: sum.splits)
  from assms tr pp obtain s1 s2 s3 w3 where
    pt: "probe_towers (t1x, t1y, t2x, t2y, t3x, t3y) w2 = Inr (Some (s1, s2, s3), w3)"
    by (auto simp: endstops_probe_def Let_def split: sum.splits option.splits)
  define t1z where "t1z = zsteps_to_mm (zp w3) (real_of_int s1)"
  define t2z where "t2z = zsteps_to_mm (zp w3) (real_of_int s2)"
  define t3z where "t3z = zsteps_to_mm (zp w3) (real_of_int s3)"
  define mm where "mm = minmax3 t1z t2z t3z"
  have p3: "probed w3 = probed w2 @ [(t1x, t1y, s1), (t2x, t2y, s2), (t3x, t3y, s3)]"
    using pt by (rule probe_towers_probed)
  have k2: "kept w2 = kept w" "probed w2 = probed w"
    using prepare_to_probe_kept [OF pp] by simp_all
  have k3: "kept w3 = kept w2"
    using pt by (rule probe_towers_kept)
  show ?thesis
  proof (cases "snd mm - fst mm \<le> target")
    case True
    then have w': "w' = kprintf (Msg ''[ES] Trim already set within required parameters: difference = %f''
                                   [snd mm - fst mm]) w3"
      using assms tr pp pt by (simp add: endstops_probe_def Let_def mm_def t1z_def t2z_def t3z_def)
    have "last_depths w' = last_depths w3"
      using w' by (intro last_depths_cong) simp_all
    also have "\<dots> = [t1z, t2z, t3z]"
      using p3 by (simp add: last_depths_appended t1z_def t2z_def t3z_def)
    finally have d: "deviation (last_depths w') = snd mm - fst mm"
      by (simp add: deviation3 mm_def)
    have "endstop_trim w' = endstop_trim w"
      using w' kept_eqD(3) [OF k3] kept_eqD(3) [OF k2(1)] by simp
    moreover have "length (probed w') = length (probed w) + 3"
      using w' p3 k2(2) by simp
    moreover have "last (out (zp w')) =
            Msg ''[ES] Trim already set within required parameters: difference = %f''
              [deviation (last_depths w')]"
      unfolding d using w' by simp
    ultimately show ?thesis
      using True d by simp
  next
    case False
    then obtain ts ld tr' w4 where
      "endstops_loop 20 (Some gc) target (t1x, t1y, t2x, t2y, t3x, t3y) ts ld mm tr' w4 = Inr (True, w')"
      using assms tr pp pt by (simp add: endstops_probe_def Let_def mm_def t1z_def t2z_def t3z_def)
    then have "deviation (last_depths w') \<le> target \<and> max_trim w' = Some 0 \<and> levelled_exit target w'"
      using False by (intro endstops_loop_exit) auto
    then show ?thesis by simp
  qed
qed

text \<open>
  C2, as the code has it. When \<^verbatim>\<open>calibrate_delta_endstops\<close> returns true, the depths
  of the last three probes, one at the base of each tower, are within the target of
  each other, and it has left in one of two ways. Out of the levelling loop: the trim
  that it has written is the levelled trim, the one that it reports with
  \<^verbatim>\<open>Trim is {...} - normalizing\<close>, less its maximum, so the maximum of the trim is 0.
  Or before the loop, with the first three probes within the target already: it returns
  at once, with no normalization, and the trim is the one that it has started from,
  (0, 0, 0) that it has just written, or, asked to keep the current trim (K), the trim
  as it has found it.
\<close>

theorem endstops_success:
  assumes "calibrate_delta_endstops (Some gc) w = Inr (True, w')"
  shows "deviation (last_depths w') \<le> target_of gc \<and>
         (max_trim w' = Some 0 \<and> levelled_exit (target_of gc) w' \<or>
          endstop_trim w' = (if has_letter gc CHR ''K'' then endstop_trim w else Some (0, 0, 0)) \<and>
          length (probed w') = length (probed w) + 3 \<and>
          last (out (zp w')) =
            Msg ''[ES] Trim already set within required parameters: difference = %f''
              [deviation (last_depths w')])"
proof -
  define w1 where "w1 = (if has_letter gc CHR ''J'' then w\<lparr>probe_radius := get_value gc CHR ''J''\<rparr> else w)"
  define w2 where
    "w2 = kprintf (Msg ''[ES] Calibrating endstops: target %fmm, radius %fmm'' [target_of gc, probe_radius w1])
            (kprintf (Msg '' '' []) w1)"
  have w2: "endstop_trim w2 = endstop_trim w" "probed w2 = probed w"
    by (simp_all add: w2_def w1_def)
  obtain t1x t1y t2x t2y t3x t3y where
    co: "getCoordinates (probe_radius w2) = (t1x, t1y, t2x, t2y, t3x, t3y)"
    by (cases "getCoordinates (probe_radius w2)") auto
  show ?thesis
  proof (cases "has_letter gc CHR ''K''")
    case True
    from assms True obtain tx ty tz where
      ep: "endstops_probe (Some gc) (target_of gc) (getCoordinates (probe_radius w2)) (tx, ty, tz)
             (kprintf (Msg ''[ES] Current Trim: x=%1.3f, y=%1.3f, z=%1.3f'' [tx, ty, tz]) w2) = Inr (True, w')"
      by (auto simp: calibrate_delta_endstops_def Let_def target_of_def get_trim_def w1_def w2_def
               split: option.splits)
    show ?thesis
      using endstops_probe_exit [OF ep [unfolded co]] w2 True by auto
  next
    case False
    obtain ok w3 where st: "set_trim 0 0 0 w2 = (ok, w3)"
      by (cases "set_trim 0 0 0 w2") auto
    from assms False st have ok: ok
      by (auto simp: calibrate_delta_endstops_def Let_def target_of_def w1_def w2_def split: if_splits)
    from assms False st ok have
      ep: "endstops_probe (Some gc) (target_of gc) (getCoordinates (probe_radius w2)) (0, 0, 0) w3 = Inr (True, w')"
      by (simp add: calibrate_delta_endstops_def Let_def target_of_def w1_def w2_def)
    have w3: "endstop_trim w3 = Some (0, 0, 0)" "probed w3 = probed w"
      using set_trim_fields [OF st] ok w2 by simp_all
    show ?thesis
      using endstops_probe_exit [OF ep [unfolded co]] w3 False by auto
  qed
qed

text \<open>
  C2 as it is stated fails: asked to keep the trim (-1, -2, -3) over a level bed,
  \<^verbatim>\<open>calibrate_delta_endstops\<close> returns true and leaves that trim, whose maximum is -1.
\<close>

theorem endstops_success_counterexample:
  "(case calibrate_delta_endstops (Some G32_K) unnormalized_world of
      Inl f \<Rightarrow> False
    | Inr (r, w') \<Rightarrow> r \<and> max_trim w' = Some (-1))"
proof -
  have h: "100 \<le> (1000::nat)"
    by simp
  obtain w' where "calibrate_delta_endstops (Some G32_K) unnormalized_world = Inr (True, w')"
    and "endstop_trim w' = (if has_letter G32_K CHR ''K'' then Some (-1, -2, -3) else Some (0, 0, 0))"
    using calibrate_delta_endstops_level [OF sample_worlds(6) h sample_worlds(7,8) sample_gcodes(3,4)]
    by blast
  then show ?thesis
    by (simp add: sample_gcodes max_trim_def)
qed

theorem endstops_success_witness:
  "(case calibrate_delta_endstops (Some G32_K) tilted_unnormalized_world of
      Inl f \<Rightarrow> False
    | Inr (r, w') \<Rightarrow>
        r \<and> deviation (last_depths w') \<le> 0.03 \<and> levelled_exit 0.03 w' \<and>
        endstop_trim w' = Some (0, -2.3, -4.6)) \<and>
   (case calibrate_delta_endstops (Some G32) found_world of
      Inl f \<Rightarrow> False
    | Inr (r, w') \<Rightarrow> r \<and> deviation (last_depths w') \<le> 0.03 \<and> max_trim w' = Some 0)"
proof -
  have s: "(-1, -2, -3) = (if has_letter G32_K CHR ''K'' then (-1, -2, -3) else (0, 0, 0::real))"
    by (simp add: sample_gcodes)
  obtain w1 where c1: "calibrate_delta_endstops (Some G32_K) tilted_unnormalized_world = Inr (True, w1)"
    and "endstop_trim w1 =
           Some (-1 - snd (minmax3 (-1) (-2 - 13 / 10) (-3 - 26 / 10)),
                 -2 - 13 / 10 - snd (minmax3 (-1) (-2 - 13 / 10) (-3 - 26 / 10)),
                 -3 - 26 / 10 - snd (minmax3 (-1) (-2 - 13 / 10) (-3 - 26 / 10)))"
    using calibrate_delta_endstops_tilted [OF tilted_worlds(10-13) sample_gcodes(3,4) s] by blast
  then have t1: "endstop_trim w1 = Some (0, -2.3, -4.6)"
    by (simp add: minmax3_def)
  have g: "target_of G32_K = 0.03" "target_of G32 = 0.03"
    by (simp_all add: target_of_def has_letter_def G32_K_def G32_def)
  have "endstop_trim w1 \<noteq> (if has_letter G32_K CHR ''K'' then endstop_trim tilted_unnormalized_world
                             else Some (0, 0, 0))"
    using t1 tilted_worlds(13) by (simp add: sample_gcodes)
  then have 1: "deviation (last_depths w1) \<le> 0.03 \<and> levelled_exit 0.03 w1"
    using endstops_success [OF c1] unfolding g by blast
  have h: "100 \<le> (1000::nat)"
    by simp
  obtain w2 where c2: "calibrate_delta_endstops (Some G32) found_world = Inr (True, w2)"
    using calibrate_delta_endstops_level [OF sample_worlds(1) h sample_worlds(2,3) sample_gcodes(1,1)]
    by blast
  have 2: "deviation (last_depths w2) \<le> 0.03 \<and> max_trim w2 = Some 0"
    using endstops_success [OF c2] unfolding g by (auto simp: sample_gcodes max_trim_def)
  show ?thesis
    using c1 c2 t1 1 2 by simp
qed

text \<open>
  C5 fails on the code. On a machine whose geometry is dirty, over the tilted bed, G32
  levels the endstops (the loop adjusts the trim once), calibrates the delta radius,
  reports that the calibration is complete, and returns with the geometry still dirty:
  the branch has no call of \<^verbatim>\<open>require_clean_geometry\<close> and no assignment to the flag.
  \<^verbatim>\<open>handleConfig\<close> sets the flag "so we know we have to calibrate the endstops and
  delta radius", and \<^verbatim>\<open>require_clean_geometry\<close> clears it after the same two calls.
\<close>

theorem G32_calibrates_and_geometry_stays_dirty:
  "geom_dirty tilted_world \<and>
   (case handleGcode_G32 G32 tilted_world of
      Inl f \<Rightarrow> False
    | Inr (r, w') \<Rightarrow>
        r \<and> geom_dirty w' \<and> endstop_trim w' = Some (0, -1.3, -2.6) \<and> probes_run w' = 10 \<and>
        out (zp w') =
          [Msg '' '' [],
           Msg ''[ES] Calibrating endstops: target %fmm, radius %fmm'' [0.03, 100],
           Msg ''[ES] Set trim to: X=%f Y=%f Z=%f'' [0, 0, 0],
           Msg ''[ES] Towers out of spec by %1.3f - will need to level the endstops'' [1.97],
           Msg ''[ES] Set trim to: X=%f Y=%f Z=%f'' [0, -1.3, -2.6],
           Msg ''[ES] Trim set to within required paramters: want %1.3f, difference is %1.3f'' [0.03, 0],
           Msg ''[ES] Trim is {%1.3f, %1.3f, %1.3f} - normalizing... '' [0, -1.3, -2.6],
           Msg ''[ES] Set trim to: X=%f Y=%f Z=%f'' [0, -1.3, -2.6],
           Msg ''[ES] New values: {%1.3f, %1.3f, %1.3f}.'' [0, -1.3, -2.6],
           Msg ''[DR] Calibrating delta radius: target %f, radius %f'' [0.03, 100],
           Msg ''[DR] Center Z: %1.3fmm (%d steps)'' [10, 1000],
           Msg ''[DR] C-%d Z-ave:%1.4f delta: %1.3f'' [1, 10, 0],
           Msg ''Basic calibration complete, save settings with M500'' []])"
proof -
  let ?w0 = "on_zprobe (issue Wait_for_empty_queue) tilted_world"
  have w0: "touches tilted ?w0" "probes_run ?w0 = 0" "probe_from_height ?w0 \<noteq> -1"
    "endstop_trim ?w0 = Some (0, 0, 0)" "geom_dirty ?w0"
    "arm_options ?w0 = Some [CHR ''L'' \<mapsto> 269, CHR ''R'' \<mapsto> 128.5]"
    "out (zp ?w0) = []" "probe_radius ?w0 = 100"
    using tilted_worlds(1-8) by simp_all
  have s: "(0, 0, 0) = (if has_letter G32 CHR ''K'' then (0, 0, 0) else (0, 0, 0::real))"
    by simp
  obtain w1 where e: "calibrate_delta_endstops (Some G32) ?w0 = Inr (True, w1)"
    and t1: "endstop_trim w1 =
           Some (0 - snd (minmax3 0 (0 - 13 / 10) (0 - 26 / 10)),
                 0 - 13 / 10 - snd (minmax3 0 (0 - 13 / 10) (0 - 26 / 10)),
                 0 - 26 / 10 - snd (minmax3 0 (0 - 13 / 10) (0 - 26 / 10)))"
    and o1: "out (zp w1) = out (zp ?w0) @
           [Msg '' '' [],
            Msg ''[ES] Calibrating endstops: target %fmm, radius %fmm'' [3 / 100, probe_radius ?w0],
            (if has_letter G32 CHR ''K''
             then Msg ''[ES] Current Trim: x=%1.3f, y=%1.3f, z=%1.3f'' [0, 0, 0]
             else Msg ''[ES] Set trim to: X=%f Y=%f Z=%f'' [0, 0, 0]),
            Msg ''[ES] Towers out of spec by %1.3f - will need to level the endstops'' [197 / 100],
            Msg ''[ES] Set trim to: X=%f Y=%f Z=%f'' [0, 0 - 13 / 10, 0 - 26 / 10],
            Msg ''[ES] Trim set to within required paramters: want %1.3f, difference is %1.3f'' [3 / 100, 0],
            Msg ''[ES] Trim is {%1.3f, %1.3f, %1.3f} - normalizing... '' [0, 0 - 13 / 10, 0 - 26 / 10],
            Msg ''[ES] Set trim to: X=%f Y=%f Z=%f''
              [0 - snd (minmax3 0 (0 - 13 / 10) (0 - 26 / 10)),
               0 - 13 / 10 - snd (minmax3 0 (0 - 13 / 10) (0 - 26 / 10)),
               0 - 26 / 10 - snd (minmax3 0 (0 - 13 / 10) (0 - 26 / 10))],
            Msg ''[ES] New values: {%1.3f, %1.3f, %1.3f}.''
              [0 - snd (minmax3 0 (0 - 13 / 10) (0 - 26 / 10)),
               0 - 13 / 10 - snd (minmax3 0 (0 - 13 / 10) (0 - 26 / 10)),
               0 - 26 / 10 - snd (minmax3 0 (0 - 13 / 10) (0 - 26 / 10))]]"
    and w1: "touches tilted w1" "probes_run w1 = 6" "probe_from_height w1 \<noteq> -1"
      "probe_radius w1 = probe_radius ?w0"
    using calibrate_delta_endstops_tilted [OF w0(1-4) sample_gcodes(1,1) s] by blast
  have f1: "geom_dirty w1" "arm_options w1 = Some [CHR ''L'' \<mapsto> 269, CHR ''R'' \<mapsto> 128.5]"
    using calibrate_delta_endstops_frame [OF e] w0 by simp_all
  have k: "tilted (probes_run w1) = 1000" "tilted (Suc (probes_run w1)) = 1000"
    "tilted (Suc (Suc (probes_run w1))) = 1000" "tilted (Suc (Suc (Suc (probes_run w1)))) = 1000"
    "100 \<le> (1000::nat)"
    using w1(2) by (simp_all add: tilted_def)
  have r: "[CHR ''L'' \<mapsto> 269, CHR ''R'' \<mapsto> 128.5] CHR ''R'' = Some (128.5::real)" "(128.5::real) \<noteq> 0"
    by simp_all
  obtain w2 where d: "calibrate_delta_radius (Some G32) w1 = Inr (True, w2)"
    and o2: "out (zp w2) = out (zp w1) @
           [Msg ''[DR] Calibrating delta radius: target %f, radius %f'' [3 / 100, probe_radius w1],
            Msg ''[DR] Center Z: %1.3fmm (%d steps)'' [real 1000 / 100, real 1000],
            Msg ''[DR] C-%d Z-ave:%1.4f delta: %1.3f'' [1, real 1000 / 100, 0]]"
    and p2: "probes_run w2 = probes_run w1 + 4"
    using calibrate_delta_radius_flat [OF w1(1) k w1(3) f1(2) r sample_gcodes(1,1)] by blast
  have f2: "geom_dirty w2" "endstop_trim w2 = endstop_trim w1"
    using calibrate_delta_radius_frame [OF d] f1 by simp_all
  have pr: "probe_radius w1 = 100"
    using w1(4) w0(8) by simp
  have h: "handleGcode_G32 G32 tilted_world =
          Inr (True, kprintf (Msg ''Basic calibration complete, save settings with M500'' []) w2)"
    using handleGcode_G32_runs_both [OF sample_gcodes(2,2) e d] by simp
  show ?thesis
    unfolding h using f2 t1 o1 o2 p2 w1(2) w0(7,8) pr tilted_worlds(5)
    by (simp add: sample_gcodes minmax3_def)
qed

theorem null_gcode_is_dereferenced_witness:
  "geom_dirty sample_world \<and>
   require_clean_geometry sample_world = Inl Null_dereference \<and>
   calibrate_delta_endstops default_gcode sample_world = Inl Null_dereference \<and>
   calibrate_delta_radius default_gcode sample_world = Inl Null_dereference"
proof -
  have "geom_dirty sample_world"
    by (simp add: sample_world_def)
  then show ?thesis
    using null_gcode_is_dereferenced [of sample_world] by simp
qed

section \<open>Properties of the runout\<close>









lemma in_runout_update [simp]:
  "in_runout z0 steps (z\<lparr>accelerating := a\<rparr>) = in_runout z0 steps z"
  "in_runout z0 steps (z\<lparr>running := b\<rparr>) = in_runout z0 steps z"
  by (simp_all add: in_runout_def)

lemma runout_limit_update [simp]:
  "runout_limit steps (z\<lparr>accelerating := a\<rparr>) = runout_limit steps z"
  "runout_limit steps (z\<lparr>running := b\<rparr>) = runout_limit steps z"
  "runout_limit steps (z\<lparr>runout_steps := n\<rparr>) = runout_limit steps z"
  by (simp_all add: runout_limit_def)










end
